theory Spec2Isabelle
  imports Main "HOL-Library.Option_ord"
begin

section \<open>Relational schema (shared/schema.ts)\<close>

text \<open>
  Every table of \<^verbatim>\<open>shared/schema.ts\<close> is a list of rows in insertion order. A column
  declared without \<^verbatim>\<open>notNull()\<close> is an \<open>option\<close> (\<open>None\<close> is SQL NULL); a
  \<^verbatim>\<open>serial\<close> primary key draws its value from a sequence kept in the database state;
  \<^verbatim>\<open>defaultNow()\<close> reads the database clock. Timestamps are natural numbers. A string
  is the list of the characters of a JavaScript string.
\<close>

text \<open>
  The errors of the database (by their PostgreSQL names), of drizzle (\<open>NoValuesToSet\<close>)
  and of the file system.
\<close>

datatype error =
    NumericValueOutOfRange
  | CharacterNotInRepertoire
  | SequenceGeneratorLimitExceeded
  | UniqueViolation
  | NotNullViolation
  | InvalidTextRepresentation
  | NoValuesToSet
  | FsError

text \<open>An optional, nullable property of a JavaScript object.\<close>

datatype 'a field = Undefined | Null | Val 'a

record user =
  u_id :: int
  username :: string
  password :: string
  avatar :: "string option"
  bio :: "string option"
  u_createdAt :: "nat option"

record video =
  v_id :: int
  title :: string
  description :: "string option"
  thumbnail :: string
  videoUrl :: string
  category :: string
  v_userId :: int
  views :: "int option"
  likes :: "int option"
  dislikes :: "int option"
  v_createdAt :: "nat option"
  featured :: "bool option"

record watchlist_row =
  w_id :: int
  w_userId :: int
  w_videoId :: int
  addedAt :: "nat option"

text \<open>The tables \<^verbatim>\<open>likes\<close> and \<^verbatim>\<open>dislikes\<close> have the same columns.\<close>

record like_row =
  l_userId :: int
  l_videoId :: int
  l_createdAt :: "nat option"

type_synonym dislike_row = like_row

record comment =
  c_id :: int
  content :: string
  c_userId :: int
  c_videoId :: int
  c_createdAt :: "nat option"

record insert_user =
  iu_username :: string
  iu_password :: string
  iu_avatar :: "string field"

record update_user =
  uu_username :: "string field"
  uu_password :: "string field"
  uu_avatar :: "string field"
  uu_bio :: "string field"

record insert_video =
  iv_title :: string
  iv_description :: "string field"
  iv_thumbnail :: string
  iv_videoUrl :: string
  iv_category :: string
  iv_userId :: int
  iv_featured :: "bool field"

record update_video =
  uv_title :: string
  uv_description :: "string field"
  uv_thumbnail :: string
  uv_category :: string
  uv_featured :: "bool field"

record insert_watchlist =
  iw_userId :: int
  iw_videoId :: int

record insert_comment =
  ic_content :: string
  ic_userId :: int
  ic_videoId :: int

record update_comment =
  uc_content :: string

record db =
  users_tbl :: "user list"
  videos_tbl :: "video list"
  watchlist_tbl :: "watchlist_row list"
  likes_tbl :: "like_row list"
  dislikes_tbl :: "dislike_row list"
  comments_tbl :: "comment list"
  users_seq :: int
  videos_seq :: int
  watchlist_seq :: int
  comments_seq :: int
  clock :: nat

definition empty_db :: db where
  "empty_db = \<lparr>users_tbl = [], videos_tbl = [], watchlist_tbl = [], likes_tbl = [],
     dislikes_tbl = [], comments_tbl = [], users_seq = 1, videos_seq = 1,
     watchlist_seq = 1, comments_seq = 1, clock = 0\<rparr>"

section \<open>Asynchronous calls that may throw\<close>

text \<open>
  An \<^verbatim>\<open>async\<close> function over a state \<open>'s\<close> returns the new state together with either
  the value it resolves to (\<open>Inr\<close>) or the error it throws (\<open>Inl\<close>). \<open>await m f\<close> runs
  \<open>m\<close> and continues with \<open>f\<close> on its value; a thrown error skips the continuation.
\<close>

type_synonym ('a, 's) prog = "'s \<Rightarrow> (error + 'a) \<times> 's"

definition ret :: "'a \<Rightarrow> ('a, 's) prog" where
  "ret x = (\<lambda>s. (Inr x, s))"

definition throw :: "error \<Rightarrow> ('a, 's) prog" where
  "throw e = (\<lambda>s. (Inl e, s))"

definition await :: "('a, 's) prog \<Rightarrow> ('a \<Rightarrow> ('b, 's) prog) \<Rightarrow> ('b, 's) prog" where
  "await m f = (\<lambda>s. case m s of (Inl e, s') \<Rightarrow> (Inl e, s') | (Inr x, s') \<Rightarrow> f x s')"

text \<open>The first element of a result array: \<^verbatim>\<open>result[0]\<close>, \<^verbatim>\<open>undefined\<close> when empty.\<close>

definition first :: "'a list \<Rightarrow> 'a option" where
  "first xs = (case xs of [] \<Rightarrow> None | x # _ \<Rightarrow> Some x)"

section \<open>SQL statements\<close>

text \<open>
  The values of a statement are sent as parameters and converted to the type of their
  column before the statement runs: a number outside the signed 32 bits of \<^verbatim>\<open>integer\<close>
  and a text holding the character U+0000 are rejected, in the order of the parameters,
  and the statement changes nothing. (The parameter of \<^verbatim>\<open>LIMIT\<close> is a signed 64-bit
  number.)
\<close>

datatype param = PInt int | PBigint int | PText string

definition int4 :: "int \<Rightarrow> bool" where
  "int4 n = (- 2147483648 \<le> n \<and> n \<le> 2147483647)"

definition int8 :: "int \<Rightarrow> bool" where
  "int8 n = (- 9223372036854775808 \<le> n \<and> n \<le> 9223372036854775807)"

definition valid_text :: "string \<Rightarrow> bool" where
  "valid_text t = (CHR 0x00 \<notin> set t)"

fun rejected :: "param list \<Rightarrow> error option" where
  "rejected [] = None"
| "rejected (PInt n # ps) = (if int4 n then rejected ps else Some NumericValueOutOfRange)"
| "rejected (PBigint n # ps) = (if int8 n then rejected ps else Some NumericValueOutOfRange)"
| "rejected (PText t # ps) = (if valid_text t then rejected ps else Some CharacterNotInRepertoire)"

definition bound :: "param list \<Rightarrow> ('a, 's) prog \<Rightarrow> ('a, 's) prog" where
  "bound ps statement = (case rejected ps of Some e \<Rightarrow> throw e | None \<Rightarrow> statement)"

text \<open>The parameter of an optional property: none when it is \<^verbatim>\<open>undefined\<close> or \<^verbatim>\<open>null\<close>.\<close>

definition text_param :: "string field \<Rightarrow> param list" where
  "text_param f = (case f of Val t \<Rightarrow> [PText t] | _ \<Rightarrow> [])"

text \<open>
  PostgreSQL \<^verbatim>\<open>integer\<close> is a signed 32-bit number: arithmetic on NULL is NULL, and a
  result outside the range raises an error instead of wrapping.
\<close>

definition sql_add :: "int option \<Rightarrow> int \<Rightarrow> error + int option" where
  "sql_add c k =
     (case c of
        None \<Rightarrow> Inr None
      | Some n \<Rightarrow>
          if n + k > 2147483647 \<or> n + k < - 2147483648 then Inl NumericValueOutOfRange
          else Inr (Some (n + k)))"

text \<open>
  The sequence of a \<^verbatim>\<open>serial\<close> column counts up to the largest 32-bit number; drawing
  from it after that is an error.
\<close>

definition exhausted :: "int \<Rightarrow> bool" where
  "exhausted next = (next > 2147483647)"

text \<open>\<^verbatim>\<open>SELECT * FROM table WHERE p\<close>\<close>

definition select_where :: "(db \<Rightarrow> 'r list) \<Rightarrow> ('r \<Rightarrow> bool) \<Rightarrow> ('r list, db) prog" where
  "select_where tbl p = (\<lambda>s. (Inr (filter p (tbl s)), s))"

text \<open>
  \<^verbatim>\<open>UPDATE ... SET ... WHERE p RETURNING *\<close>: the new table and the updated rows. The
  statement fails as a whole when the new value of one row cannot be computed.
\<close>

fun update_rows ::
  "('r \<Rightarrow> bool) \<Rightarrow> ('r \<Rightarrow> error + 'r) \<Rightarrow> 'r list \<Rightarrow> error + ('r list \<times> 'r list)" where
  "update_rows p f [] = Inr ([], [])"
| "update_rows p f (r # rs) =
     (if p r then
        (case f r of
           Inl e \<Rightarrow> Inl e
         | Inr r' \<Rightarrow>
             (case update_rows p f rs of
                Inl e \<Rightarrow> Inl e
              | Inr (t, u) \<Rightarrow> Inr (r' # t, r' # u)))
      else
        (case update_rows p f rs of
           Inl e \<Rightarrow> Inl e
         | Inr (t, u) \<Rightarrow> Inr (r # t, u)))"

definition update_videos ::
  "(video \<Rightarrow> bool) \<Rightarrow> (video \<Rightarrow> error + video) \<Rightarrow> (video list, db) prog" where
  "update_videos p f = (\<lambda>s.
     case update_rows p f (videos_tbl s) of
       Inl e \<Rightarrow> (Inl e, s)
     | Inr (t, u) \<Rightarrow> (Inr u, s\<lparr>videos_tbl := t\<rparr>))"

definition update_users ::
  "(user \<Rightarrow> bool) \<Rightarrow> (user \<Rightarrow> error + user) \<Rightarrow> (user list, db) prog" where
  "update_users p f = (\<lambda>s.
     case update_rows p f (users_tbl s) of
       Inl e \<Rightarrow> (Inl e, s)
     | Inr (t, u) \<Rightarrow> (Inr u, s\<lparr>users_tbl := t\<rparr>))"

definition update_comments ::
  "(comment \<Rightarrow> bool) \<Rightarrow> (comment \<Rightarrow> error + comment) \<Rightarrow> (comment list, db) prog" where
  "update_comments p f = (\<lambda>s.
     case update_rows p f (comments_tbl s) of
       Inl e \<Rightarrow> (Inl e, s)
     | Inr (t, u) \<Rightarrow> (Inr u, s\<lparr>comments_tbl := t\<rparr>))"

text \<open>
  \<^verbatim>\<open>INSERT ... RETURNING *\<close>, giving the inserted row. The tables \<^verbatim>\<open>likes\<close> and
  \<^verbatim>\<open>dislikes\<close> have the primary key (user_id, video_id): a second row with the same key
  is rejected.
\<close>

definition same_key :: "int \<Rightarrow> int \<Rightarrow> like_row \<Rightarrow> bool" where
  "same_key u v r = (l_userId r = u \<and> l_videoId r = v)"

definition insert_likes :: "int \<Rightarrow> int \<Rightarrow> (like_row, db) prog" where
  "insert_likes u v =
     bound [PInt u, PInt v] (\<lambda>s.
       if \<exists>r \<in> set (likes_tbl s). same_key u v r then (Inl UniqueViolation, s)
       else
         (let row = \<lparr>l_userId = u, l_videoId = v, l_createdAt = Some (clock s)\<rparr>
          in (Inr row, s\<lparr>likes_tbl := likes_tbl s @ [row]\<rparr>)))"

definition insert_dislikes :: "int \<Rightarrow> int \<Rightarrow> (dislike_row, db) prog" where
  "insert_dislikes u v =
     bound [PInt u, PInt v] (\<lambda>s.
       if \<exists>r \<in> set (dislikes_tbl s). same_key u v r then (Inl UniqueViolation, s)
       else
         (let row = \<lparr>l_userId = u, l_videoId = v, l_createdAt = Some (clock s)\<rparr>
          in (Inr row, s\<lparr>dislikes_tbl := dislikes_tbl s @ [row]\<rparr>)))"

text \<open>\<^verbatim>\<open>DELETE ... WHERE p RETURNING *\<close>, giving the deleted rows.\<close>

definition delete_likes :: "(like_row \<Rightarrow> bool) \<Rightarrow> (like_row list, db) prog" where
  "delete_likes p = (\<lambda>s.
     (Inr (filter p (likes_tbl s)), s\<lparr>likes_tbl := filter (\<lambda>r. \<not> p r) (likes_tbl s)\<rparr>))"

definition delete_dislikes :: "(dislike_row \<Rightarrow> bool) \<Rightarrow> (dislike_row list, db) prog" where
  "delete_dislikes p = (\<lambda>s.
     (Inr (filter p (dislikes_tbl s)),
      s\<lparr>dislikes_tbl := filter (\<lambda>r. \<not> p r) (dislikes_tbl s)\<rparr>))"

text \<open>
  \<^verbatim>\<open>db.transaction(async (tx) => ...)\<close>: when the callback throws, the transaction is
  rolled back and the error is thrown again; the tables are those before the call. (No
  transaction of this program draws from a sequence.)
\<close>

definition transaction :: "('a, db) prog \<Rightarrow> ('a, db) prog" where
  "transaction body = (\<lambda>s.
     case body s of
       (Inl e, _) \<Rightarrow> (Inl e, s)
     | (Inr x, s') \<Rightarrow> (Inr x, s'))"

text \<open>
  \<^verbatim>\<open>x ILIKE pattern\<close>: in the pattern \<open>%\<close> matches any sequence of characters, \<open>_\<close> any
  one character, and a backslash takes the next character literally; letters match
  regardless of case (ASCII letters here).
\<close>

definition lower :: "char \<Rightarrow> char" where
  "lower c =
     (case map_of (zip ''ABCDEFGHIJKLMNOPQRSTUVWXYZ'' ''abcdefghijklmnopqrstuvwxyz'') c of
        Some l \<Rightarrow> l
      | None \<Rightarrow> c)"

fun like_match :: "string \<Rightarrow> string \<Rightarrow> bool" where
  "like_match [] s = (s = [])"
| "like_match (c # p) [] = (c = CHR ''%'' \<and> like_match p [])"
| "like_match (c # p) (x # s) =
     (if c = CHR ''%'' then like_match p (x # s) \<or> like_match (c # p) s
      else if c = CHR 0x5C then
        (case p of [] \<Rightarrow> False | d # p' \<Rightarrow> x = d \<and> like_match p' s)
      else if c = CHR ''_'' then like_match p s
      else c = x \<and> like_match p s)"

definition ilike :: "string \<Rightarrow> string \<Rightarrow> bool" where
  "ilike x pattern = like_match (map lower pattern) (map lower x)"

section \<open>DatabaseStorage (server/storage.ts)\<close>

subsection \<open>User operations\<close>

definition getUser :: "int \<Rightarrow> (user option, db) prog" where
  "getUser i =
     await (bound [PInt i] (select_where users_tbl (\<lambda>u. u_id u = i))) (\<lambda>result.
     ret (first result))"

definition getUserByUsername :: "string \<Rightarrow> (user option, db) prog" where
  "getUserByUsername n =
     await (bound [PText n] (select_where users_tbl (\<lambda>u. username u = n))) (\<lambda>result.
     ret (first result))"

definition null_of :: "'a field \<Rightarrow> 'a option" where
  "null_of f = (case f of Val x \<Rightarrow> Some x | _ \<Rightarrow> None)"

text \<open>
  \<^verbatim>\<open>username\<close> is unique. The sequence value drawn for the new id is consumed even when
  the insert is rejected for its user name.
\<close>

definition createUser :: "insert_user \<Rightarrow> (user, db) prog" where
  "createUser u =
     bound ([PText (iu_username u), PText (iu_password u)] @ text_param (iu_avatar u)) (\<lambda>s.
       if exhausted (users_seq s) then (Inl SequenceGeneratorLimitExceeded, s)
       else if \<exists>r \<in> set (users_tbl s). username r = iu_username u
       then (Inl UniqueViolation, s\<lparr>users_seq := users_seq s + 1\<rparr>)
       else
         (let row = \<lparr>u_id = users_seq s, username = iu_username u, password = iu_password u,
                     avatar = null_of (iu_avatar u), bio = None,
                     u_createdAt = Some (clock s)\<rparr>
          in (Inr row, s\<lparr>users_tbl := users_tbl s @ [row], users_seq := users_seq s + 1\<rparr>)))"

text \<open>
  \<^verbatim>\<open>.set(updates)\<close> leaves a column alone when its property is \<^verbatim>\<open>undefined\<close>, stores NULL
  for \<^verbatim>\<open>null\<close>, and refuses an object without any defined property.
\<close>

definition set_notnull :: "'a field \<Rightarrow> 'a \<Rightarrow> error + 'a" where
  "set_notnull f old = (case f of Undefined \<Rightarrow> Inr old | Null \<Rightarrow> Inl NotNullViolation | Val x \<Rightarrow> Inr x)"

definition set_nullable :: "'a field \<Rightarrow> 'a option \<Rightarrow> 'a option" where
  "set_nullable f old = (case f of Undefined \<Rightarrow> old | Null \<Rightarrow> None | Val x \<Rightarrow> Some x)"

definition set_user :: "user list \<Rightarrow> update_user \<Rightarrow> user \<Rightarrow> error + user" where
  "set_user tbl upd r =
     (case set_notnull (uu_username upd) (username r) of
        Inl e \<Rightarrow> Inl e
      | Inr n \<Rightarrow>
          (case set_notnull (uu_password upd) (password r) of
             Inl e \<Rightarrow> Inl e
           | Inr p \<Rightarrow>
               if \<exists>r' \<in> set tbl. u_id r' \<noteq> u_id r \<and> username r' = n then Inl UniqueViolation
               else Inr (r\<lparr>username := n, password := p,
                           avatar := set_nullable (uu_avatar upd) (avatar r),
                           bio := set_nullable (uu_bio upd) (bio r)\<rparr>)))"

definition updateUser :: "int \<Rightarrow> update_user \<Rightarrow> (user option, db) prog" where
  "updateUser i updates =
     (if uu_username updates = Undefined \<and> uu_password updates = Undefined
         \<and> uu_avatar updates = Undefined \<and> uu_bio updates = Undefined
      then throw NoValuesToSet
      else
        await (bound (text_param (uu_username updates) @ text_param (uu_password updates)
                      @ text_param (uu_avatar updates) @ text_param (uu_bio updates)
                      @ [PInt i])
                 (\<lambda>s. update_users (\<lambda>u. u_id u = i) (set_user (users_tbl s) updates) s))
          (\<lambda>result. ret (first result)))"

subsection \<open>Video operations\<close>

definition getVideo :: "int \<Rightarrow> (video option, db) prog" where
  "getVideo i =
     await (bound [PInt i] (select_where videos_tbl (\<lambda>v. v_id v = i))) (\<lambda>result.
     ret (first result))"

definition getAllVideos :: "(video list, db) prog" where
  "getAllVideos = select_where videos_tbl (\<lambda>v. True)"

definition getVideosByCategory :: "string \<Rightarrow> (video list, db) prog" where
  "getVideosByCategory c = bound [PText c] (select_where videos_tbl (\<lambda>v. category v = c))"

definition getFeaturedVideos :: "(video list, db) prog" where
  "getFeaturedVideos = select_where videos_tbl (\<lambda>v. featured v = Some True)"

text \<open>
  \<^verbatim>\<open>ORDER BY views DESC\<close> (NULL sorts first in descending order) with \<^verbatim>\<open>.limit(limit)\<close>:
  drizzle adds the \<^verbatim>\<open>LIMIT\<close> clause only for a number that is at least 0, so for a negative
  limit and for NaN (\<open>None\<close>) all rows are returned.
\<close>

definition desc_key :: "int option \<Rightarrow> int option" where
  "desc_key c = (case c of None \<Rightarrow> None | Some n \<Rightarrow> Some (- n))"

definition getPopularVideos :: "int option \<Rightarrow> (video list, db) prog" where
  "getPopularVideos limit =
     (case limit of
        None \<Rightarrow> (\<lambda>s. (Inr (sort_key (\<lambda>v. desc_key (views v)) (videos_tbl s)), s))
      | Some n \<Rightarrow>
          if 0 \<le> n then
            bound [PBigint n]
              (\<lambda>s. (Inr (take (nat n) (sort_key (\<lambda>v. desc_key (views v)) (videos_tbl s))), s))
          else (\<lambda>s. (Inr (sort_key (\<lambda>v. desc_key (views v)) (videos_tbl s)), s)))"

definition getUserVideos :: "int \<Rightarrow> (video list, db) prog" where
  "getUserVideos userId =
     bound [PInt userId] (select_where videos_tbl (\<lambda>v. v_userId v = userId))"

definition default_false :: "bool field \<Rightarrow> bool option" where
  "default_false f = (case f of Undefined \<Rightarrow> Some False | Null \<Rightarrow> None | Val b \<Rightarrow> Some b)"

definition createVideo :: "insert_video \<Rightarrow> (video, db) prog" where
  "createVideo iv =
     bound ([PText (iv_title iv)] @ text_param (iv_description iv)
            @ [PText (iv_thumbnail iv), PText (iv_videoUrl iv), PText (iv_category iv),
               PInt (iv_userId iv)]) (\<lambda>s.
       if exhausted (videos_seq s) then (Inl SequenceGeneratorLimitExceeded, s)
       else
         (let row = \<lparr>v_id = videos_seq s, title = iv_title iv,
                     description = null_of (iv_description iv), thumbnail = iv_thumbnail iv,
                     videoUrl = iv_videoUrl iv, category = iv_category iv,
                     v_userId = iv_userId iv, views = Some 0, likes = Some 0, dislikes = Some 0,
                     v_createdAt = Some (clock s), featured = default_false (iv_featured iv)\<rparr>
          in (Inr row, s\<lparr>videos_tbl := videos_tbl s @ [row], videos_seq := videos_seq s + 1\<rparr>)))"

definition set_video :: "update_video \<Rightarrow> video \<Rightarrow> video" where
  "set_video upd v =
     v\<lparr>title := uv_title upd,
       description := set_nullable (uv_description upd) (description v),
       thumbnail := uv_thumbnail upd,
       category := uv_category upd,
       featured := set_nullable (uv_featured upd) (featured v)\<rparr>"

definition updateVideo :: "int \<Rightarrow> update_video \<Rightarrow> (video option, db) prog" where
  "updateVideo i updates =
     await (bound ([PText (uv_title updates)] @ text_param (uv_description updates)
                   @ [PText (uv_thumbnail updates), PText (uv_category updates), PInt i])
              (update_videos (\<lambda>v. v_id v = i) (\<lambda>v. Inr (set_video updates v))))
       (\<lambda>result. ret (first result))"

definition deleteVideo :: "int \<Rightarrow> (bool, db) prog" where
  "deleteVideo i =
     bound [PInt i] (\<lambda>s.
       let result = filter (\<lambda>v. v_id v = i) (videos_tbl s)
       in (Inr (length result > 0),
           s\<lparr>videos_tbl := filter (\<lambda>v. v_id v \<noteq> i) (videos_tbl s)\<rparr>))"

definition bump_views :: "int \<Rightarrow> video \<Rightarrow> error + video" where
  "bump_views k v = (case sql_add (views v) k of Inl e \<Rightarrow> Inl e | Inr n \<Rightarrow> Inr (v\<lparr>views := n\<rparr>))"

definition bump_likes :: "int \<Rightarrow> video \<Rightarrow> error + video" where
  "bump_likes k v = (case sql_add (likes v) k of Inl e \<Rightarrow> Inl e | Inr n \<Rightarrow> Inr (v\<lparr>likes := n\<rparr>))"

definition bump_dislikes :: "int \<Rightarrow> video \<Rightarrow> error + video" where
  "bump_dislikes k v =
     (case sql_add (dislikes v) k of Inl e \<Rightarrow> Inl e | Inr n \<Rightarrow> Inr (v\<lparr>dislikes := n\<rparr>))"

definition incrementViews :: "int \<Rightarrow> (video option, db) prog" where
  "incrementViews i =
     await (bound [PInt i] (update_videos (\<lambda>v. v_id v = i) (bump_views 1)))
       (\<lambda>result. ret (first result))"

definition searchVideos :: "string \<Rightarrow> (video list, db) prog" where
  "searchVideos query =
     (let searchPattern = ''%'' @ query @ ''%''
      in bound [PText searchPattern, PText searchPattern]
           (select_where videos_tbl
              (\<lambda>v. ilike (title v) searchPattern
                    \<or> (case description v of None \<Rightarrow> False
                        | Some d \<Rightarrow> ilike d searchPattern))))"

subsection \<open>Watchlist operations\<close>

definition in_watchlist :: "int \<Rightarrow> int \<Rightarrow> watchlist_row \<Rightarrow> bool" where
  "in_watchlist u v r = (w_userId r = u \<and> w_videoId r = v)"

text \<open>The inner join keeps one result per pair of a watchlist row and a video with its id.\<close>

definition getWatchlist :: "int \<Rightarrow> (video list, db) prog" where
  "getWatchlist userId =
     bound [PInt userId] (\<lambda>s.
       let rows = sort_key (\<lambda>w. desc_key (map_option int (addedAt w)))
                    (filter (\<lambda>w. w_userId w = userId) (watchlist_tbl s))
       in (Inr (concat (map (\<lambda>w. filter (\<lambda>v. v_id v = w_videoId w) (videos_tbl s)) rows)), s))"

definition insert_watchlist_row :: "insert_watchlist \<Rightarrow> (watchlist_row, db) prog" where
  "insert_watchlist_row item =
     bound [PInt (iw_userId item), PInt (iw_videoId item)] (\<lambda>s.
       if exhausted (watchlist_seq s) then (Inl SequenceGeneratorLimitExceeded, s)
       else
         (let row = \<lparr>w_id = watchlist_seq s, w_userId = iw_userId item,
                     w_videoId = iw_videoId item, addedAt = Some (clock s)\<rparr>
          in (Inr row, s\<lparr>watchlist_tbl := watchlist_tbl s @ [row],
                          watchlist_seq := watchlist_seq s + 1\<rparr>)))"

definition addToWatchlist :: "insert_watchlist \<Rightarrow> (watchlist_row, db) prog" where
  "addToWatchlist item =
     await (bound [PInt (iw_userId item), PInt (iw_videoId item)]
              (select_where watchlist_tbl (in_watchlist (iw_userId item) (iw_videoId item))))
       (\<lambda>existing.
          case existing of
            e # _ \<Rightarrow> ret e
          | [] \<Rightarrow> insert_watchlist_row item)"

definition removeFromWatchlist :: "int \<Rightarrow> int \<Rightarrow> (bool, db) prog" where
  "removeFromWatchlist userId videoId =
     bound [PInt userId, PInt videoId] (\<lambda>s.
       let result = filter (in_watchlist userId videoId) (watchlist_tbl s)
       in (Inr (length result > 0),
           s\<lparr>watchlist_tbl := filter (\<lambda>r. \<not> in_watchlist userId videoId r) (watchlist_tbl s)\<rparr>))"

definition isInWatchlist :: "int \<Rightarrow> int \<Rightarrow> (bool, db) prog" where
  "isInWatchlist userId videoId =
     await (bound [PInt userId, PInt videoId]
              (select_where watchlist_tbl (in_watchlist userId videoId))) (\<lambda>result.
     ret (length result > 0))"

subsection \<open>Likes operations\<close>

definition likeVideo :: "int \<Rightarrow> int \<Rightarrow> (like_row, db) prog" where
  "likeVideo userId videoId =
     await (bound [PInt userId, PInt videoId]
              (select_where likes_tbl (same_key userId videoId)))
       (\<lambda>existing.
          case existing of
            e # _ \<Rightarrow> ret e
          | [] \<Rightarrow>
              transaction
                (await (insert_likes userId videoId) (\<lambda>likeResult.
                 await (bound [PInt videoId]
                          (update_videos (\<lambda>v. v_id v = videoId) (bump_likes 1))) (\<lambda>_.
                 ret likeResult))))"

definition unlikeVideo :: "int \<Rightarrow> int \<Rightarrow> (bool, db) prog" where
  "unlikeVideo userId videoId =
     transaction
       (await (bound [PInt userId, PInt videoId] (delete_likes (same_key userId videoId)))
          (\<lambda>deleteResult.
             if length deleteResult > 0 then
               await (bound [PInt videoId]
                        (update_videos (\<lambda>v. v_id v = videoId) (bump_likes (- 1)))) (\<lambda>_.
               ret (length deleteResult > 0))
             else ret (length deleteResult > 0)))"

definition isVideoLiked :: "int \<Rightarrow> int \<Rightarrow> (bool, db) prog" where
  "isVideoLiked userId videoId =
     await (bound [PInt userId, PInt videoId]
              (select_where likes_tbl (same_key userId videoId))) (\<lambda>result.
     ret (length result > 0))"

subsection \<open>Dislikes operations\<close>

definition dislikeVideo :: "int \<Rightarrow> int \<Rightarrow> (dislike_row, db) prog" where
  "dislikeVideo userId videoId =
     await (bound [PInt userId, PInt videoId]
              (select_where dislikes_tbl (same_key userId videoId)))
       (\<lambda>existing.
          case existing of
            e # _ \<Rightarrow> ret e
          | [] \<Rightarrow>
              transaction
                (await (insert_dislikes userId videoId) (\<lambda>dislikeResult.
                 await (bound [PInt videoId]
                          (update_videos (\<lambda>v. v_id v = videoId) (bump_dislikes 1))) (\<lambda>_.
                 ret dislikeResult))))"

definition undislikeVideo :: "int \<Rightarrow> int \<Rightarrow> (bool, db) prog" where
  "undislikeVideo userId videoId =
     transaction
       (await (bound [PInt userId, PInt videoId] (delete_dislikes (same_key userId videoId)))
          (\<lambda>deleteResult.
             if length deleteResult > 0 then
               await (bound [PInt videoId]
                        (update_videos (\<lambda>v. v_id v = videoId) (bump_dislikes (- 1)))) (\<lambda>_.
               ret (length deleteResult > 0))
             else ret (length deleteResult > 0)))"

definition isVideoDisliked :: "int \<Rightarrow> int \<Rightarrow> (bool, db) prog" where
  "isVideoDisliked userId videoId =
     await (bound [PInt userId, PInt videoId]
              (select_where dislikes_tbl (same_key userId videoId))) (\<lambda>result.
     ret (length result > 0))"

subsection \<open>Comments operations\<close>

definition getVideoComments :: "int \<Rightarrow> ((comment \<times> user) list, db) prog" where
  "getVideoComments videoId =
     bound [PInt videoId] (\<lambda>s.
       let rows = sort_key (\<lambda>c. desc_key (map_option int (c_createdAt c)))
                    (filter (\<lambda>c. c_videoId c = videoId) (comments_tbl s))
       in (Inr (concat (map (\<lambda>c. map (\<lambda>u. (c, u))
                                    (filter (\<lambda>u. u_id u = c_userId c) (users_tbl s))) rows)), s))"

definition createComment :: "insert_comment \<Rightarrow> (comment, db) prog" where
  "createComment c =
     bound [PText (ic_content c), PInt (ic_userId c), PInt (ic_videoId c)] (\<lambda>s.
       if exhausted (comments_seq s) then (Inl SequenceGeneratorLimitExceeded, s)
       else
         (let row = \<lparr>c_id = comments_seq s, content = ic_content c, c_userId = ic_userId c,
                     c_videoId = ic_videoId c, c_createdAt = Some (clock s)\<rparr>
          in (Inr row, s\<lparr>comments_tbl := comments_tbl s @ [row],
                          comments_seq := comments_seq s + 1\<rparr>)))"

definition own_comment :: "int \<Rightarrow> int \<Rightarrow> comment \<Rightarrow> bool" where
  "own_comment i userId c = (c_id c = i \<and> c_userId c = userId)"

definition deleteComment :: "int \<Rightarrow> int \<Rightarrow> (bool, db) prog" where
  "deleteComment i userId =
     bound [PInt i, PInt userId] (\<lambda>s.
       let result = filter (own_comment i userId) (comments_tbl s)
       in (Inr (length result > 0),
           s\<lparr>comments_tbl := filter (\<lambda>c. \<not> own_comment i userId c) (comments_tbl s)\<rparr>))"

definition updateComment :: "int \<Rightarrow> int \<Rightarrow> update_comment \<Rightarrow> (comment option, db) prog" where
  "updateComment i userId updates =
     await (bound [PText (uc_content updates), PInt i, PInt userId]
              (update_comments (own_comment i userId)
                 (\<lambda>c. Inr (c\<lparr>content := uc_content updates\<rparr>))))
       (\<lambda>result. ret (first result))"

section \<open>Effects of the counter statements\<close>

text \<open>
  \<open>out_of_range c k\<close>: the column value \<open>c\<close> plus \<open>k\<close> leaves the 32-bit range.
  \<open>likes_plus videoId k\<close> is the effect of \<^verbatim>\<open>SET likes = likes + k WHERE id = videoId\<close>
  on one row (NULL stays NULL); \<open>dislikes_plus\<close> and \<open>views_plus\<close> likewise.
\<close>

definition out_of_range :: "int option \<Rightarrow> int \<Rightarrow> bool" where
  "out_of_range c k =
     (case c of None \<Rightarrow> False | Some n \<Rightarrow> n + k > 2147483647 \<or> n + k < - 2147483648)"

definition likes_plus :: "int \<Rightarrow> int \<Rightarrow> video \<Rightarrow> video" where
  "likes_plus videoId k x =
     (if v_id x = videoId then x\<lparr>likes := map_option (\<lambda>n. n + k) (likes x)\<rparr> else x)"

definition dislikes_plus :: "int \<Rightarrow> int \<Rightarrow> video \<Rightarrow> video" where
  "dislikes_plus videoId k x =
     (if v_id x = videoId then x\<lparr>dislikes := map_option (\<lambda>n. n + k) (dislikes x)\<rparr> else x)"

definition views_plus :: "int \<Rightarrow> int \<Rightarrow> video \<Rightarrow> video" where
  "views_plus videoId k x =
     (if v_id x = videoId then x\<lparr>views := map_option (\<lambda>n. n + k) (views x)\<rparr> else x)"

definition new_row :: "int \<Rightarrow> int \<Rightarrow> db \<Rightarrow> like_row" where
  "new_row u v s = \<lparr>l_userId = u, l_videoId = v, l_createdAt = Some (clock s)\<rparr>"

definition new_item :: "insert_watchlist \<Rightarrow> db \<Rightarrow> watchlist_row" where
  "new_item item s =
     \<lparr>w_id = watchlist_seq s, w_userId = iw_userId item, w_videoId = iw_videoId item,
      addedAt = Some (clock s)\<rparr>"

section \<open>Sample states\<close>

definition sample_video :: video where
  "sample_video =
     \<lparr>v_id = 1, title = ''Jungle Run'', description = Some ''A gorilla runs'',
      thumbnail = ''/uploads/t.png'', videoUrl = ''/uploads/v.mp4'', category = ''Action'',
      v_userId = 2, views = Some 0, likes = Some 0, dislikes = Some 0,
      v_createdAt = Some 0, featured = Some False\<rparr>"

definition sample_db :: db where
  "sample_db = empty_db\<lparr>videos_tbl := [sample_video], videos_seq := 2\<rparr>"

text \<open>A video whose counters have reached the largest 32-bit value.\<close>

definition saturated_db :: db where
  "saturated_db =
     empty_db\<lparr>videos_tbl := [sample_video\<lparr>views := Some 2147483647, likes := Some 2147483647,
                                            dislikes := Some 2147483647\<rparr>],
              videos_seq := 2\<rparr>"

text \<open>User 7 has liked, disliked and bookmarked video 1.\<close>

definition liked_db :: db where
  "liked_db =
     empty_db\<lparr>videos_tbl := [sample_video\<lparr>likes := Some 1, dislikes := Some 1\<rparr>],
              videos_seq := 2,
              likes_tbl := [\<lparr>l_userId = 7, l_videoId = 1, l_createdAt = Some 0\<rparr>],
              dislikes_tbl := [\<lparr>l_userId = 7, l_videoId = 1, l_createdAt = Some 0\<rparr>],
              watchlist_tbl := [\<lparr>w_id = 1, w_userId = 7, w_videoId = 1, addedAt = Some 0\<rparr>],
              watchlist_seq := 2\<rparr>"

section \<open>Sequences of storage calls\<close>

text \<open>
  The calls of \<^verbatim>\<open>IStorage\<close> that write, and the passing of time on the database clock.
  \<open>perform\<close> makes one call and keeps the state it leaves (the state the call leaves when
  it throws included); \<open>run_calls\<close> makes the calls of a list in order.
\<close>

datatype storage_call =
    CreateUser insert_user
  | UpdateUser int update_user
  | CreateVideo insert_video
  | UpdateVideo int update_video
  | DeleteVideo int
  | IncrementViews int
  | AddToWatchlist insert_watchlist
  | RemoveFromWatchlist int int
  | LikeVideo int int
  | UnlikeVideo int int
  | DislikeVideo int int
  | UndislikeVideo int int
  | CreateComment insert_comment
  | DeleteComment int int
  | UpdateComment int int update_comment
  | Tick

fun perform :: "storage_call \<Rightarrow> db \<Rightarrow> db" where
  "perform (CreateUser u) s = snd (createUser u s)"
| "perform (UpdateUser i upd) s = snd (updateUser i upd s)"
| "perform (CreateVideo iv) s = snd (createVideo iv s)"
| "perform (UpdateVideo i upd) s = snd (updateVideo i upd s)"
| "perform (DeleteVideo i) s = snd (deleteVideo i s)"
| "perform (IncrementViews i) s = snd (incrementViews i s)"
| "perform (AddToWatchlist item) s = snd (addToWatchlist item s)"
| "perform (RemoveFromWatchlist u v) s = snd (removeFromWatchlist u v s)"
| "perform (LikeVideo u v) s = snd (likeVideo u v s)"
| "perform (UnlikeVideo u v) s = snd (unlikeVideo u v s)"
| "perform (DislikeVideo u v) s = snd (dislikeVideo u v s)"
| "perform (UndislikeVideo u v) s = snd (undislikeVideo u v s)"
| "perform (CreateComment c) s = snd (createComment c s)"
| "perform (DeleteComment i u) s = snd (deleteComment i u s)"
| "perform (UpdateComment i u upd) s = snd (updateComment i u upd s)"
| "perform Tick s = s\<lparr>clock := clock s + 1\<rparr>"

definition run_calls :: "storage_call list \<Rightarrow> db \<Rightarrow> db" where
  "run_calls cs s = fold perform cs s"

text \<open>
  The handlers of POST /api/likes and POST /api/dislikes call \<open>likeVideo\<close> and
  \<open>dislikeVideo\<close> only after \<open>getVideo\<close> has found the video. \<open>run_checked\<close> makes the
  calls of a list in order and skips a like or dislike of a video that \<open>getVideo\<close> does
  not find.
\<close>

definition video_found :: "int \<Rightarrow> db \<Rightarrow> bool" where
  "video_found v s = (case fst (getVideo v s) of Inr (Some _) \<Rightarrow> True | _ \<Rightarrow> False)"

fun checked :: "storage_call \<Rightarrow> db \<Rightarrow> bool" where
  "checked (LikeVideo u v) s = video_found v s"
| "checked (DislikeVideo u v) s = video_found v s"
| "checked _ s = True"

definition run_checked :: "storage_call list \<Rightarrow> db \<Rightarrow> db" where
  "run_checked cs s = fold (\<lambda>c s. if checked c s then perform c s else s) cs s"

text \<open>The number of rows of a likes or dislikes table for one video.\<close>

definition rows_for :: "int \<Rightarrow> like_row list \<Rightarrow> int" where
  "rows_for v tbl = int (length (filter (\<lambda>r. l_videoId r = v) tbl))"

definition counters_match :: "db \<Rightarrow> bool" where
  "counters_match s =
     (\<forall>x \<in> set (videos_tbl s).
        likes x = Some (rows_for (v_id x) (likes_tbl s))
        \<and> dislikes x = Some (rows_for (v_id x) (dislikes_tbl s)))"

text \<open>
  What the storage calls keep true besides: video ids and the video ids of like and
  dislike rows lie below the next value of the id sequence, and no (user, video) key
  occurs twice in the likes or in the dislikes table.
\<close>

definition row_key :: "like_row \<Rightarrow> int \<times> int" where
  "row_key r = (l_userId r, l_videoId r)"

definition storage_inv :: "db \<Rightarrow> bool" where
  "storage_inv s =
     (counters_match s
      \<and> (\<forall>x \<in> set (videos_tbl s). v_id x < videos_seq s)
      \<and> (\<forall>r \<in> set (likes_tbl s). l_videoId r < videos_seq s)
      \<and> (\<forall>r \<in> set (dislikes_tbl s). l_videoId r < videos_seq s)
      \<and> distinct (map row_key (likes_tbl s))
      \<and> distinct (map row_key (dislikes_tbl s)))"

text \<open>No video has NULL in its views column.\<close>

definition views_set :: "db \<Rightarrow> bool" where
  "views_set s = (\<forall>x \<in> set (videos_tbl s). views x \<noteq> None)"

text \<open>
  The video ids and the (user, video) keys of the likes, dislikes and watchlist rows are
  32-bit numbers, and the video id sequence has not gone below its start.
\<close>

definition ids_in_range :: "db \<Rightarrow> bool" where
  "ids_in_range s =
     (list_all (\<lambda>x. int4 (v_id x)) (videos_tbl s)
      \<and> list_all (\<lambda>r. int4 (l_userId r) \<and> int4 (l_videoId r)) (likes_tbl s)
      \<and> list_all (\<lambda>r. int4 (l_userId r) \<and> int4 (l_videoId r)) (dislikes_tbl s)
      \<and> list_all (\<lambda>w. int4 (w_userId w) \<and> int4 (w_videoId w)) (watchlist_tbl s)
      \<and> 1 \<le> videos_seq s)"

definition sample_insert :: insert_video where
  "sample_insert =
     \<lparr>iv_title = ''Jungle Run'', iv_description = Val ''A gorilla runs'',
      iv_thumbnail = ''/uploads/t.png'', iv_videoUrl = ''/uploads/v.mp4'',
      iv_category = ''Action'', iv_userId = 2, iv_featured = Val False\<rparr>"

section \<open>The storage interface (IStorage)\<close>

text \<open>
  The route handlers call the object \<^verbatim>\<open>storage\<close> through the interface
  \<^verbatim>\<open>IStorage\<close>: one field per method, named after it, over any state \<open>'s\<close>.
\<close>

record 's IStorage =
  getUser_of :: "int \<Rightarrow> (user option, 's) prog"
  getUserByUsername_of :: "string \<Rightarrow> (user option, 's) prog"
  createUser_of :: "insert_user \<Rightarrow> (user, 's) prog"
  updateUser_of :: "int \<Rightarrow> update_user \<Rightarrow> (user option, 's) prog"
  getVideo_of :: "int \<Rightarrow> (video option, 's) prog"
  getAllVideos_of :: "(video list, 's) prog"
  getVideosByCategory_of :: "string \<Rightarrow> (video list, 's) prog"
  getFeaturedVideos_of :: "(video list, 's) prog"
  getPopularVideos_of :: "int option \<Rightarrow> (video list, 's) prog"
  getUserVideos_of :: "int \<Rightarrow> (video list, 's) prog"
  createVideo_of :: "insert_video \<Rightarrow> (video, 's) prog"
  updateVideo_of :: "int \<Rightarrow> update_video \<Rightarrow> (video option, 's) prog"
  deleteVideo_of :: "int \<Rightarrow> (bool, 's) prog"
  incrementViews_of :: "int \<Rightarrow> (video option, 's) prog"
  searchVideos_of :: "string \<Rightarrow> (video list, 's) prog"
  getWatchlist_of :: "int \<Rightarrow> (video list, 's) prog"
  addToWatchlist_of :: "insert_watchlist \<Rightarrow> (watchlist_row, 's) prog"
  removeFromWatchlist_of :: "int \<Rightarrow> int \<Rightarrow> (bool, 's) prog"
  isInWatchlist_of :: "int \<Rightarrow> int \<Rightarrow> (bool, 's) prog"
  likeVideo_of :: "int \<Rightarrow> int \<Rightarrow> (like_row, 's) prog"
  unlikeVideo_of :: "int \<Rightarrow> int \<Rightarrow> (bool, 's) prog"
  isVideoLiked_of :: "int \<Rightarrow> int \<Rightarrow> (bool, 's) prog"
  dislikeVideo_of :: "int \<Rightarrow> int \<Rightarrow> (dislike_row, 's) prog"
  undislikeVideo_of :: "int \<Rightarrow> int \<Rightarrow> (bool, 's) prog"
  isVideoDisliked_of :: "int \<Rightarrow> int \<Rightarrow> (bool, 's) prog"
  getVideoComments_of :: "int \<Rightarrow> ((comment \<times> user) list, 's) prog"
  createComment_of :: "insert_comment \<Rightarrow> (comment, 's) prog"
  deleteComment_of :: "int \<Rightarrow> int \<Rightarrow> (bool, 's) prog"
  updateComment_of :: "int \<Rightarrow> int \<Rightarrow> update_comment \<Rightarrow> (comment option, 's) prog"

definition DatabaseStorage :: "db IStorage" where
  "DatabaseStorage =
     \<lparr>getUser_of = getUser, getUserByUsername_of = getUserByUsername,
      createUser_of = createUser, updateUser_of = updateUser, getVideo_of = getVideo,
      getAllVideos_of = getAllVideos, getVideosByCategory_of = getVideosByCategory,
      getFeaturedVideos_of = getFeaturedVideos, getPopularVideos_of = getPopularVideos,
      getUserVideos_of = getUserVideos, createVideo_of = createVideo,
      updateVideo_of = updateVideo, deleteVideo_of = deleteVideo,
      incrementViews_of = incrementViews, searchVideos_of = searchVideos,
      getWatchlist_of = getWatchlist, addToWatchlist_of = addToWatchlist,
      removeFromWatchlist_of = removeFromWatchlist, isInWatchlist_of = isInWatchlist,
      likeVideo_of = likeVideo, unlikeVideo_of = unlikeVideo, isVideoLiked_of = isVideoLiked,
      dislikeVideo_of = dislikeVideo, undislikeVideo_of = undislikeVideo,
      isVideoDisliked_of = isVideoDisliked, getVideoComments_of = getVideoComments,
      createComment_of = createComment, deleteComment_of = deleteComment,
      updateComment_of = updateComment\<rparr>"

section \<open>Requests, responses and the upload directory\<close>

text \<open>A value of a JSON or form body.\<close>

datatype jval = JUndefined | JNull | JBool bool | JNum int | JStr string | JObj

text \<open>
  What the handlers read of a request. \<open>user\<close> is \<^verbatim>\<open>req.user\<close>, set when the session
  is authenticated. A numeric parameter is given as the result of \<^verbatim>\<open>parseInt\<close> on it,
  \<open>None\<close> standing for NaN. \<open>query_limit\<close> is \<open>None\<close> when the parameter is absent or
  empty. \<open>body_update\<close> is the body of PUT /api/users/:id at its declared type. The file
  fields hold the names multer gave to the uploaded files.
\<close>

record request =
  user :: "user option"
  params_id :: "int option"
  params_videoId :: "int option"
  params_userId :: "int option"
  params_category :: string
  query_q :: "string option"
  query_limit :: "int option option"
  body_videoId :: "int option"
  body_reason :: jval
  body_content :: jval
  body_title :: jval
  body_description :: jval
  body_thumbnail :: jval
  body_category :: jval
  body_featured :: jval
  body_username :: jval
  body_password :: jval
  body_avatar :: jval
  body_update :: update_user
  files_video :: "string option"
  files_thumbnail :: "string option"
  file_avatar :: "string option"

datatype payload =
    Message string
  | MessageErrors string
  | Videos "video list"
  | VideoJ "video option"
  | Success
  | Terminated int jval
  | FullUser user
  | UserWithoutPassword int string "string option" "string option" "nat option"
  | WatchlistItem watchlist_row
  | LikeJ like_row
  | Flag string bool
  | Comments "(comment \<times> user) list"
  | CommentWithUser "(comment \<times> user) option"
  | CommentJ comment

record response =
  status :: nat
  payload :: payload

text \<open>
  The file system: the working directory of the process (\<^verbatim>\<open>process.cwd()\<close>) and what
  there is at each absolute path, a path being the list of its segments.
\<close>

datatype node = File | Directory

record fsys =
  cwd :: "string list"
  nodes :: "string list \<Rightarrow> node option"

text \<open>
  \<^verbatim>\<open>path.join(dir, rel)\<close> for a normalized absolute \<open>dir\<close>: the segments of \<open>rel\<close> are
  appended, an empty segment and \<^verbatim>\<open>.\<close> are skipped, \<^verbatim>\<open>..\<close> removes the segment before it
  (none at the root), and a slash at the end of \<open>rel\<close> is kept.
\<close>

fun split_slash :: "string \<Rightarrow> string list" where
  "split_slash [] = [[]]"
| "split_slash (c # cs) =
     (if c = CHR ''/'' then [] # split_slash cs
      else (case split_slash cs of x # xs \<Rightarrow> (c # x) # xs | [] \<Rightarrow> [[c]]))"

definition walk :: "string list \<Rightarrow> string \<Rightarrow> string list" where
  "walk dir seg =
     (if seg = [] \<or> seg = ''.'' then dir
      else if seg = ''..'' then butlast dir
      else dir @ [seg])"

record joined =
  segments :: "string list"
  trailing_slash :: bool

definition path_join :: "string list \<Rightarrow> string \<Rightarrow> joined" where
  "path_join dir rel =
     \<lparr>segments = foldl walk dir (split_slash rel),
      trailing_slash = (rel \<noteq> [] \<and> last rel = CHR ''/'')\<rparr>"

text \<open>
  What a system call finds at a path: a file is not found under a path that ends in a
  slash, and no path holding the character U+0000 is valid.
\<close>

definition lookup :: "joined \<Rightarrow> fsys \<Rightarrow> node option" where
  "lookup p fs =
     (if list_all valid_text (segments p) then
        (case nodes fs (segments p) of
           Some File \<Rightarrow> if trailing_slash p then None else Some File
         | n \<Rightarrow> n)
      else None)"

text \<open>
  \<^verbatim>\<open>fs.existsSync\<close>, and \<^verbatim>\<open>fs.unlinkSync\<close>, which removes a file and throws on a
  directory or a missing path.
\<close>

definition existsSync :: "joined \<Rightarrow> fsys \<Rightarrow> bool" where
  "existsSync p fs = (lookup p fs \<noteq> None)"

definition unlinkSync :: "joined \<Rightarrow> (unit, fsys) prog" where
  "unlinkSync p = (\<lambda>fs.
     case lookup p fs of
       Some File \<Rightarrow> (Inr (), fs\<lparr>nodes := (nodes fs)(segments p := None)\<rparr>)
     | _ \<Rightarrow> (Inl FsError, fs))"

text \<open>A handler runs over the storage state and the files.\<close>

definition on_store :: "('a, 's) prog \<Rightarrow> ('a, 's \<times> fsys) prog" where
  "on_store m = (\<lambda>(s, fs). case m s of (r, s') \<Rightarrow> (r, (s', fs)))"

definition on_files :: "('a, fsys) prog \<Rightarrow> ('a, 's \<times> fsys) prog" where
  "on_files m = (\<lambda>(s, fs). case m fs of (r, fs') \<Rightarrow> (r, (s, fs')))"

definition respond :: "nat \<Rightarrow> payload \<Rightarrow> (response, 'w) prog" where
  "respond code p = ret \<lparr>status = code, payload = p\<rparr>"

text \<open>
  \<^verbatim>\<open>try { ... } catch (error) { res.status(500).json({ message }) }\<close> around the body of
  a handler.
\<close>

definition catch500 :: "string \<Rightarrow> (response, 'w) prog \<Rightarrow> 'w \<Rightarrow> response \<times> 'w" where
  "catch500 msg body = (\<lambda>w.
     case body w of
       (Inr res, w') \<Rightarrow> (res, w')
     | (Inl e, w') \<Rightarrow> (\<lparr>status = 500, payload = Message msg\<rparr>, w'))"

definition requireAuth ::
  "request \<Rightarrow> (user \<Rightarrow> 'w \<Rightarrow> response \<times> 'w) \<Rightarrow> 'w \<Rightarrow> response \<times> 'w" where
  "requireAuth req next = (\<lambda>w.
     case user req of
       None \<Rightarrow> (\<lparr>status = 401, payload = Message ''Authentication required''\<rparr>, w)
     | Some u \<Rightarrow> next u w)"

text \<open>
  A storage call that is given NaN for the value of an \<^verbatim>\<open>integer\<close> column is rejected
  by the database: the call throws.
\<close>

definition with_number :: "int option \<Rightarrow> (int \<Rightarrow> ('a, 'w) prog) \<Rightarrow> ('a, 'w) prog" where
  "with_number n f = (case n of None \<Rightarrow> throw InvalidTextRepresentation | Some i \<Rightarrow> f i)"

text \<open>
  The multer middleware has stored the uploaded files before the handler runs: each at
  its file name in the directory \<^verbatim>\<open>uploads\<close> of the working directory, which it creates
  when there is nothing at that path.
\<close>

definition uploadDir :: "fsys \<Rightarrow> joined" where
  "uploadDir fs = path_join (cwd fs) ''uploads''"

definition mkdirSync :: "joined \<Rightarrow> fsys \<Rightarrow> fsys" where
  "mkdirSync p fs = fs\<lparr>nodes := (nodes fs)(segments p \<mapsto> Directory)\<rparr>"

definition stored :: "string option \<Rightarrow> fsys \<Rightarrow> fsys" where
  "stored f fs =
     (case f of
        None \<Rightarrow> fs
      | Some n \<Rightarrow>
          (let fs' = (if existsSync (uploadDir fs) fs then fs else mkdirSync (uploadDir fs) fs)
           in fs'\<lparr>nodes := (nodes fs')(segments (path_join (segments (uploadDir fs)) n)
                                         \<mapsto> File)\<rparr>))"

definition upload :: "string option list \<Rightarrow> ('s \<times> fsys \<Rightarrow> response \<times> 's \<times> fsys)
    \<Rightarrow> 's \<times> fsys \<Rightarrow> response \<times> 's \<times> fsys" where
  "upload names next = (\<lambda>(s, fs). next (s, fold stored names fs))"

text \<open>
  \<^verbatim>\<open>url.replace(/^\/uploads/, 'uploads')\<close> and
  \<^verbatim>\<open>path.join(process.cwd(), ...)\<close> of it; the file there is removed when the path exists.
\<close>

definition replace_uploads :: "string \<Rightarrow> string" where
  "replace_uploads url = (if take 8 url = ''/uploads'' then ''uploads'' @ drop 8 url else url)"

definition media_path :: "string \<Rightarrow> fsys \<Rightarrow> joined" where
  "media_path url fs = path_join (cwd fs) (replace_uploads url)"

definition remove_media :: "string \<Rightarrow> (unit, 's \<times> fsys) prog" where
  "remove_media url =
     (if url \<noteq> [] then
        (\<lambda>(s, fs).
           if existsSync (media_path url fs) fs
           then on_files (unlinkSync (media_path url fs)) (s, fs)
           else ret () (s, fs))
      else ret ())"

text \<open>JavaScript truthiness of a body value.\<close>

definition truthy :: "jval \<Rightarrow> bool" where
  "truthy j =
     (case j of JUndefined \<Rightarrow> False | JNull \<Rightarrow> False | JBool b \<Rightarrow> b | JNum n \<Rightarrow> n \<noteq> 0
      | JStr s \<Rightarrow> s \<noteq> [] | JObj \<Rightarrow> True)"

text \<open>The zod schemas of \<^verbatim>\<open>shared/schema.ts\<close>: \<open>None\<close> when \<^verbatim>\<open>safeParse\<close> fails.\<close>

definition optional_string :: "jval \<Rightarrow> string field option" where
  "optional_string j =
     (case j of JUndefined \<Rightarrow> Some Undefined | JNull \<Rightarrow> Some Null | JStr s \<Rightarrow> Some (Val s)
      | _ \<Rightarrow> None)"

definition insertVideoSchema :: "request \<Rightarrow> user \<Rightarrow> string \<Rightarrow> string \<Rightarrow> insert_video option" where
  "insertVideoSchema req u videoFile thumbnailFile =
     (case (body_title req, body_category req, optional_string (body_description req)) of
        (JStr t, JStr c, Some d) \<Rightarrow>
          Some \<lparr>iv_title = t, iv_description = d,
                iv_thumbnail = ''/uploads/'' @ thumbnailFile,
                iv_videoUrl = ''/uploads/'' @ videoFile, iv_category = c, iv_userId = u_id u,
                iv_featured = Val (body_featured req = JStr ''true'')\<rparr>
      | _ \<Rightarrow> None)"

definition updateVideoSchema :: "request \<Rightarrow> update_video option" where
  "updateVideoSchema req =
     (case (body_title req, body_thumbnail req, body_category req,
            optional_string (body_description req)) of
        (JStr t, JStr th, JStr c, Some d) \<Rightarrow>
          Some \<lparr>uv_title = t, uv_description = d, uv_thumbnail = th, uv_category = c,
                uv_featured = Val (body_featured req = JStr ''true'')\<rparr>
      | _ \<Rightarrow> None)"

definition insertUserSchema :: "request \<Rightarrow> insert_user option" where
  "insertUserSchema req =
     (case (body_username req, body_password req, optional_string (body_avatar req)) of
        (JStr n, JStr p, Some a) \<Rightarrow> Some \<lparr>iu_username = n, iu_password = p, iu_avatar = a\<rparr>
      | _ \<Rightarrow> None)"

definition insertCommentSchema :: "request \<Rightarrow> int \<Rightarrow> int \<Rightarrow> insert_comment option" where
  "insertCommentSchema req userId videoId =
     (case body_content req of
        JStr c \<Rightarrow> Some \<lparr>ic_content = c, ic_userId = userId, ic_videoId = videoId\<rparr>
      | _ \<Rightarrow> None)"

definition updateCommentSchema :: "request \<Rightarrow> update_comment option" where
  "updateCommentSchema req =
     (case body_content req of JStr c \<Rightarrow> Some \<lparr>uc_content = c\<rparr> | _ \<Rightarrow> None)"

definition withoutPassword :: "user \<Rightarrow> payload" where
  "withoutPassword u = UserWithoutPassword (u_id u) (username u) (avatar u) (bio u) (u_createdAt u)"

section \<open>Route handlers (server/routes.ts)\<close>

subsection \<open>Videos\<close>

definition get_api_videos :: "'s IStorage \<Rightarrow> request \<Rightarrow> 's \<times> fsys \<Rightarrow> response \<times> 's \<times> fsys" where
  "get_api_videos storage req =
     catch500 ''Failed to fetch videos''
       (await (on_store (getAllVideos_of storage)) (\<lambda>videos.
        respond 200 (Videos videos)))"

definition get_api_videos_featured ::
  "'s IStorage \<Rightarrow> request \<Rightarrow> 's \<times> fsys \<Rightarrow> response \<times> 's \<times> fsys" where
  "get_api_videos_featured storage req =
     catch500 ''Failed to fetch featured videos''
       (await (on_store (getFeaturedVideos_of storage)) (\<lambda>videos.
        respond 200 (Videos videos)))"

definition get_api_videos_popular ::
  "'s IStorage \<Rightarrow> request \<Rightarrow> 's \<times> fsys \<Rightarrow> response \<times> 's \<times> fsys" where
  "get_api_videos_popular storage req =
     catch500 ''Failed to fetch popular videos''
       (let limit = (case query_limit req of None \<Rightarrow> Some 10 | Some n \<Rightarrow> n)
        in await (on_store (getPopularVideos_of storage limit)) (\<lambda>videos.
           respond 200 (Videos videos)))"

definition get_api_videos_category ::
  "'s IStorage \<Rightarrow> request \<Rightarrow> 's \<times> fsys \<Rightarrow> response \<times> 's \<times> fsys" where
  "get_api_videos_category storage req =
     catch500 ''Failed to fetch videos by category''
       (await (on_store (getVideosByCategory_of storage (params_category req))) (\<lambda>videos.
        respond 200 (Videos videos)))"

definition get_api_videos_search ::
  "'s IStorage \<Rightarrow> request \<Rightarrow> 's \<times> fsys \<Rightarrow> response \<times> 's \<times> fsys" where
  "get_api_videos_search storage req =
     catch500 ''Failed to search videos''
       (case query_q req of
          None \<Rightarrow> respond 400 (Message ''Search query is required'')
        | Some query \<Rightarrow>
            if query = [] then respond 400 (Message ''Search query is required'')
            else await (on_store (searchVideos_of storage query)) (\<lambda>videos.
                 respond 200 (Videos videos)))"

definition get_api_videos_id ::
  "'s IStorage \<Rightarrow> request \<Rightarrow> 's \<times> fsys \<Rightarrow> response \<times> 's \<times> fsys" where
  "get_api_videos_id storage req =
     catch500 ''Failed to fetch video''
       (with_number (params_id req) (\<lambda>i.
        await (on_store (getVideo_of storage i)) (\<lambda>video.
        case video of
          None \<Rightarrow> respond 404 (Message ''Video not found'')
        | Some v \<Rightarrow>
            await (on_store (incrementViews_of storage i)) (\<lambda>_.
            respond 200 (VideoJ (Some v))))))"

definition post_api_videos ::
  "'s IStorage \<Rightarrow> request \<Rightarrow> 's \<times> fsys \<Rightarrow> response \<times> 's \<times> fsys" where
  "post_api_videos storage req =
     requireAuth req (\<lambda>u.
     upload [files_video req, files_thumbnail req]
       (catch500 ''Failed to upload video''
          (case (files_video req, files_thumbnail req) of
             (Some videoFile, Some thumbnailFile) \<Rightarrow>
               (case insertVideoSchema req u videoFile thumbnailFile of
                  None \<Rightarrow> respond 400 (MessageErrors ''Invalid video data'')
                | Some data \<Rightarrow>
                    await (on_store (createVideo_of storage data)) (\<lambda>newVideo.
                    respond 201 (VideoJ (Some newVideo))))
           | _ \<Rightarrow> respond 400 (Message ''Both video and thumbnail are required''))))"

definition put_api_videos_id ::
  "'s IStorage \<Rightarrow> request \<Rightarrow> 's \<times> fsys \<Rightarrow> response \<times> 's \<times> fsys" where
  "put_api_videos_id storage req =
     catch500 ''Failed to update video''
       (with_number (params_id req) (\<lambda>i.
        await (on_store (getVideo_of storage i)) (\<lambda>video.
        case video of
          None \<Rightarrow> respond 404 (Message ''Video not found'')
        | Some v \<Rightarrow>
            (case updateVideoSchema req of
               None \<Rightarrow> respond 400 (MessageErrors ''Invalid update data'')
             | Some data \<Rightarrow>
                 await (on_store (updateVideo_of storage i data)) (\<lambda>updatedVideo.
                 respond 200 (VideoJ updatedVideo))))))"

definition delete_api_videos_id ::
  "'s IStorage \<Rightarrow> request \<Rightarrow> 's \<times> fsys \<Rightarrow> response \<times> 's \<times> fsys" where
  "delete_api_videos_id storage req =
     requireAuth req (\<lambda>u.
     catch500 ''Failed to delete video''
       (with_number (params_id req) (\<lambda>i.
        await (on_store (getVideo_of storage i)) (\<lambda>video.
        case video of
          None \<Rightarrow> respond 404 (Message ''Video not found'')
        | Some v \<Rightarrow>
            (let isAdmin = (u_id u = 1)
             in if \<not> isAdmin \<and> v_userId v \<noteq> u_id u
                then respond 403 (Message ''You can only delete your own videos'')
                else
                  await (remove_media (videoUrl v)) (\<lambda>_.
                  await (remove_media (thumbnail v)) (\<lambda>_.
                  await (on_store (deleteVideo_of storage i)) (\<lambda>_.
                  respond 200 Success))))))))"

definition delete_api_moderation_videos_id ::
  "'s IStorage \<Rightarrow> request \<Rightarrow> 's \<times> fsys \<Rightarrow> response \<times> 's \<times> fsys" where
  "delete_api_moderation_videos_id storage req =
     requireAuth req (\<lambda>u.
     catch500 ''Failed to terminate video''
       (if u_id u \<noteq> 1
        then respond 403 (Message ''Only administrators can terminate videos'')
        else
          with_number (params_id req) (\<lambda>i.
          await (on_store (getVideo_of storage i)) (\<lambda>video.
          case video of
            None \<Rightarrow> respond 404 (Message ''Video not found'')
          | Some v \<Rightarrow>
              (let reason = (if truthy (body_reason req) then body_reason req
                             else JStr ''Violation of community guidelines'')
               in await (remove_media (videoUrl v)) (\<lambda>_.
                  await (remove_media (thumbnail v)) (\<lambda>_.
                  await (on_store (deleteVideo_of storage i)) (\<lambda>_.
                  respond 200 (Terminated i reason)))))))))"

subsection \<open>Users\<close>

definition post_api_users ::
  "'s IStorage \<Rightarrow> request \<Rightarrow> 's \<times> fsys \<Rightarrow> response \<times> 's \<times> fsys" where
  "post_api_users storage req =
     catch500 ''Failed to create user''
       (case insertUserSchema req of
          None \<Rightarrow> respond 400 (MessageErrors ''Invalid user data'')
        | Some data \<Rightarrow>
            await (on_store (getUserByUsername_of storage (iu_username data))) (\<lambda>existingUser.
            case existingUser of
              Some _ \<Rightarrow> respond 409 (Message ''Username already exists'')
            | None \<Rightarrow>
                await (on_store (createUser_of storage data)) (\<lambda>newUser.
                respond 201 (FullUser newUser))))"

definition post_api_users_id_avatar ::
  "'s IStorage \<Rightarrow> request \<Rightarrow> 's \<times> fsys \<Rightarrow> response \<times> 's \<times> fsys" where
  "post_api_users_id_avatar storage req =
     requireAuth req (\<lambda>u.
     upload [file_avatar req]
       (catch500 ''Failed to upload avatar''
          (if params_id req \<noteq> Some (u_id u)
           then respond 403 (Message ''You can only update your own profile'')
           else
             await (on_store (getUser_of storage (u_id u))) (\<lambda>found.
             case found of
               None \<Rightarrow> respond 404 (Message ''User not found'')
             | Some usr \<Rightarrow>
                 (case file_avatar req of
                    None \<Rightarrow> respond 400 (Message ''No file uploaded'')
                  | Some f \<Rightarrow>
                      await (on_store (updateUser_of storage (u_id u)
                               \<lparr>uu_username = Val (username usr), uu_password = Undefined,
                                uu_avatar = Val (''/uploads/'' @ f), uu_bio = Undefined\<rparr>))
                        (\<lambda>updatedUser.
                           case updatedUser of
                             None \<Rightarrow> respond 500 (Message ''Failed to update avatar'')
                           | Some x \<Rightarrow> respond 200 (withoutPassword x)))))))"

definition get_api_users_id ::
  "'s IStorage \<Rightarrow> request \<Rightarrow> 's \<times> fsys \<Rightarrow> response \<times> 's \<times> fsys" where
  "get_api_users_id storage req =
     catch500 ''Failed to fetch user''
       (with_number (params_id req) (\<lambda>i.
        await (on_store (getUser_of storage i)) (\<lambda>found.
        case found of
          None \<Rightarrow> respond 404 (Message ''User not found'')
        | Some usr \<Rightarrow> respond 200 (withoutPassword usr))))"

text \<open>\<^verbatim>\<open>if (updateData.password) delete updateData.password\<close>\<close>

definition delete_password :: "update_user \<Rightarrow> update_user" where
  "delete_password upd =
     (case uu_password upd of
        Val p \<Rightarrow> if p \<noteq> [] then upd\<lparr>uu_password := Undefined\<rparr> else upd
      | _ \<Rightarrow> upd)"

definition put_api_users_id ::
  "'s IStorage \<Rightarrow> request \<Rightarrow> 's \<times> fsys \<Rightarrow> response \<times> 's \<times> fsys" where
  "put_api_users_id storage req =
     requireAuth req (\<lambda>u.
     catch500 ''Failed to update user''
       (if params_id req \<noteq> Some (u_id u)
        then respond 403 (Message ''You can only update your own profile'')
        else
          await (on_store (getUser_of storage (u_id u))) (\<lambda>found.
          case found of
            None \<Rightarrow> respond 404 (Message ''User not found'')
          | Some usr \<Rightarrow>
              await (on_store (updateUser_of storage (u_id u) (delete_password (body_update req))))
                (\<lambda>updatedUser.
                   case updatedUser of
                     None \<Rightarrow> respond 404 (Message ''Failed to update user'')
                   | Some x \<Rightarrow> respond 200 (withoutPassword x)))))"

definition get_api_users_id_videos ::
  "'s IStorage \<Rightarrow> request \<Rightarrow> 's \<times> fsys \<Rightarrow> response \<times> 's \<times> fsys" where
  "get_api_users_id_videos storage req =
     catch500 ''Failed to fetch user videos''
       (with_number (params_id req) (\<lambda>i.
        await (on_store (getUser_of storage i)) (\<lambda>found.
        case found of
          None \<Rightarrow> respond 404 (Message ''User not found'')
        | Some usr \<Rightarrow>
            await (on_store (getUserVideos_of storage i)) (\<lambda>videos.
            respond 200 (Videos videos)))))"

subsection \<open>Watchlist\<close>

definition get_api_watchlist ::
  "'s IStorage \<Rightarrow> request \<Rightarrow> 's \<times> fsys \<Rightarrow> response \<times> 's \<times> fsys" where
  "get_api_watchlist storage req =
     requireAuth req (\<lambda>u.
     catch500 ''Failed to fetch watchlist''
       (await (on_store (getWatchlist_of storage (u_id u))) (\<lambda>videos.
        respond 200 (Videos videos))))"

definition get_api_users_id_watchlist ::
  "'s IStorage \<Rightarrow> request \<Rightarrow> 's \<times> fsys \<Rightarrow> response \<times> 's \<times> fsys" where
  "get_api_users_id_watchlist storage req =
     catch500 ''Failed to fetch watchlist''
       (with_number (params_id req) (\<lambda>userId.
        await (on_store (getWatchlist_of storage userId)) (\<lambda>videos.
        respond 200 (Videos videos))))"

definition post_api_watchlist ::
  "'s IStorage \<Rightarrow> request \<Rightarrow> 's \<times> fsys \<Rightarrow> response \<times> 's \<times> fsys" where
  "post_api_watchlist storage req =
     requireAuth req (\<lambda>u.
     catch500 ''Failed to add to watchlist''
       (case body_videoId req of
          None \<Rightarrow> respond 400 (Message ''Invalid video ID'')
        | Some videoId \<Rightarrow>
            await (on_store (getVideo_of storage videoId)) (\<lambda>video.
            case video of
              None \<Rightarrow> respond 404 (Message ''Video not found'')
            | Some v \<Rightarrow>
                await (on_store (addToWatchlist_of storage
                         \<lparr>iw_userId = u_id u, iw_videoId = videoId\<rparr>)) (\<lambda>newItem.
                respond 201 (WatchlistItem newItem)))))"

definition delete_api_watchlist_videoId ::
  "'s IStorage \<Rightarrow> request \<Rightarrow> 's \<times> fsys \<Rightarrow> response \<times> 's \<times> fsys" where
  "delete_api_watchlist_videoId storage req =
     requireAuth req (\<lambda>u.
     catch500 ''Failed to remove from watchlist''
       (case params_videoId req of
          None \<Rightarrow> respond 400 (Message ''Invalid video ID'')
        | Some videoId \<Rightarrow>
            await (on_store (removeFromWatchlist_of storage (u_id u) videoId)) (\<lambda>result.
            if \<not> result then respond 404 (Message ''Watchlist item not found'')
            else respond 200 Success)))"

definition delete_api_watchlist_userId_videoId ::
  "'s IStorage \<Rightarrow> request \<Rightarrow> 's \<times> fsys \<Rightarrow> response \<times> 's \<times> fsys" where
  "delete_api_watchlist_userId_videoId storage req =
     catch500 ''Failed to remove from watchlist''
       (with_number (params_userId req) (\<lambda>userId.
        with_number (params_videoId req) (\<lambda>videoId.
        await (on_store (removeFromWatchlist_of storage userId videoId)) (\<lambda>result.
        if \<not> result then respond 404 (Message ''Watchlist item not found'')
        else respond 200 Success))))"

definition get_api_watchlist_check_videoId ::
  "'s IStorage \<Rightarrow> request \<Rightarrow> 's \<times> fsys \<Rightarrow> response \<times> 's \<times> fsys" where
  "get_api_watchlist_check_videoId storage req =
     requireAuth req (\<lambda>u.
     catch500 ''Failed to check watchlist status''
       (case params_videoId req of
          None \<Rightarrow> respond 400 (Message ''Invalid video ID'')
        | Some videoId \<Rightarrow>
            await (on_store (isInWatchlist_of storage (u_id u) videoId)) (\<lambda>isInWatchlist.
            respond 200 (Flag ''isInWatchlist'' isInWatchlist))))"

definition get_api_watchlist_check_userId_videoId ::
  "'s IStorage \<Rightarrow> request \<Rightarrow> 's \<times> fsys \<Rightarrow> response \<times> 's \<times> fsys" where
  "get_api_watchlist_check_userId_videoId storage req =
     catch500 ''Failed to check watchlist status''
       (with_number (params_userId req) (\<lambda>userId.
        with_number (params_videoId req) (\<lambda>videoId.
        await (on_store (isInWatchlist_of storage userId videoId)) (\<lambda>isInWatchlist.
        respond 200 (Flag ''isInWatchlist'' isInWatchlist)))))"

subsection \<open>Likes and dislikes\<close>

definition post_api_likes ::
  "'s IStorage \<Rightarrow> request \<Rightarrow> 's \<times> fsys \<Rightarrow> response \<times> 's \<times> fsys" where
  "post_api_likes storage req =
     requireAuth req (\<lambda>u.
     catch500 ''Failed to like video''
       (case body_videoId req of
          None \<Rightarrow> respond 400 (Message ''Invalid video ID'')
        | Some videoId \<Rightarrow>
            await (on_store (getVideo_of storage videoId)) (\<lambda>video.
            case video of
              None \<Rightarrow> respond 404 (Message ''Video not found'')
            | Some v \<Rightarrow>
                await (on_store (likeVideo_of storage (u_id u) videoId)) (\<lambda>like.
                respond 201 (LikeJ like)))))"

definition delete_api_likes_videoId ::
  "'s IStorage \<Rightarrow> request \<Rightarrow> 's \<times> fsys \<Rightarrow> response \<times> 's \<times> fsys" where
  "delete_api_likes_videoId storage req =
     requireAuth req (\<lambda>u.
     catch500 ''Failed to unlike video''
       (case params_videoId req of
          None \<Rightarrow> respond 400 (Message ''Invalid video ID'')
        | Some videoId \<Rightarrow>
            await (on_store (unlikeVideo_of storage (u_id u) videoId)) (\<lambda>result.
            if \<not> result then respond 404 (Message ''Like not found'')
            else respond 200 Success)))"

definition get_api_likes_check_videoId ::
  "'s IStorage \<Rightarrow> request \<Rightarrow> 's \<times> fsys \<Rightarrow> response \<times> 's \<times> fsys" where
  "get_api_likes_check_videoId storage req =
     requireAuth req (\<lambda>u.
     catch500 ''Failed to check like status''
       (case params_videoId req of
          None \<Rightarrow> respond 400 (Message ''Invalid video ID'')
        | Some videoId \<Rightarrow>
            await (on_store (isVideoLiked_of storage (u_id u) videoId)) (\<lambda>isLiked.
            respond 200 (Flag ''isLiked'' isLiked))))"

definition post_api_dislikes ::
  "'s IStorage \<Rightarrow> request \<Rightarrow> 's \<times> fsys \<Rightarrow> response \<times> 's \<times> fsys" where
  "post_api_dislikes storage req =
     requireAuth req (\<lambda>u.
     catch500 ''Failed to dislike video''
       (case body_videoId req of
          None \<Rightarrow> respond 400 (Message ''Invalid video ID'')
        | Some videoId \<Rightarrow>
            await (on_store (getVideo_of storage videoId)) (\<lambda>video.
            case video of
              None \<Rightarrow> respond 404 (Message ''Video not found'')
            | Some v \<Rightarrow>
                await (on_store (dislikeVideo_of storage (u_id u) videoId)) (\<lambda>dislike.
                respond 201 (LikeJ dislike)))))"

definition delete_api_dislikes_videoId ::
  "'s IStorage \<Rightarrow> request \<Rightarrow> 's \<times> fsys \<Rightarrow> response \<times> 's \<times> fsys" where
  "delete_api_dislikes_videoId storage req =
     requireAuth req (\<lambda>u.
     catch500 ''Failed to undislike video''
       (case params_videoId req of
          None \<Rightarrow> respond 400 (Message ''Invalid video ID'')
        | Some videoId \<Rightarrow>
            await (on_store (undislikeVideo_of storage (u_id u) videoId)) (\<lambda>result.
            if \<not> result then respond 404 (Message ''Dislike not found'')
            else respond 200 Success)))"

definition get_api_dislikes_check_videoId ::
  "'s IStorage \<Rightarrow> request \<Rightarrow> 's \<times> fsys \<Rightarrow> response \<times> 's \<times> fsys" where
  "get_api_dislikes_check_videoId storage req =
     requireAuth req (\<lambda>u.
     catch500 ''Failed to check dislike status''
       (case params_videoId req of
          None \<Rightarrow> respond 400 (Message ''Invalid video ID'')
        | Some videoId \<Rightarrow>
            await (on_store (isVideoDisliked_of storage (u_id u) videoId)) (\<lambda>isDisliked.
            respond 200 (Flag ''isDisliked'' isDisliked))))"

subsection \<open>Comments\<close>

definition get_api_videos_videoId_comments ::
  "'s IStorage \<Rightarrow> request \<Rightarrow> 's \<times> fsys \<Rightarrow> response \<times> 's \<times> fsys" where
  "get_api_videos_videoId_comments storage req =
     catch500 ''Failed to fetch comments''
       (case params_videoId req of
          None \<Rightarrow> respond 400 (Message ''Invalid video ID'')
        | Some videoId \<Rightarrow>
            await (on_store (getVideo_of storage videoId)) (\<lambda>video.
            case video of
              None \<Rightarrow> respond 404 (Message ''Video not found'')
            | Some v \<Rightarrow>
                await (on_store (getVideoComments_of storage videoId)) (\<lambda>comments.
                respond 200 (Comments comments))))"

definition post_api_videos_videoId_comments ::
  "'s IStorage \<Rightarrow> request \<Rightarrow> 's \<times> fsys \<Rightarrow> response \<times> 's \<times> fsys" where
  "post_api_videos_videoId_comments storage req =
     requireAuth req (\<lambda>u.
     catch500 ''Failed to create comment''
       (case params_videoId req of
          None \<Rightarrow> respond 400 (Message ''Invalid video ID'')
        | Some videoId \<Rightarrow>
            await (on_store (getVideo_of storage videoId)) (\<lambda>video.
            case video of
              None \<Rightarrow> respond 404 (Message ''Video not found'')
            | Some v \<Rightarrow>
                (case insertCommentSchema req (u_id u) videoId of
                   None \<Rightarrow> respond 400 (MessageErrors ''Invalid comment data'')
                 | Some data \<Rightarrow>
                     await (on_store (createComment_of storage data)) (\<lambda>newComment.
                     await (on_store (getVideoComments_of storage videoId)) (\<lambda>comments.
                     respond 201
                       (CommentWithUser
                          (first (filter (\<lambda>c. c_id (fst c) = c_id newComment) comments)))))))))"

definition put_api_comments_id ::
  "'s IStorage \<Rightarrow> request \<Rightarrow> 's \<times> fsys \<Rightarrow> response \<times> 's \<times> fsys" where
  "put_api_comments_id storage req =
     requireAuth req (\<lambda>u.
     catch500 ''Failed to update comment''
       (case params_id req of
          None \<Rightarrow> respond 400 (Message ''Invalid comment ID'')
        | Some commentId \<Rightarrow>
            (case updateCommentSchema req of
               None \<Rightarrow> respond 400 (MessageErrors ''Invalid comment data'')
             | Some data \<Rightarrow>
                 await (on_store (updateComment_of storage commentId (u_id u) data))
                   (\<lambda>updatedComment.
                      case updatedComment of
                        None \<Rightarrow>
                          respond 404
                            (Message ''Comment not found or you do not have permission to edit it'')
                      | Some c \<Rightarrow> respond 200 (CommentJ c)))))"

definition delete_api_comments_id ::
  "'s IStorage \<Rightarrow> request \<Rightarrow> 's \<times> fsys \<Rightarrow> response \<times> 's \<times> fsys" where
  "delete_api_comments_id storage req =
     requireAuth req (\<lambda>u.
     catch500 ''Failed to delete comment''
       (case params_id req of
          None \<Rightarrow> respond 400 (Message ''Invalid comment ID'')
        | Some commentId \<Rightarrow>
            await (on_store (deleteComment_of storage commentId (u_id u))) (\<lambda>result.
            if \<not> result
            then respond 404
                   (Message ''Comment not found or you do not have permission to delete it'')
            else respond 200 Success)))"

subsection \<open>The routes\<close>

datatype route =
    GET_videos
  | GET_videos_featured
  | GET_videos_popular
  | GET_videos_category
  | GET_videos_search
  | GET_videos_id
  | POST_videos
  | PUT_videos_id
  | DELETE_videos_id
  | DELETE_moderation_videos_id
  | POST_users
  | POST_users_id_avatar
  | GET_users_id
  | PUT_users_id
  | GET_users_id_videos
  | GET_watchlist
  | GET_users_id_watchlist
  | POST_watchlist
  | DELETE_watchlist_videoId
  | DELETE_watchlist_userId_videoId
  | GET_watchlist_check_videoId
  | GET_watchlist_check_userId_videoId
  | POST_likes
  | DELETE_likes_videoId
  | GET_likes_check_videoId
  | POST_dislikes
  | DELETE_dislikes_videoId
  | GET_dislikes_check_videoId
  | GET_videos_videoId_comments
  | POST_videos_videoId_comments
  | PUT_comments_id
  | DELETE_comments_id

fun handle :: "'s IStorage \<Rightarrow> route \<Rightarrow> request \<Rightarrow> 's \<times> fsys \<Rightarrow> response \<times> 's \<times> fsys" where
  "handle st GET_videos = get_api_videos st"
| "handle st GET_videos_featured = get_api_videos_featured st"
| "handle st GET_videos_popular = get_api_videos_popular st"
| "handle st GET_videos_category = get_api_videos_category st"
| "handle st GET_videos_search = get_api_videos_search st"
| "handle st GET_videos_id = get_api_videos_id st"
| "handle st POST_videos = post_api_videos st"
| "handle st PUT_videos_id = put_api_videos_id st"
| "handle st DELETE_videos_id = delete_api_videos_id st"
| "handle st DELETE_moderation_videos_id = delete_api_moderation_videos_id st"
| "handle st POST_users = post_api_users st"
| "handle st POST_users_id_avatar = post_api_users_id_avatar st"
| "handle st GET_users_id = get_api_users_id st"
| "handle st PUT_users_id = put_api_users_id st"
| "handle st GET_users_id_videos = get_api_users_id_videos st"
| "handle st GET_watchlist = get_api_watchlist st"
| "handle st GET_users_id_watchlist = get_api_users_id_watchlist st"
| "handle st POST_watchlist = post_api_watchlist st"
| "handle st DELETE_watchlist_videoId = delete_api_watchlist_videoId st"
| "handle st DELETE_watchlist_userId_videoId = delete_api_watchlist_userId_videoId st"
| "handle st GET_watchlist_check_videoId = get_api_watchlist_check_videoId st"
| "handle st GET_watchlist_check_userId_videoId = get_api_watchlist_check_userId_videoId st"
| "handle st POST_likes = post_api_likes st"
| "handle st DELETE_likes_videoId = delete_api_likes_videoId st"
| "handle st GET_likes_check_videoId = get_api_likes_check_videoId st"
| "handle st POST_dislikes = post_api_dislikes st"
| "handle st DELETE_dislikes_videoId = delete_api_dislikes_videoId st"
| "handle st GET_dislikes_check_videoId = get_api_dislikes_check_videoId st"
| "handle st GET_videos_videoId_comments = get_api_videos_videoId_comments st"
| "handle st POST_videos_videoId_comments = post_api_videos_videoId_comments st"
| "handle st PUT_comments_id = put_api_comments_id st"
| "handle st DELETE_comments_id = delete_api_comments_id st"

text \<open>The message of the \<^verbatim>\<open>catch\<close> block of each handler.\<close>

fun failure_message :: "route \<Rightarrow> string" where
  "failure_message GET_videos = ''Failed to fetch videos''"
| "failure_message GET_videos_featured = ''Failed to fetch featured videos''"
| "failure_message GET_videos_popular = ''Failed to fetch popular videos''"
| "failure_message GET_videos_category = ''Failed to fetch videos by category''"
| "failure_message GET_videos_search = ''Failed to search videos''"
| "failure_message GET_videos_id = ''Failed to fetch video''"
| "failure_message POST_videos = ''Failed to upload video''"
| "failure_message PUT_videos_id = ''Failed to update video''"
| "failure_message DELETE_videos_id = ''Failed to delete video''"
| "failure_message DELETE_moderation_videos_id = ''Failed to terminate video''"
| "failure_message POST_users = ''Failed to create user''"
| "failure_message POST_users_id_avatar = ''Failed to upload avatar''"
| "failure_message GET_users_id = ''Failed to fetch user''"
| "failure_message PUT_users_id = ''Failed to update user''"
| "failure_message GET_users_id_videos = ''Failed to fetch user videos''"
| "failure_message GET_watchlist = ''Failed to fetch watchlist''"
| "failure_message GET_users_id_watchlist = ''Failed to fetch watchlist''"
| "failure_message POST_watchlist = ''Failed to add to watchlist''"
| "failure_message DELETE_watchlist_videoId = ''Failed to remove from watchlist''"
| "failure_message DELETE_watchlist_userId_videoId = ''Failed to remove from watchlist''"
| "failure_message GET_watchlist_check_videoId = ''Failed to check watchlist status''"
| "failure_message GET_watchlist_check_userId_videoId = ''Failed to check watchlist status''"
| "failure_message POST_likes = ''Failed to like video''"
| "failure_message DELETE_likes_videoId = ''Failed to unlike video''"
| "failure_message GET_likes_check_videoId = ''Failed to check like status''"
| "failure_message POST_dislikes = ''Failed to dislike video''"
| "failure_message DELETE_dislikes_videoId = ''Failed to undislike video''"
| "failure_message GET_dislikes_check_videoId = ''Failed to check dislike status''"
| "failure_message GET_videos_videoId_comments = ''Failed to fetch comments''"
| "failure_message POST_videos_videoId_comments = ''Failed to create comment''"
| "failure_message PUT_comments_id = ''Failed to update comment''"
| "failure_message DELETE_comments_id = ''Failed to delete comment''"

section \<open>Watching the storage calls of a handler\<close>

text \<open>
  \<open>traced st\<close> is the storage \<open>st\<close> over a state with one more component, a flag that is
  raised when a storage call throws; apart from the flag it behaves as \<open>st\<close>.
\<close>

definition tr :: "('a, 's) prog \<Rightarrow> ('a, 's \<times> bool) prog" where
  "tr m = (\<lambda>(s, thrown).
     case m s of
       (Inl e, s') \<Rightarrow> (Inl e, (s', True))
     | (Inr x, s') \<Rightarrow> (Inr x, (s', thrown)))"

definition traced :: "'s IStorage \<Rightarrow> ('s \<times> bool) IStorage" where
  "traced st =
     \<lparr>getUser_of = (\<lambda>i. tr (getUser_of st i)),
      getUserByUsername_of = (\<lambda>n. tr (getUserByUsername_of st n)),
      createUser_of = (\<lambda>u. tr (createUser_of st u)),
      updateUser_of = (\<lambda>i u. tr (updateUser_of st i u)),
      getVideo_of = (\<lambda>i. tr (getVideo_of st i)),
      getAllVideos_of = tr (getAllVideos_of st),
      getVideosByCategory_of = (\<lambda>c. tr (getVideosByCategory_of st c)),
      getFeaturedVideos_of = tr (getFeaturedVideos_of st),
      getPopularVideos_of = (\<lambda>l. tr (getPopularVideos_of st l)),
      getUserVideos_of = (\<lambda>i. tr (getUserVideos_of st i)),
      createVideo_of = (\<lambda>v. tr (createVideo_of st v)),
      updateVideo_of = (\<lambda>i u. tr (updateVideo_of st i u)),
      deleteVideo_of = (\<lambda>i. tr (deleteVideo_of st i)),
      incrementViews_of = (\<lambda>i. tr (incrementViews_of st i)),
      searchVideos_of = (\<lambda>q. tr (searchVideos_of st q)),
      getWatchlist_of = (\<lambda>i. tr (getWatchlist_of st i)),
      addToWatchlist_of = (\<lambda>w. tr (addToWatchlist_of st w)),
      removeFromWatchlist_of = (\<lambda>u v. tr (removeFromWatchlist_of st u v)),
      isInWatchlist_of = (\<lambda>u v. tr (isInWatchlist_of st u v)),
      likeVideo_of = (\<lambda>u v. tr (likeVideo_of st u v)),
      unlikeVideo_of = (\<lambda>u v. tr (unlikeVideo_of st u v)),
      isVideoLiked_of = (\<lambda>u v. tr (isVideoLiked_of st u v)),
      dislikeVideo_of = (\<lambda>u v. tr (dislikeVideo_of st u v)),
      undislikeVideo_of = (\<lambda>u v. tr (undislikeVideo_of st u v)),
      isVideoDisliked_of = (\<lambda>u v. tr (isVideoDisliked_of st u v)),
      getVideoComments_of = (\<lambda>v. tr (getVideoComments_of st v)),
      createComment_of = (\<lambda>c. tr (createComment_of st c)),
      deleteComment_of = (\<lambda>i u. tr (deleteComment_of st i u)),
      updateComment_of = (\<lambda>i u c. tr (updateComment_of st i u c))\<rparr>"

text \<open>
  \<open>reports m\<close>: whenever \<open>m\<close>, started with the flag down, ends with the flag raised, it
  ends by throwing.
\<close>

definition reports :: "('a, ('s \<times> bool) \<times> fsys) prog \<Rightarrow> bool" where
  "reports m =
     (\<forall>s fs r s' thrown fs'.
        m ((s, False), fs) = (r, ((s', thrown), fs')) \<longrightarrow> thrown \<longrightarrow> isl r)"

text \<open>
  \<open>agrees m m'\<close>: the computation \<open>m'\<close> over the watched state does what \<open>m\<close> does over
  the plain state, whatever the flag.
\<close>

definition agrees :: "('a, 's \<times> fsys) prog \<Rightarrow> ('a, ('s \<times> bool) \<times> fsys) prog \<Rightarrow> bool" where
  "agrees m m' =
     (\<forall>s b fs r s' b' fs'.
        m' ((s, b), fs) = (r, ((s', b'), fs')) \<longrightarrow> m (s, fs) = (r, (s', fs')))"

section \<open>Sample requests\<close>

definition anonymous :: request where
  "anonymous =
     \<lparr>user = None, params_id = None, params_videoId = None, params_userId = None,
      params_category = [], query_q = None, query_limit = None, body_videoId = None,
      body_reason = JUndefined, body_content = JUndefined, body_title = JUndefined,
      body_description = JUndefined, body_thumbnail = JUndefined, body_category = JUndefined,
      body_featured = JUndefined, body_username = JUndefined, body_password = JUndefined,
      body_avatar = JUndefined,
      body_update = \<lparr>uu_username = Undefined, uu_password = Undefined, uu_avatar = Undefined,
                      uu_bio = Undefined\<rparr>,
      files_video = None, files_thumbnail = None, file_avatar = None\<rparr>"

definition account :: "int \<Rightarrow> user" where
  "account i = \<lparr>u_id = i, username = ''user'', password = ''hash'', avatar = None, bio = None,
                u_createdAt = Some 0\<rparr>"

text \<open>
  The server runs in \<^verbatim>\<open>/app\<close>, where \<^verbatim>\<open>registerRoutes\<close> has created the directory
  \<^verbatim>\<open>uploads\<close>; in \<open>sample_files\<close> it holds the two files of the sample video.
\<close>

definition no_files :: fsys where
  "no_files =
     \<lparr>cwd = [''app''],
      nodes = (\<lambda>p. None)([] \<mapsto> Directory, [''app''] \<mapsto> Directory,
                         [''app'', ''uploads''] \<mapsto> Directory)\<rparr>"

definition sample_files :: fsys where
  "sample_files =
     no_files\<lparr>nodes := (nodes no_files)([''app'', ''uploads'', ''v.mp4''] \<mapsto> File,
                                        [''app'', ''uploads'', ''t.png''] \<mapsto> File)\<rparr>"

section \<open>Effects of deleting a video\<close>

definition moderation_reason :: "request \<Rightarrow> jval" where
  "moderation_reason req =
     (if truthy (body_reason req) then body_reason req
      else JStr ''Violation of community guidelines'')"

section \<open>The client's search filter (client/src/lib/video-utils.ts)\<close>

text \<open>\<^verbatim>\<open>s.includes(q)\<close> and \<^verbatim>\<open>s.toLowerCase()\<close> (on ASCII letters).\<close>

fun str_includes :: "string \<Rightarrow> string \<Rightarrow> bool" where
  "str_includes [] q = (q = [])"
| "str_includes (c # s) q = (take (length q) (c # s) = q \<or> str_includes s q)"

definition toLowerCase :: "string \<Rightarrow> string" where
  "toLowerCase s = map lower s"

text \<open>A query without the characters that have a special meaning in an ILIKE pattern.\<close>

definition plain :: "string \<Rightarrow> bool" where
  "plain q = (\<forall>c \<in> set q. c \<noteq> CHR ''%'' \<and> c \<noteq> CHR ''_'' \<and> c \<noteq> CHR 0x5C)"

definition filterVideosBySearchQuery :: "video list \<Rightarrow> string \<Rightarrow> video list" where
  "filterVideosBySearchQuery videos query =
     (let normalizedQuery = toLowerCase query
      in filter (\<lambda>video.
           str_includes (toLowerCase (title video)) normalizedQuery
           \<or> (case description video of
                 None \<Rightarrow> False
               | Some d \<Rightarrow> d \<noteq> [] \<and> str_includes (toLowerCase d) normalizedQuery)) videos)"

section \<open>Facts about the SQL statements\<close>

lemma sql_add_cases:
  "sql_add c k =
     (if out_of_range c k then Inl NumericValueOutOfRange else Inr (map_option (\<lambda>n. n + k) c))"
  by (simp add: sql_add_def out_of_range_def split: option.splits)

lemma update_rows_total:
  "update_rows p (\<lambda>r. Inr (g r)) rs =
     Inr (map (\<lambda>r. if p r then g r else r) rs, map g (filter p rs))"
  by (induction rs) auto

lemma update_rows_bump_likes:
  "update_rows (\<lambda>x. v_id x = v) (bump_likes k) vs =
     (if \<exists>x \<in> set vs. v_id x = v \<and> out_of_range (likes x) k then Inl NumericValueOutOfRange
      else Inr (map (likes_plus v k) vs, map (likes_plus v k) (filter (\<lambda>x. v_id x = v) vs)))"
  by (induction vs) (auto simp: bump_likes_def sql_add_cases likes_plus_def)

lemma update_rows_bump_dislikes:
  "update_rows (\<lambda>x. v_id x = v) (bump_dislikes k) vs =
     (if \<exists>x \<in> set vs. v_id x = v \<and> out_of_range (dislikes x) k then Inl NumericValueOutOfRange
      else Inr (map (dislikes_plus v k) vs,
                map (dislikes_plus v k) (filter (\<lambda>x. v_id x = v) vs)))"
  by (induction vs) (auto simp: bump_dislikes_def sql_add_cases dislikes_plus_def)

lemma update_rows_bump_views:
  "update_rows (\<lambda>x. v_id x = v) (bump_views k) vs =
     (if \<exists>x \<in> set vs. v_id x = v \<and> out_of_range (views x) k then Inl NumericValueOutOfRange
      else Inr (map (views_plus v k) vs, map (views_plus v k) (filter (\<lambda>x. v_id x = v) vs)))"
  by (induction vs) (auto simp: bump_views_def sql_add_cases views_plus_def)

lemma transaction_rolls_back: "transaction body s = (Inl e, s') \<Longrightarrow> s' = s"
  by (auto simp: transaction_def split: prod.splits sum.splits)

lemma bound_apply:
  "bound ps m s = (case rejected ps of Some e \<Rightarrow> (Inl e, s) | None \<Rightarrow> m s)"
  by (simp add: bound_def throw_def split: option.splits)

lemma rejected_int: "rejected [PInt a] = (if int4 a then None else Some NumericValueOutOfRange)"
  by simp

lemma rejected_int2:
  "rejected [PInt a, PInt b] = (if int4 a \<and> int4 b then None else Some NumericValueOutOfRange)"
  by simp

lemma bound_int:
  "bound [PInt a] m s = (if int4 a then m s else (Inl NumericValueOutOfRange, s))"
  by (simp add: bound_apply)

lemma bound_int2:
  "bound [PInt a, PInt b] m s =
     (if int4 a \<and> int4 b then m s else (Inl NumericValueOutOfRange, s))"
  by (simp add: bound_apply)

section \<open>Likes and dislikes\<close>

lemma likeVideo_rejected:
  "\<not> (int4 u \<and> int4 v) \<Longrightarrow> likeVideo u v s = (Inl NumericValueOutOfRange, s)"
  by (cases "int4 u"; cases "int4 v") (simp_all add: likeVideo_def await_def bound_int2)

lemma likeVideo_new:
  assumes "filter (same_key u v) (likes_tbl s) = []"
  shows "likeVideo u v s =
    (if int4 u \<and> int4 v
        \<and> \<not> (\<exists>x \<in> set (videos_tbl s). v_id x = v \<and> out_of_range (likes x) 1)
     then (Inr (new_row u v s),
           s\<lparr>likes_tbl := likes_tbl s @ [new_row u v s],
             videos_tbl := map (likes_plus v 1) (videos_tbl s)\<rparr>)
     else (Inl NumericValueOutOfRange, s))"
proof (cases "int4 u \<and> int4 v")
  case True
  from assms have "\<not> (\<exists>r \<in> set (likes_tbl s). same_key u v r)"
    by (simp add: filter_empty_conv)
  with assms True show ?thesis
    by (simp add: likeVideo_def transaction_def await_def insert_likes_def update_videos_def
        ret_def update_rows_bump_likes Let_def new_row_def bound_int bound_int2
        select_where_def)
next
  case False
  then have "likeVideo u v s = (Inl NumericValueOutOfRange, s)"
    by (rule likeVideo_rejected)
  with False show ?thesis by auto
qed

lemma likeVideo_existing:
  "filter (same_key u v) (likes_tbl s) = e # es \<Longrightarrow>
   likeVideo u v s = (if int4 u \<and> int4 v then (Inr e, s) else (Inl NumericValueOutOfRange, s))"
  by (simp add: likeVideo_def await_def bound_int2 select_where_def ret_def)

lemma unlikeVideo_eq:
  "unlikeVideo u v s =
    (if \<not> (int4 u \<and> int4 v) then (Inl NumericValueOutOfRange, s)
     else if filter (same_key u v) (likes_tbl s) = [] then (Inr False, s)
     else if \<exists>x \<in> set (videos_tbl s). v_id x = v \<and> out_of_range (likes x) (- 1)
     then (Inl NumericValueOutOfRange, s)
     else (Inr True, s\<lparr>likes_tbl := filter (\<lambda>r. \<not> same_key u v r) (likes_tbl s),
                        videos_tbl := map (likes_plus v (- 1)) (videos_tbl s)\<rparr>))"
proof (cases "int4 u \<and> int4 v")
  case range: True
  show ?thesis
  proof (cases "filter (same_key u v) (likes_tbl s) = []")
    case True
    then have "filter (\<lambda>r. \<not> same_key u v r) (likes_tbl s) = likes_tbl s"
      by (simp add: filter_empty_conv)
    with True range show ?thesis
      by (simp add: unlikeVideo_def transaction_def await_def delete_likes_def ret_def
          bound_int2)
  next
    case False
    with range show ?thesis
      by (simp add: unlikeVideo_def transaction_def await_def delete_likes_def ret_def
          update_videos_def update_rows_bump_likes bound_int bound_int2)
  qed
next
  case False
  then have "unlikeVideo u v s = (Inl NumericValueOutOfRange, s)"
    by (cases "int4 u"; cases "int4 v")
       (simp_all add: unlikeVideo_def transaction_def await_def bound_int2)
  with False show ?thesis by auto
qed

lemma dislikeVideo_rejected:
  "\<not> (int4 u \<and> int4 v) \<Longrightarrow> dislikeVideo u v s = (Inl NumericValueOutOfRange, s)"
  by (cases "int4 u"; cases "int4 v") (simp_all add: dislikeVideo_def await_def bound_int2)

lemma dislikeVideo_new:
  assumes "filter (same_key u v) (dislikes_tbl s) = []"
  shows "dislikeVideo u v s =
    (if int4 u \<and> int4 v
        \<and> \<not> (\<exists>x \<in> set (videos_tbl s). v_id x = v \<and> out_of_range (dislikes x) 1)
     then (Inr (new_row u v s),
           s\<lparr>dislikes_tbl := dislikes_tbl s @ [new_row u v s],
             videos_tbl := map (dislikes_plus v 1) (videos_tbl s)\<rparr>)
     else (Inl NumericValueOutOfRange, s))"
proof (cases "int4 u \<and> int4 v")
  case True
  from assms have "\<not> (\<exists>r \<in> set (dislikes_tbl s). same_key u v r)"
    by (simp add: filter_empty_conv)
  with assms True show ?thesis
    by (simp add: dislikeVideo_def transaction_def await_def insert_dislikes_def
        update_videos_def ret_def update_rows_bump_dislikes Let_def new_row_def bound_int
        bound_int2 select_where_def)
next
  case False
  then have "dislikeVideo u v s = (Inl NumericValueOutOfRange, s)"
    by (rule dislikeVideo_rejected)
  with False show ?thesis by auto
qed

lemma dislikeVideo_existing:
  "filter (same_key u v) (dislikes_tbl s) = e # es \<Longrightarrow>
   dislikeVideo u v s =
     (if int4 u \<and> int4 v then (Inr e, s) else (Inl NumericValueOutOfRange, s))"
  by (simp add: dislikeVideo_def await_def bound_int2 select_where_def ret_def)

lemma undislikeVideo_eq:
  "undislikeVideo u v s =
    (if \<not> (int4 u \<and> int4 v) then (Inl NumericValueOutOfRange, s)
     else if filter (same_key u v) (dislikes_tbl s) = [] then (Inr False, s)
     else if \<exists>x \<in> set (videos_tbl s). v_id x = v \<and> out_of_range (dislikes x) (- 1)
     then (Inl NumericValueOutOfRange, s)
     else (Inr True, s\<lparr>dislikes_tbl := filter (\<lambda>r. \<not> same_key u v r) (dislikes_tbl s),
                        videos_tbl := map (dislikes_plus v (- 1)) (videos_tbl s)\<rparr>))"
proof (cases "int4 u \<and> int4 v")
  case range: True
  show ?thesis
  proof (cases "filter (same_key u v) (dislikes_tbl s) = []")
    case True
    then have "filter (\<lambda>r. \<not> same_key u v r) (dislikes_tbl s) = dislikes_tbl s"
      by (simp add: filter_empty_conv)
    with True range show ?thesis
      by (simp add: undislikeVideo_def transaction_def await_def delete_dislikes_def ret_def
          bound_int2)
  next
    case False
    with range show ?thesis
      by (simp add: undislikeVideo_def transaction_def await_def delete_dislikes_def ret_def
          update_videos_def update_rows_bump_dislikes bound_int bound_int2)
  qed
next
  case False
  then have "undislikeVideo u v s = (Inl NumericValueOutOfRange, s)"
    by (cases "int4 u"; cases "int4 v")
       (simp_all add: undislikeVideo_def transaction_def await_def bound_int2)
  with False show ?thesis by auto
qed

lemma likeVideo_error_unchanged: "likeVideo u v s = (Inl e, s') \<Longrightarrow> s' = s"
  by (cases "filter (same_key u v) (likes_tbl s)")
     (auto simp: likeVideo_new likeVideo_existing split: if_splits)

lemma dislikeVideo_error_unchanged: "dislikeVideo u v s = (Inl e, s') \<Longrightarrow> s' = s"
  by (cases "filter (same_key u v) (dislikes_tbl s)")
     (auto simp: dislikeVideo_new dislikeVideo_existing split: if_splits)

lemma unlikeVideo_error_unchanged: "unlikeVideo u v s = (Inl e, s') \<Longrightarrow> s' = s"
  unfolding unlikeVideo_def by (rule transaction_rolls_back)

lemma undislikeVideo_error_unchanged: "undislikeVideo u v s = (Inl e, s') \<Longrightarrow> s' = s"
  unfolding undislikeVideo_def by (rule transaction_rolls_back)

text \<open>
  C1. For a user \<open>u\<close> and a video \<open>v\<close> without a like row \<open>(u, v)\<close>, \<open>likeVideo\<close> either
  appends the row and adds one to the likes column of \<open>v\<close>, or fails and leaves the state
  as it was before the call: it fails exactly when \<open>u\<close> or \<open>v\<close> is not a 32-bit number
  (the database rejects the parameter) or the counter would leave the 32-bit range (the
  transaction is rolled back). \<open>unlikeVideo\<close> fails, without any change, in the same two
  cases; otherwise it deletes the rows \<open>(u, v)\<close> and subtracts one from the counter, and
  it subtracts only when a row was deleted. Whatever the state, an error of one of the
  four operations leaves it unchanged. The same holds for \<open>dislikeVideo\<close> and
  \<open>undislikeVideo\<close> over the dislikes table and column.
\<close>

theorem like_dislike_transactional:
  "(filter (same_key u v) (likes_tbl s) = [] \<longrightarrow>
      likeVideo u v s =
        (if int4 u \<and> int4 v
            \<and> \<not> (\<exists>x \<in> set (videos_tbl s). v_id x = v \<and> out_of_range (likes x) 1)
         then (Inr (new_row u v s),
               s\<lparr>likes_tbl := likes_tbl s @ [new_row u v s],
                 videos_tbl := map (likes_plus v 1) (videos_tbl s)\<rparr>)
         else (Inl NumericValueOutOfRange, s)))
   \<and> unlikeVideo u v s =
        (if \<not> (int4 u \<and> int4 v) then (Inl NumericValueOutOfRange, s)
         else if filter (same_key u v) (likes_tbl s) = [] then (Inr False, s)
         else if \<exists>x \<in> set (videos_tbl s). v_id x = v \<and> out_of_range (likes x) (- 1)
         then (Inl NumericValueOutOfRange, s)
         else (Inr True, s\<lparr>likes_tbl := filter (\<lambda>r. \<not> same_key u v r) (likes_tbl s),
                            videos_tbl := map (likes_plus v (- 1)) (videos_tbl s)\<rparr>))
   \<and> (filter (same_key u v) (dislikes_tbl s) = [] \<longrightarrow>
      dislikeVideo u v s =
        (if int4 u \<and> int4 v
            \<and> \<not> (\<exists>x \<in> set (videos_tbl s). v_id x = v \<and> out_of_range (dislikes x) 1)
         then (Inr (new_row u v s),
               s\<lparr>dislikes_tbl := dislikes_tbl s @ [new_row u v s],
                 videos_tbl := map (dislikes_plus v 1) (videos_tbl s)\<rparr>)
         else (Inl NumericValueOutOfRange, s)))
   \<and> undislikeVideo u v s =
        (if \<not> (int4 u \<and> int4 v) then (Inl NumericValueOutOfRange, s)
         else if filter (same_key u v) (dislikes_tbl s) = [] then (Inr False, s)
         else if \<exists>x \<in> set (videos_tbl s). v_id x = v \<and> out_of_range (dislikes x) (- 1)
         then (Inl NumericValueOutOfRange, s)
         else (Inr True, s\<lparr>dislikes_tbl := filter (\<lambda>r. \<not> same_key u v r) (dislikes_tbl s),
                            videos_tbl := map (dislikes_plus v (- 1)) (videos_tbl s)\<rparr>))
   \<and> (\<forall>e s'. likeVideo u v s = (Inl e, s') \<longrightarrow> s' = s)
   \<and> (\<forall>e s'. unlikeVideo u v s = (Inl e, s') \<longrightarrow> s' = s)
   \<and> (\<forall>e s'. dislikeVideo u v s = (Inl e, s') \<longrightarrow> s' = s)
   \<and> (\<forall>e s'. undislikeVideo u v s = (Inl e, s') \<longrightarrow> s' = s)"
  using likeVideo_new [of u v s] dislikeVideo_new [of u v s]
    likeVideo_error_unchanged [of u v s] unlikeVideo_error_unchanged [of u v s]
    dislikeVideo_error_unchanged [of u v s] undislikeVideo_error_unchanged [of u v s]
  by (simp only: unlikeVideo_eq [of u v s] undislikeVideo_eq [of u v s]) blast

theorem like_dislike_transactional_witness:
  "filter (same_key 7 1) (likes_tbl sample_db) = []
   \<and> likeVideo 7 1 sample_db =
       (Inr \<lparr>l_userId = 7, l_videoId = 1, l_createdAt = Some 0\<rparr>,
        sample_db\<lparr>likes_tbl := [\<lparr>l_userId = 7, l_videoId = 1, l_createdAt = Some 0\<rparr>],
                  videos_tbl := [sample_video\<lparr>likes := Some 1\<rparr>]\<rparr>)
   \<and> likeVideo 7 1 saturated_db = (Inl NumericValueOutOfRange, saturated_db)
   \<and> likeVideo 7 2147483648 sample_db = (Inl NumericValueOutOfRange, sample_db)
   \<and> unlikeVideo 7 1 liked_db =
       (Inr True,
        liked_db\<lparr>likes_tbl := [],
                 videos_tbl := [sample_video\<lparr>likes := Some 0, dislikes := Some 1\<rparr>]\<rparr>)
   \<and> unlikeVideo 7 1 sample_db = (Inr False, sample_db)
   \<and> unlikeVideo 7 2147483648 liked_db = (Inl NumericValueOutOfRange, liked_db)
   \<and> dislikeVideo 7 1 sample_db =
       (Inr \<lparr>l_userId = 7, l_videoId = 1, l_createdAt = Some 0\<rparr>,
        sample_db\<lparr>dislikes_tbl := [\<lparr>l_userId = 7, l_videoId = 1, l_createdAt = Some 0\<rparr>],
                  videos_tbl := [sample_video\<lparr>dislikes := Some 1\<rparr>]\<rparr>)
   \<and> undislikeVideo 7 1 liked_db =
       (Inr True,
        liked_db\<lparr>dislikes_tbl := [],
                 videos_tbl := [sample_video\<lparr>likes := Some 1, dislikes := Some 0\<rparr>]\<rparr>)"
  using like_dislike_transactional [of 7 1 sample_db]
    like_dislike_transactional [of 7 1 saturated_db]
    like_dislike_transactional [of 7 1 liked_db]
    like_dislike_transactional [of 7 2147483648 sample_db]
    like_dislike_transactional [of 7 2147483648 liked_db]
  by (simp add: sample_db_def saturated_db_def liked_db_def empty_db_def sample_video_def
      same_key_def out_of_range_def likes_plus_def dislikes_plus_def new_row_def int4_def)

section \<open>Deduplication and the watchlist\<close>

lemma addToWatchlist_eq:
  "addToWatchlist item s =
     (if \<not> (int4 (iw_userId item) \<and> int4 (iw_videoId item)) then (Inl NumericValueOutOfRange, s)
      else if filter (in_watchlist (iw_userId item) (iw_videoId item)) (watchlist_tbl s) \<noteq> []
      then (Inr (hd (filter (in_watchlist (iw_userId item) (iw_videoId item))
                       (watchlist_tbl s))), s)
      else if exhausted (watchlist_seq s) then (Inl SequenceGeneratorLimitExceeded, s)
      else (Inr (new_item item s),
            s\<lparr>watchlist_tbl := watchlist_tbl s @ [new_item item s],
              watchlist_seq := watchlist_seq s + 1\<rparr>))"
  by (cases "filter (in_watchlist (iw_userId item) (iw_videoId item)) (watchlist_tbl s)")
     (simp_all add: addToWatchlist_def await_def bound_int2 select_where_def ret_def
        insert_watchlist_row_def Let_def new_item_def)

lemma addToWatchlist_existing:
  "filter (in_watchlist (iw_userId item) (iw_videoId item)) (watchlist_tbl s) = e # es \<Longrightarrow>
   addToWatchlist item s =
     (if int4 (iw_userId item) \<and> int4 (iw_videoId item) then (Inr e, s)
      else (Inl NumericValueOutOfRange, s))"
  by (simp add: addToWatchlist_eq)

lemma removeFromWatchlist_eq:
  "removeFromWatchlist userId videoId s =
     (if int4 userId \<and> int4 videoId
      then (Inr (filter (in_watchlist userId videoId) (watchlist_tbl s) \<noteq> []),
            s\<lparr>watchlist_tbl := filter (\<lambda>r. \<not> in_watchlist userId videoId r) (watchlist_tbl s)\<rparr>)
      else (Inl NumericValueOutOfRange, s))"
  by (simp add: removeFromWatchlist_def bound_int2 Let_def)

lemma likeVideo_twice: "snd (likeVideo u v (snd (likeVideo u v s))) = snd (likeVideo u v s)"
proof (cases "filter (same_key u v) (likes_tbl s)")
  case Nil
  show ?thesis
  proof (cases "int4 u \<and> int4 v
      \<and> \<not> (\<exists>x \<in> set (videos_tbl s). v_id x = v \<and> out_of_range (likes x) 1)")
    case False
    with likeVideo_new [OF Nil] have "likeVideo u v s = (Inl NumericValueOutOfRange, s)"
      by (auto split: if_splits)
    then show ?thesis by simp
  next
    case True
    let ?s' = "s\<lparr>likes_tbl := likes_tbl s @ [new_row u v s],
                  videos_tbl := map (likes_plus v 1) (videos_tbl s)\<rparr>"
    from Nil True have first: "likeVideo u v s = (Inr (new_row u v s), ?s')"
      by (simp add: likeVideo_new)
    from Nil have "filter (same_key u v) (likes_tbl ?s') = [new_row u v s]"
      by (simp add: new_row_def same_key_def)
    with True have "likeVideo u v ?s' = (Inr (new_row u v s), ?s')"
      by (simp add: likeVideo_existing)
    with first show ?thesis by simp
  qed
next
  case (Cons e es)
  then show ?thesis by (simp add: likeVideo_existing)
qed

lemma dislikeVideo_twice:
  "snd (dislikeVideo u v (snd (dislikeVideo u v s))) = snd (dislikeVideo u v s)"
proof (cases "filter (same_key u v) (dislikes_tbl s)")
  case Nil
  show ?thesis
  proof (cases "int4 u \<and> int4 v
      \<and> \<not> (\<exists>x \<in> set (videos_tbl s). v_id x = v \<and> out_of_range (dislikes x) 1)")
    case False
    with dislikeVideo_new [OF Nil] have "dislikeVideo u v s = (Inl NumericValueOutOfRange, s)"
      by (auto split: if_splits)
    then show ?thesis by simp
  next
    case True
    let ?s' = "s\<lparr>dislikes_tbl := dislikes_tbl s @ [new_row u v s],
                  videos_tbl := map (dislikes_plus v 1) (videos_tbl s)\<rparr>"
    from Nil True have first: "dislikeVideo u v s = (Inr (new_row u v s), ?s')"
      by (simp add: dislikeVideo_new)
    from Nil have "filter (same_key u v) (dislikes_tbl ?s') = [new_row u v s]"
      by (simp add: new_row_def same_key_def)
    with True have "dislikeVideo u v ?s' = (Inr (new_row u v s), ?s')"
      by (simp add: dislikeVideo_existing)
    with first show ?thesis by simp
  qed
next
  case (Cons e es)
  then show ?thesis by (simp add: dislikeVideo_existing)
qed

lemma addToWatchlist_twice:
  "snd (addToWatchlist item (snd (addToWatchlist item s))) = snd (addToWatchlist item s)"
proof (cases "filter (in_watchlist (iw_userId item) (iw_videoId item)) (watchlist_tbl s)")
  case Nil
  then show ?thesis
    by (simp add: addToWatchlist_eq new_item_def in_watchlist_def)
next
  case (Cons e es)
  then show ?thesis by (simp add: addToWatchlist_existing)
qed

text \<open>
  C4. \<open>likeVideo\<close>, \<open>dislikeVideo\<close> and \<open>addToWatchlist\<close> look for a row with the same
  (user, video) key first: when one exists they return the first such row and leave the
  whole state (tables, counters, sequences) as it was. (For a key that is not a pair of
  32-bit numbers, which no row the database stores can have, the lookup itself is
  rejected, again without any change.) Hence a second call with the same arguments
  leaves the state the first call produced.
\<close>

theorem dedup_on_existing_key:
  "(filter (same_key u v) (likes_tbl s) = e # es \<longrightarrow>
      likeVideo u v s =
        (if int4 u \<and> int4 v then (Inr e, s) else (Inl NumericValueOutOfRange, s)))
   \<and> (filter (same_key u v) (dislikes_tbl s) = d # ds \<longrightarrow>
      dislikeVideo u v s =
        (if int4 u \<and> int4 v then (Inr d, s) else (Inl NumericValueOutOfRange, s)))
   \<and> (filter (in_watchlist (iw_userId item) (iw_videoId item)) (watchlist_tbl s) = w # ws \<longrightarrow>
      addToWatchlist item s =
        (if int4 (iw_userId item) \<and> int4 (iw_videoId item) then (Inr w, s)
         else (Inl NumericValueOutOfRange, s)))
   \<and> snd (likeVideo u v (snd (likeVideo u v s))) = snd (likeVideo u v s)
   \<and> snd (dislikeVideo u v (snd (dislikeVideo u v s))) = snd (dislikeVideo u v s)
   \<and> snd (addToWatchlist item (snd (addToWatchlist item s))) = snd (addToWatchlist item s)"
  by (simp add: likeVideo_existing dislikeVideo_existing addToWatchlist_existing
      likeVideo_twice dislikeVideo_twice addToWatchlist_twice)

theorem dedup_on_existing_key_witness:
  "filter (same_key 7 1) (likes_tbl liked_db) = [\<lparr>l_userId = 7, l_videoId = 1, l_createdAt = Some 0\<rparr>]
   \<and> likeVideo 7 1 liked_db = (Inr \<lparr>l_userId = 7, l_videoId = 1, l_createdAt = Some 0\<rparr>, liked_db)
   \<and> filter (same_key 7 1) (dislikes_tbl liked_db) = [\<lparr>l_userId = 7, l_videoId = 1, l_createdAt = Some 0\<rparr>]
   \<and> dislikeVideo 7 1 liked_db = (Inr \<lparr>l_userId = 7, l_videoId = 1, l_createdAt = Some 0\<rparr>, liked_db)
   \<and> filter (in_watchlist 7 1) (watchlist_tbl liked_db) = [\<lparr>w_id = 1, w_userId = 7, w_videoId = 1, addedAt = Some 0\<rparr>]
   \<and> addToWatchlist \<lparr>iw_userId = 7, iw_videoId = 1\<rparr> liked_db =
       (Inr \<lparr>w_id = 1, w_userId = 7, w_videoId = 1, addedAt = Some 0\<rparr>, liked_db)"
proof -
  have a: "filter (same_key 7 1) (likes_tbl liked_db) = [\<lparr>l_userId = 7, l_videoId = 1, l_createdAt = Some 0\<rparr>]"
    by (simp add: liked_db_def same_key_def)
  have b: "filter (same_key 7 1) (dislikes_tbl liked_db) = [\<lparr>l_userId = 7, l_videoId = 1, l_createdAt = Some 0\<rparr>]"
    by (simp add: liked_db_def same_key_def)
  have c: "filter (in_watchlist 7 1) (watchlist_tbl liked_db) = [\<lparr>w_id = 1, w_userId = 7, w_videoId = 1, addedAt = Some 0\<rparr>]"
    by (simp add: liked_db_def in_watchlist_def)
  show ?thesis
    using a b c
      dedup_on_existing_key [of 7 1 liked_db _ "[]" _ "[]" "\<lparr>iw_userId = 7, iw_videoId = 1\<rparr>" _ "[]"]
    by (simp add: int4_def)
qed

text \<open>
  C3, as stated, fails: adding video 1 to the watchlist of user 7 inserts the watchlist
  row and changes no video record, and removing it deletes the row and changes no video
  record either.
\<close>

theorem watchlist_counter_counterexample:
  "watchlist_tbl (snd (addToWatchlist \<lparr>iw_userId = 7, iw_videoId = 1\<rparr> sample_db)) =
     [\<lparr>w_id = 1, w_userId = 7, w_videoId = 1, addedAt = Some 0\<rparr>]
   \<and> watchlist_tbl sample_db = []
   \<and> videos_tbl (snd (addToWatchlist \<lparr>iw_userId = 7, iw_videoId = 1\<rparr> sample_db)) = videos_tbl sample_db
   \<and> watchlist_tbl (snd (removeFromWatchlist 7 1 liked_db)) = []
   \<and> videos_tbl (snd (removeFromWatchlist 7 1 liked_db)) = videos_tbl liked_db"
  by (simp add: addToWatchlist_eq removeFromWatchlist_eq sample_db_def liked_db_def empty_db_def
      in_watchlist_def new_item_def int4_def exhausted_def)

text \<open>
  C3, amended. \<open>addToWatchlist\<close> and \<open>removeFromWatchlist\<close> change the watchlist table
  (and its id sequence) only. \<open>addToWatchlist\<close> returns the first row of the pair and
  leaves the state alone when the pair is there, and otherwise appends a row with the
  next id and returns it. \<open>removeFromWatchlist\<close> deletes the rows of the pair and reports
  whether there was one. Each fails, without any change, when the user or video id is
  not a 32-bit number, and \<open>addToWatchlist\<close> also when the id sequence is used up. No
  video record is updated in any case: the videos table has no watchlist counter, and
  neither operation opens a transaction.
\<close>

theorem watchlist_touches_no_video:
  "addToWatchlist item s =
     (if \<not> (int4 (iw_userId item) \<and> int4 (iw_videoId item)) then (Inl NumericValueOutOfRange, s)
      else if filter (in_watchlist (iw_userId item) (iw_videoId item)) (watchlist_tbl s) \<noteq> []
      then (Inr (hd (filter (in_watchlist (iw_userId item) (iw_videoId item))
                       (watchlist_tbl s))), s)
      else if exhausted (watchlist_seq s) then (Inl SequenceGeneratorLimitExceeded, s)
      else (Inr (new_item item s),
            s\<lparr>watchlist_tbl := watchlist_tbl s @ [new_item item s],
              watchlist_seq := watchlist_seq s + 1\<rparr>))
   \<and> (\<forall>row. fst (addToWatchlist item s) = Inr row \<longrightarrow>
         snd (addToWatchlist item s) = s
         \<or> snd (addToWatchlist item s) =
             s\<lparr>watchlist_tbl := watchlist_tbl s @ [row], watchlist_seq := watchlist_seq s + 1\<rparr>)
   \<and> videos_tbl (snd (addToWatchlist item s)) = videos_tbl s
   \<and> removeFromWatchlist userId videoId s =
       (if int4 userId \<and> int4 videoId
        then (Inr (filter (in_watchlist userId videoId) (watchlist_tbl s) \<noteq> []),
              s\<lparr>watchlist_tbl :=
                  filter (\<lambda>r. \<not> in_watchlist userId videoId r) (watchlist_tbl s)\<rparr>)
        else (Inl NumericValueOutOfRange, s))
   \<and> videos_tbl (snd (removeFromWatchlist userId videoId s)) = videos_tbl s"
  by (simp add: addToWatchlist_eq removeFromWatchlist_eq)

theorem watchlist_touches_no_video_witness:
  "addToWatchlist \<lparr>iw_userId = 7, iw_videoId = 1\<rparr> sample_db =
     (Inr \<lparr>w_id = 1, w_userId = 7, w_videoId = 1, addedAt = Some 0\<rparr>,
      sample_db\<lparr>watchlist_tbl := [\<lparr>w_id = 1, w_userId = 7, w_videoId = 1, addedAt = Some 0\<rparr>],
                watchlist_seq := 2\<rparr>)
   \<and> videos_tbl (snd (addToWatchlist \<lparr>iw_userId = 7, iw_videoId = 1\<rparr> sample_db)) = [sample_video]
   \<and> removeFromWatchlist 7 1 liked_db = (Inr True, liked_db\<lparr>watchlist_tbl := []\<rparr>)
   \<and> removeFromWatchlist 7 2147483648 liked_db = (Inl NumericValueOutOfRange, liked_db)"
  using watchlist_touches_no_video [of "\<lparr>iw_userId = 7, iw_videoId = 1\<rparr>" sample_db 7 1]
    watchlist_touches_no_video [of "\<lparr>iw_userId = 7, iw_videoId = 1\<rparr>" liked_db 7 1]
    watchlist_touches_no_video [of "\<lparr>iw_userId = 7, iw_videoId = 1\<rparr>" liked_db 7 2147483648]
  by (simp add: sample_db_def liked_db_def empty_db_def in_watchlist_def new_item_def int4_def
      exhausted_def)

section \<open>Counters and join-table rows\<close>

lemma rows_for_append: "rows_for v (tbl @ [r]) = rows_for v tbl + (if l_videoId r = v then 1 else 0)"
  by (simp add: rows_for_def)

lemma rows_for_zero: "(\<forall>r \<in> set tbl. l_videoId r \<noteq> v) \<Longrightarrow> rows_for v tbl = 0"
  by (simp add: rows_for_def filter_empty_conv)

lemma rows_for_remove_other:
  "v' \<noteq> v \<Longrightarrow> rows_for v' (filter (\<lambda>r. \<not> same_key u v r) tbl) = rows_for v' tbl"
  unfolding rows_for_def
  by (rule arg_cong [where f = "\<lambda>l. int (length l)"]) (induction tbl, auto simp: same_key_def)

lemma rows_for_remove_same:
  "distinct (map row_key tbl) \<Longrightarrow> filter (same_key u v) tbl \<noteq> [] \<Longrightarrow>
   rows_for v (filter (\<lambda>r. \<not> same_key u v r) tbl) = rows_for v tbl - 1"
proof (induction tbl)
  case Nil
  then show ?case by simp
next
  case (Cons r tbl)
  show ?case
  proof (cases "same_key u v r")
    case True
    with Cons.prems have "\<forall>r' \<in> set tbl. \<not> same_key u v r'"
      by (auto simp: same_key_def row_key_def image_iff)
    then have "filter (\<lambda>r. \<not> same_key u v r) tbl = tbl"
      by (simp add: filter_id_conv)
    with True show ?thesis by (simp add: rows_for_def same_key_def)
  next
    case False
    with Cons show ?thesis by (auto simp: rows_for_def)
  qed
qed

lemma distinct_filter_keys: "distinct (map row_key tbl) \<Longrightarrow> distinct (map row_key (filter p tbl))"
  by (simp add: distinct_map_filter)

lemma first_SomeD: "first xs = Some x \<Longrightarrow> x \<in> set xs"
  by (cases xs) (auto simp: first_def)

lemma getVideo_eq:
  "getVideo i s =
     (if int4 i then (Inr (first (filter (\<lambda>v. v_id v = i) (videos_tbl s))), s)
      else (Inl NumericValueOutOfRange, s))"
  by (simp add: getVideo_def await_def bound_int select_where_def ret_def)

lemma video_foundD: "video_found v s \<Longrightarrow> \<exists>x \<in> set (videos_tbl s). v_id x = v"
proof -
  assume "video_found v s"
  then obtain x where "first (filter (\<lambda>x. v_id x = v) (videos_tbl s)) = Some x"
    by (auto simp: video_found_def getVideo_eq split: sum.splits option.splits if_splits)
  then have "x \<in> set (filter (\<lambda>x. v_id x = v) (videos_tbl s))"
    by (rule first_SomeD)
  then show ?thesis by auto
qed

lemma inv_likeVideo:
  assumes "storage_inv s" and "video_found v s"
  shows "storage_inv (snd (likeVideo u v s))"
proof (cases "filter (same_key u v) (likes_tbl s)")
  case (Cons e es)
  with assms show ?thesis by (simp add: likeVideo_existing)
next
  case Nil
  show ?thesis
  proof (cases "int4 u \<and> int4 v
      \<and> \<not> (\<exists>x \<in> set (videos_tbl s). v_id x = v \<and> out_of_range (likes x) 1)")
    case False
    with likeVideo_new [OF Nil] have "likeVideo u v s = (Inl NumericValueOutOfRange, s)"
      by (auto split: if_splits)
    with assms show ?thesis by simp
  next
    case True
    from video_foundD [OF assms(2)] assms(1) have lt: "v < videos_seq s"
      by (auto simp: storage_inv_def)
    from Nil have fresh: "(u, v) \<notin> row_key ` set (likes_tbl s)"
      by (auto simp: filter_empty_conv same_key_def row_key_def)
    have eq: "snd (likeVideo u v s) =
        s\<lparr>likes_tbl := likes_tbl s @ [new_row u v s],
          videos_tbl := map (likes_plus v 1) (videos_tbl s)\<rparr>"
      by (simp only: likeVideo_new [OF Nil] if_P [OF True] snd_conv)
    show ?thesis
      unfolding eq using assms(1) lt fresh
      by (auto simp: storage_inv_def counters_match_def likes_plus_def rows_for_append
          new_row_def row_key_def)
  qed
qed

lemma inv_dislikeVideo:
  assumes "storage_inv s" and "video_found v s"
  shows "storage_inv (snd (dislikeVideo u v s))"
proof (cases "filter (same_key u v) (dislikes_tbl s)")
  case (Cons e es)
  with assms show ?thesis by (simp add: dislikeVideo_existing)
next
  case Nil
  show ?thesis
  proof (cases "int4 u \<and> int4 v
      \<and> \<not> (\<exists>x \<in> set (videos_tbl s). v_id x = v \<and> out_of_range (dislikes x) 1)")
    case False
    with dislikeVideo_new [OF Nil] have "dislikeVideo u v s = (Inl NumericValueOutOfRange, s)"
      by (auto split: if_splits)
    with assms show ?thesis by simp
  next
    case True
    from video_foundD [OF assms(2)] assms(1) have lt: "v < videos_seq s"
      by (auto simp: storage_inv_def)
    from Nil have fresh: "(u, v) \<notin> row_key ` set (dislikes_tbl s)"
      by (auto simp: filter_empty_conv same_key_def row_key_def)
    have eq: "snd (dislikeVideo u v s) =
        s\<lparr>dislikes_tbl := dislikes_tbl s @ [new_row u v s],
          videos_tbl := map (dislikes_plus v 1) (videos_tbl s)\<rparr>"
      by (simp only: dislikeVideo_new [OF Nil] if_P [OF True] snd_conv)
    show ?thesis
      unfolding eq using assms(1) lt fresh
      by (auto simp: storage_inv_def counters_match_def dislikes_plus_def rows_for_append
          new_row_def row_key_def)
  qed
qed

lemma inv_unlikeVideo:
  assumes "storage_inv s"
  shows "storage_inv (snd (unlikeVideo u v s))"
proof (cases "\<not> (int4 u \<and> int4 v) \<or> filter (same_key u v) (likes_tbl s) = []
    \<or> (\<exists>x \<in> set (videos_tbl s). v_id x = v \<and> out_of_range (likes x) (- 1))")
  case True
  then have "snd (unlikeVideo u v s) = s"
    by (auto simp: unlikeVideo_eq)
  with assms show ?thesis by simp
next
  case False
  then have range: "\<not> \<not> (int4 u \<and> int4 v)"
    and ne: "filter (same_key u v) (likes_tbl s) \<noteq> []"
    and ok: "\<not> (\<exists>x \<in> set (videos_tbl s). v_id x = v \<and> out_of_range (likes x) (- 1))"
    by blast+
  have eq: "snd (unlikeVideo u v s) =
      s\<lparr>likes_tbl := filter (\<lambda>r. \<not> same_key u v r) (likes_tbl s),
        videos_tbl := map (likes_plus v (- 1)) (videos_tbl s)\<rparr>"
    by (simp only: unlikeVideo_eq if_not_P [OF range] if_not_P [OF ne] if_not_P [OF ok] snd_conv)
  from assms have d: "distinct (map row_key (likes_tbl s))"
    by (simp add: storage_inv_def)
  show ?thesis
    unfolding eq using assms rows_for_remove_same [OF d ne]
    by (auto simp: storage_inv_def counters_match_def likes_plus_def rows_for_remove_other
        distinct_filter_keys)
qed

lemma inv_undislikeVideo:
  assumes "storage_inv s"
  shows "storage_inv (snd (undislikeVideo u v s))"
proof (cases "\<not> (int4 u \<and> int4 v) \<or> filter (same_key u v) (dislikes_tbl s) = []
    \<or> (\<exists>x \<in> set (videos_tbl s). v_id x = v \<and> out_of_range (dislikes x) (- 1))")
  case True
  then have "snd (undislikeVideo u v s) = s"
    by (auto simp: undislikeVideo_eq)
  with assms show ?thesis by simp
next
  case False
  then have range: "\<not> \<not> (int4 u \<and> int4 v)"
    and ne: "filter (same_key u v) (dislikes_tbl s) \<noteq> []"
    and ok: "\<not> (\<exists>x \<in> set (videos_tbl s). v_id x = v \<and> out_of_range (dislikes x) (- 1))"
    by blast+
  have eq: "snd (undislikeVideo u v s) =
      s\<lparr>dislikes_tbl := filter (\<lambda>r. \<not> same_key u v r) (dislikes_tbl s),
        videos_tbl := map (dislikes_plus v (- 1)) (videos_tbl s)\<rparr>"
    by (simp only: undislikeVideo_eq if_not_P [OF range] if_not_P [OF ne] if_not_P [OF ok] snd_conv)
  from assms have d: "distinct (map row_key (dislikes_tbl s))"
    by (simp add: storage_inv_def)
  show ?thesis
    unfolding eq using assms rows_for_remove_same [OF d ne]
    by (auto simp: storage_inv_def counters_match_def dislikes_plus_def rows_for_remove_other
        distinct_filter_keys)
qed

lemma rows_for_fresh: "\<forall>r \<in> set tbl. l_videoId r < n \<Longrightarrow> rows_for n tbl = 0"
  by (rule rows_for_zero) auto

lemma inv_bound:
  "(\<And>s. storage_inv s \<Longrightarrow> storage_inv (snd (m s))) \<Longrightarrow> storage_inv s \<Longrightarrow>
   storage_inv (snd (bound ps m s))"
  by (simp add: bound_apply split: option.splits)

lemma inv_first:
  assumes "\<And>s. storage_inv s \<Longrightarrow> storage_inv (snd (m s))" and "storage_inv s"
  shows "storage_inv (snd (await m (\<lambda>result. ret (f result)) s))"
proof -
  from assms have "storage_inv (snd (m s))" by blast
  moreover have "snd (await m (\<lambda>result. ret (f result)) s) = snd (m s)"
    by (cases "m s") (auto simp: await_def ret_def split: sum.splits)
  ultimately show ?thesis by simp
qed

lemma inv_createVideo: "storage_inv s \<Longrightarrow> storage_inv (snd (createVideo iv s))"
  unfolding createVideo_def
  by (erule inv_bound [rotated])
     (auto simp: Let_def storage_inv_def counters_match_def rows_for_fresh)

lemma inv_updateVideo: "storage_inv s \<Longrightarrow> storage_inv (snd (updateVideo i upd s))"
  unfolding updateVideo_def
  by (erule inv_first [rotated], erule inv_bound [rotated])
     (auto simp: update_videos_def update_rows_total storage_inv_def counters_match_def
        set_video_def)

lemma inv_deleteVideo: "storage_inv s \<Longrightarrow> storage_inv (snd (deleteVideo i s))"
  unfolding deleteVideo_def
  by (erule inv_bound [rotated]) (auto simp: Let_def storage_inv_def counters_match_def)

lemma inv_incrementViews: "storage_inv s \<Longrightarrow> storage_inv (snd (incrementViews i s))"
  unfolding incrementViews_def
  by (erule inv_first [rotated], erule inv_bound [rotated])
     (auto simp: update_videos_def update_rows_bump_views storage_inv_def counters_match_def
        views_plus_def)

lemma inv_createUser: "storage_inv s \<Longrightarrow> storage_inv (snd (createUser u s))"
  unfolding createUser_def
  by (erule inv_bound [rotated]) (auto simp: Let_def storage_inv_def counters_match_def)

lemma inv_updateUser: "storage_inv s \<Longrightarrow> storage_inv (snd (updateUser i upd s))"
proof (cases "uu_username upd = Undefined \<and> uu_password upd = Undefined
    \<and> uu_avatar upd = Undefined \<and> uu_bio upd = Undefined")
  case True
  assume "storage_inv s"
  with True show ?thesis by (simp add: updateUser_def throw_def)
next
  case False
  assume inv: "storage_inv s"
  have "storage_inv (snd (await (bound (text_param (uu_username upd) @ text_param (uu_password upd)
                      @ text_param (uu_avatar upd) @ text_param (uu_bio upd) @ [PInt i])
                 (\<lambda>s. update_users (\<lambda>u. u_id u = i) (set_user (users_tbl s) upd) s))
          (\<lambda>result. ret (first result)) s))"
    using inv
    by (rule inv_first [rotated], erule_tac inv_bound [rotated])
       (auto simp: update_users_def storage_inv_def counters_match_def
          split: sum.splits prod.splits)
  with False show ?thesis by (auto simp: updateUser_def)
qed

lemmas inv_users = inv_createUser inv_updateUser

lemma inv_watchlist:
  "storage_inv s \<Longrightarrow> storage_inv (snd (addToWatchlist item s))"
  "storage_inv s \<Longrightarrow> storage_inv (snd (removeFromWatchlist u v s))"
  by (auto simp: addToWatchlist_eq removeFromWatchlist_eq storage_inv_def counters_match_def)

lemma inv_createComment: "storage_inv s \<Longrightarrow> storage_inv (snd (createComment c s))"
  unfolding createComment_def
  by (erule inv_bound [rotated]) (auto simp: Let_def storage_inv_def counters_match_def)

lemma inv_deleteComment: "storage_inv s \<Longrightarrow> storage_inv (snd (deleteComment i u s))"
  unfolding deleteComment_def
  by (erule inv_bound [rotated]) (auto simp: Let_def storage_inv_def counters_match_def)

lemma inv_updateComment: "storage_inv s \<Longrightarrow> storage_inv (snd (updateComment i u upd s))"
  unfolding updateComment_def
  by (erule inv_first [rotated], erule inv_bound [rotated])
     (auto simp: update_comments_def update_rows_total storage_inv_def counters_match_def)

lemmas inv_comments = inv_createComment inv_deleteComment inv_updateComment

lemma inv_perform: "storage_inv s \<Longrightarrow> checked c s \<Longrightarrow> storage_inv (perform c s)"
  by (cases c)
     (simp_all add: inv_likeVideo inv_dislikeVideo inv_unlikeVideo inv_undislikeVideo
        inv_createVideo inv_updateVideo inv_deleteVideo inv_incrementViews inv_users
        inv_watchlist inv_comments, simp add: storage_inv_def counters_match_def)

lemma inv_run_checked: "storage_inv s \<Longrightarrow> storage_inv (run_checked cs s)"
  unfolding run_checked_def
  by (induction cs arbitrary: s) (simp_all add: inv_perform)

lemma inv_empty: "storage_inv empty_db"
  by (simp add: storage_inv_def counters_match_def empty_db_def)

text \<open>
  C2, amended. Start from the empty database and make any storage calls, liking or
  disliking a video only when \<open>getVideo\<close> finds it (as the handlers of POST /api/likes
  and POST /api/dislikes do). Then for every video of the resulting state the likes
  column is the number of likes rows for its id and the dislikes column the number of
  dislikes rows for its id.
\<close>

theorem counters_match_rows:
  "\<forall>x \<in> set (videos_tbl (run_checked cs empty_db)).
      likes x = Some (rows_for (v_id x) (likes_tbl (run_checked cs empty_db)))
      \<and> dislikes x = Some (rows_for (v_id x) (dislikes_tbl (run_checked cs empty_db)))"
  using inv_run_checked [OF inv_empty, of cs]
  by (simp add: storage_inv_def counters_match_def)

theorem counters_match_rows_witness:
  "sample_video\<lparr>likes := Some 1, dislikes := Some 1\<rparr>
     \<in> set (videos_tbl (run_checked
           [CreateVideo sample_insert, LikeVideo 7 1, LikeVideo 8 1, DislikeVideo 7 1,
            UnlikeVideo 7 1, LikeVideo 9 5] empty_db))
   \<and> rows_for 1 (likes_tbl (run_checked
           [CreateVideo sample_insert, LikeVideo 7 1, LikeVideo 8 1, DislikeVideo 7 1,
            UnlikeVideo 7 1, LikeVideo 9 5] empty_db)) = 1
   \<and> rows_for 1 (dislikes_tbl (run_checked
           [CreateVideo sample_insert, LikeVideo 7 1, LikeVideo 8 1, DislikeVideo 7 1,
            UnlikeVideo 7 1, LikeVideo 9 5] empty_db)) = 1"
proof -
  let ?s = "run_checked
     [CreateVideo sample_insert, LikeVideo 7 1, LikeVideo 8 1, DislikeVideo 7 1,
      UnlikeVideo 7 1, LikeVideo 9 5] empty_db"
  have vs: "videos_tbl ?s = [sample_video\<lparr>likes := Some 1, dislikes := Some 1\<rparr>]"
    by (simp add: run_checked_def video_found_def getVideo_def first_def likeVideo_def
        dislikeVideo_def unlikeVideo_def transaction_def await_def insert_likes_def
        insert_dislikes_def delete_likes_def update_videos_def ret_def createVideo_def
        sample_insert_def sample_video_def empty_db_def same_key_def Let_def null_of_def
        default_false_def bump_likes_def bump_dislikes_def sql_add_def bound_apply
        select_where_def text_param_def int4_def valid_text_def exhausted_def)
  then have mem: "sample_video\<lparr>likes := Some 1, dislikes := Some 1\<rparr> \<in> set (videos_tbl ?s)"
    by simp
  from counters_match_rows [of "[CreateVideo sample_insert, LikeVideo 7 1, LikeVideo 8 1,
      DislikeVideo 7 1, UnlikeVideo 7 1, LikeVideo 9 5]"] mem
  have "likes (sample_video\<lparr>likes := Some 1, dislikes := Some 1\<rparr>)
          = Some (rows_for (v_id (sample_video\<lparr>likes := Some 1, dislikes := Some 1\<rparr>)) (likes_tbl ?s))
      \<and> dislikes (sample_video\<lparr>likes := Some 1, dislikes := Some 1\<rparr>)
          = Some (rows_for (v_id (sample_video\<lparr>likes := Some 1, dislikes := Some 1\<rparr>)) (dislikes_tbl ?s))"
    by blast
  then have "rows_for 1 (likes_tbl ?s) = 1 \<and> rows_for 1 (dislikes_tbl ?s) = 1"
    by (simp add: sample_video_def)
  with mem show ?thesis by simp
qed

text \<open>
  C2, as stated, fails: \<open>likeVideo\<close> accepts a video id that no video has yet. After
  \<open>likeVideo 7 1\<close> on the empty database, \<open>createVideo\<close> creates video 1 with likes 0,
  while the likes table holds one row for video 1.
\<close>

theorem counters_drift_counterexample:
  "videos_tbl (run_calls [LikeVideo 7 1, CreateVideo sample_insert] empty_db) = [sample_video]
   \<and> likes sample_video = Some 0
   \<and> rows_for (v_id sample_video) (likes_tbl (run_calls [LikeVideo 7 1, CreateVideo sample_insert] empty_db)) = 1"
  by (simp add: run_calls_def likeVideo_def transaction_def await_def insert_likes_def
      update_videos_def ret_def createVideo_def sample_insert_def sample_video_def empty_db_def
      rows_for_def same_key_def Let_def null_of_def default_false_def bound_apply
      select_where_def text_param_def int4_def valid_text_def exhausted_def)
section \<open>Errors thrown by storage calls\<close>

lemma reports_ret: "reports (ret x)"
  by (simp add: reports_def ret_def)

lemma reports_respond: "reports (respond c p)"
  by (simp add: respond_def reports_ret)

lemma reports_throw: "reports (throw e)"
  by (simp add: reports_def throw_def)

lemma reportsD: "reports m \<Longrightarrow> m ((s, False), fs) = (r, ((s', True), fs')) \<Longrightarrow> isl r"
  unfolding reports_def by blast

lemma reports_await:
  assumes "reports m" and "\<And>x. reports (f x)"
  shows "reports (await m f)"
  unfolding reports_def
proof (intro allI impI)
  fix s fs r s' thrown fs'
  assume run: "await m f ((s, False), fs) = (r, ((s', thrown), fs'))" and "thrown"
  obtain r1 s1 b1 fs1 where m: "m ((s, False), fs) = (r1, ((s1, b1), fs1))"
    by (metis prod.exhaust)
  show "isl r"
  proof (cases r1)
    case (Inl e)
    with run m show ?thesis by (auto simp: await_def)
  next
    case (Inr x)
    with run m have fx: "f x ((s1, b1), fs1) = (r, ((s', thrown), fs'))"
      by (simp add: await_def)
    show ?thesis
    proof (cases b1)
      case True
      with assms(1) m have "isl r1" by (auto dest: reportsD)
      with Inr show ?thesis by simp
    next
      case False
      with assms(2) [of x] fx \<open>thrown\<close> show ?thesis by (auto dest: reportsD)
    qed
  qed
qed

lemma reports_on_store: "reports (on_store (tr m))"
  by (auto simp: reports_def on_store_def tr_def split: prod.splits sum.splits)

lemma reports_on_files: "reports (on_files m)"
  by (auto simp: reports_def on_files_def split: prod.splits)

lemma reports_with_number: "(\<And>i. reports (f i)) \<Longrightarrow> reports (with_number n f)"
  by (cases n) (simp_all add: with_number_def reports_throw)

lemma reports_remove_media: "reports (remove_media url)"
  by (auto simp: reports_def remove_media_def ret_def on_files_def split: prod.splits if_splits)

lemma reports_if: "reports a \<Longrightarrow> reports b \<Longrightarrow> reports (if c then a else b)"
  by simp

lemma reports_option: "reports a \<Longrightarrow> (\<And>x. reports (b x)) \<Longrightarrow> reports (case_option a b v)"
  by (cases v) simp_all

lemmas reports_intros =
  reports_ret reports_respond reports_throw reports_await reports_on_store reports_on_files
  reports_with_number reports_remove_media reports_if reports_option

lemma catch500_reports:
  assumes "reports body"
    and "catch500 msg body ((s, False), fs) = (res, ((s', True), fs'))"
  shows "res = \<lparr>status = 500, payload = Message msg\<rparr>"
proof -
  obtain r w where b: "body ((s, False), fs) = (r, w)" by (metis prod.exhaust)
  with assms(2) have w: "w = ((s', True), fs')"
    by (auto simp: catch500_def split: sum.splits)
  with assms(1) b have "isl r" by (auto dest: reportsD)
  with assms(2) b show ?thesis by (auto simp: catch500_def split: sum.splits)
qed

lemma get_api_videos_500:
  "get_api_videos (traced st) req ((s, False), fs) = (res, ((s', True), fs')) \<Longrightarrow>
   res = \<lparr>status = 500, payload = Message (failure_message GET_videos)\<rparr>"
  unfolding get_api_videos_def
  by (drule catch500_reports [rotated])
     (auto simp: traced_def Let_def intro!: reports_intros split: option.splits)

lemma get_api_videos_featured_500:
  "get_api_videos_featured (traced st) req ((s, False), fs) = (res, ((s', True), fs')) \<Longrightarrow>
   res = \<lparr>status = 500, payload = Message (failure_message GET_videos_featured)\<rparr>"
  unfolding get_api_videos_featured_def
  by (drule catch500_reports [rotated])
     (auto simp: traced_def Let_def intro!: reports_intros split: option.splits)

lemma get_api_videos_popular_500:
  "get_api_videos_popular (traced st) req ((s, False), fs) = (res, ((s', True), fs')) \<Longrightarrow>
   res = \<lparr>status = 500, payload = Message (failure_message GET_videos_popular)\<rparr>"
  unfolding get_api_videos_popular_def
  by (drule catch500_reports [rotated])
     (auto simp: traced_def Let_def intro!: reports_intros split: option.splits)

lemma get_api_videos_category_500:
  "get_api_videos_category (traced st) req ((s, False), fs) = (res, ((s', True), fs')) \<Longrightarrow>
   res = \<lparr>status = 500, payload = Message (failure_message GET_videos_category)\<rparr>"
  unfolding get_api_videos_category_def
  by (drule catch500_reports [rotated])
     (auto simp: traced_def Let_def intro!: reports_intros split: option.splits)

lemma get_api_videos_search_500:
  "get_api_videos_search (traced st) req ((s, False), fs) = (res, ((s', True), fs')) \<Longrightarrow>
   res = \<lparr>status = 500, payload = Message (failure_message GET_videos_search)\<rparr>"
  unfolding get_api_videos_search_def
  by (drule catch500_reports [rotated])
     (auto simp: traced_def Let_def intro!: reports_intros split: option.splits)

lemma get_api_videos_id_500:
  "get_api_videos_id (traced st) req ((s, False), fs) = (res, ((s', True), fs')) \<Longrightarrow>
   res = \<lparr>status = 500, payload = Message (failure_message GET_videos_id)\<rparr>"
  unfolding get_api_videos_id_def
  by (drule catch500_reports [rotated])
     (auto simp: traced_def Let_def intro!: reports_intros split: option.splits)

lemma post_api_videos_500:
  "post_api_videos (traced st) req ((s, False), fs) = (res, ((s', True), fs')) \<Longrightarrow>
   res = \<lparr>status = 500, payload = Message (failure_message POST_videos)\<rparr>"
  unfolding post_api_videos_def requireAuth_def upload_def
  by (cases "user req"; simp)
     (drule catch500_reports [rotated],
      auto simp: traced_def Let_def intro!: reports_intros split: option.splits)

lemma put_api_videos_id_500:
  "put_api_videos_id (traced st) req ((s, False), fs) = (res, ((s', True), fs')) \<Longrightarrow>
   res = \<lparr>status = 500, payload = Message (failure_message PUT_videos_id)\<rparr>"
  unfolding put_api_videos_id_def
  by (drule catch500_reports [rotated])
     (auto simp: traced_def Let_def intro!: reports_intros split: option.splits)

lemma delete_api_videos_id_500:
  "delete_api_videos_id (traced st) req ((s, False), fs) = (res, ((s', True), fs')) \<Longrightarrow>
   res = \<lparr>status = 500, payload = Message (failure_message DELETE_videos_id)\<rparr>"
  unfolding delete_api_videos_id_def requireAuth_def
  by (cases "user req"; simp)
     (drule catch500_reports [rotated],
      auto simp: traced_def Let_def intro!: reports_intros split: option.splits)

lemma delete_api_moderation_videos_id_500:
  "delete_api_moderation_videos_id (traced st) req ((s, False), fs) = (res, ((s', True), fs')) \<Longrightarrow>
   res = \<lparr>status = 500, payload = Message (failure_message DELETE_moderation_videos_id)\<rparr>"
  unfolding delete_api_moderation_videos_id_def requireAuth_def
  by (cases "user req"; simp)
     (drule catch500_reports [rotated],
      auto simp: traced_def Let_def intro!: reports_intros split: option.splits)

lemma post_api_users_500:
  "post_api_users (traced st) req ((s, False), fs) = (res, ((s', True), fs')) \<Longrightarrow>
   res = \<lparr>status = 500, payload = Message (failure_message POST_users)\<rparr>"
  unfolding post_api_users_def
  by (drule catch500_reports [rotated])
     (auto simp: traced_def Let_def intro!: reports_intros split: option.splits)

lemma post_api_users_id_avatar_500:
  "post_api_users_id_avatar (traced st) req ((s, False), fs) = (res, ((s', True), fs')) \<Longrightarrow>
   res = \<lparr>status = 500, payload = Message (failure_message POST_users_id_avatar)\<rparr>"
  unfolding post_api_users_id_avatar_def requireAuth_def upload_def
  by (cases "user req"; simp)
     (drule catch500_reports [rotated],
      auto simp: traced_def Let_def intro!: reports_intros split: option.splits)

lemma get_api_users_id_500:
  "get_api_users_id (traced st) req ((s, False), fs) = (res, ((s', True), fs')) \<Longrightarrow>
   res = \<lparr>status = 500, payload = Message (failure_message GET_users_id)\<rparr>"
  unfolding get_api_users_id_def
  by (drule catch500_reports [rotated])
     (auto simp: traced_def Let_def intro!: reports_intros split: option.splits)

lemma put_api_users_id_500:
  "put_api_users_id (traced st) req ((s, False), fs) = (res, ((s', True), fs')) \<Longrightarrow>
   res = \<lparr>status = 500, payload = Message (failure_message PUT_users_id)\<rparr>"
  unfolding put_api_users_id_def requireAuth_def
  by (cases "user req"; simp)
     (drule catch500_reports [rotated],
      auto simp: traced_def Let_def intro!: reports_intros split: option.splits)

lemma get_api_users_id_videos_500:
  "get_api_users_id_videos (traced st) req ((s, False), fs) = (res, ((s', True), fs')) \<Longrightarrow>
   res = \<lparr>status = 500, payload = Message (failure_message GET_users_id_videos)\<rparr>"
  unfolding get_api_users_id_videos_def
  by (drule catch500_reports [rotated])
     (auto simp: traced_def Let_def intro!: reports_intros split: option.splits)

lemma get_api_watchlist_500:
  "get_api_watchlist (traced st) req ((s, False), fs) = (res, ((s', True), fs')) \<Longrightarrow>
   res = \<lparr>status = 500, payload = Message (failure_message GET_watchlist)\<rparr>"
  unfolding get_api_watchlist_def requireAuth_def
  by (cases "user req"; simp)
     (drule catch500_reports [rotated],
      auto simp: traced_def Let_def intro!: reports_intros split: option.splits)

lemma get_api_users_id_watchlist_500:
  "get_api_users_id_watchlist (traced st) req ((s, False), fs) = (res, ((s', True), fs')) \<Longrightarrow>
   res = \<lparr>status = 500, payload = Message (failure_message GET_users_id_watchlist)\<rparr>"
  unfolding get_api_users_id_watchlist_def
  by (drule catch500_reports [rotated])
     (auto simp: traced_def Let_def intro!: reports_intros split: option.splits)

lemma post_api_watchlist_500:
  "post_api_watchlist (traced st) req ((s, False), fs) = (res, ((s', True), fs')) \<Longrightarrow>
   res = \<lparr>status = 500, payload = Message (failure_message POST_watchlist)\<rparr>"
  unfolding post_api_watchlist_def requireAuth_def
  by (cases "user req"; simp)
     (drule catch500_reports [rotated],
      auto simp: traced_def Let_def intro!: reports_intros split: option.splits)

lemma delete_api_watchlist_videoId_500:
  "delete_api_watchlist_videoId (traced st) req ((s, False), fs) = (res, ((s', True), fs')) \<Longrightarrow>
   res = \<lparr>status = 500, payload = Message (failure_message DELETE_watchlist_videoId)\<rparr>"
  unfolding delete_api_watchlist_videoId_def requireAuth_def
  by (cases "user req"; simp)
     (drule catch500_reports [rotated],
      auto simp: traced_def Let_def intro!: reports_intros split: option.splits)

lemma delete_api_watchlist_userId_videoId_500:
  "delete_api_watchlist_userId_videoId (traced st) req ((s, False), fs) = (res, ((s', True), fs')) \<Longrightarrow>
   res = \<lparr>status = 500, payload = Message (failure_message DELETE_watchlist_userId_videoId)\<rparr>"
  unfolding delete_api_watchlist_userId_videoId_def
  by (drule catch500_reports [rotated])
     (auto simp: traced_def Let_def intro!: reports_intros split: option.splits)

lemma get_api_watchlist_check_videoId_500:
  "get_api_watchlist_check_videoId (traced st) req ((s, False), fs) = (res, ((s', True), fs')) \<Longrightarrow>
   res = \<lparr>status = 500, payload = Message (failure_message GET_watchlist_check_videoId)\<rparr>"
  unfolding get_api_watchlist_check_videoId_def requireAuth_def
  by (cases "user req"; simp)
     (drule catch500_reports [rotated],
      auto simp: traced_def Let_def intro!: reports_intros split: option.splits)

lemma get_api_watchlist_check_userId_videoId_500:
  "get_api_watchlist_check_userId_videoId (traced st) req ((s, False), fs) = (res, ((s', True), fs')) \<Longrightarrow>
   res = \<lparr>status = 500, payload = Message (failure_message GET_watchlist_check_userId_videoId)\<rparr>"
  unfolding get_api_watchlist_check_userId_videoId_def
  by (drule catch500_reports [rotated])
     (auto simp: traced_def Let_def intro!: reports_intros split: option.splits)

lemma post_api_likes_500:
  "post_api_likes (traced st) req ((s, False), fs) = (res, ((s', True), fs')) \<Longrightarrow>
   res = \<lparr>status = 500, payload = Message (failure_message POST_likes)\<rparr>"
  unfolding post_api_likes_def requireAuth_def
  by (cases "user req"; simp)
     (drule catch500_reports [rotated],
      auto simp: traced_def Let_def intro!: reports_intros split: option.splits)

lemma delete_api_likes_videoId_500:
  "delete_api_likes_videoId (traced st) req ((s, False), fs) = (res, ((s', True), fs')) \<Longrightarrow>
   res = \<lparr>status = 500, payload = Message (failure_message DELETE_likes_videoId)\<rparr>"
  unfolding delete_api_likes_videoId_def requireAuth_def
  by (cases "user req"; simp)
     (drule catch500_reports [rotated],
      auto simp: traced_def Let_def intro!: reports_intros split: option.splits)

lemma get_api_likes_check_videoId_500:
  "get_api_likes_check_videoId (traced st) req ((s, False), fs) = (res, ((s', True), fs')) \<Longrightarrow>
   res = \<lparr>status = 500, payload = Message (failure_message GET_likes_check_videoId)\<rparr>"
  unfolding get_api_likes_check_videoId_def requireAuth_def
  by (cases "user req"; simp)
     (drule catch500_reports [rotated],
      auto simp: traced_def Let_def intro!: reports_intros split: option.splits)

lemma post_api_dislikes_500:
  "post_api_dislikes (traced st) req ((s, False), fs) = (res, ((s', True), fs')) \<Longrightarrow>
   res = \<lparr>status = 500, payload = Message (failure_message POST_dislikes)\<rparr>"
  unfolding post_api_dislikes_def requireAuth_def
  by (cases "user req"; simp)
     (drule catch500_reports [rotated],
      auto simp: traced_def Let_def intro!: reports_intros split: option.splits)

lemma delete_api_dislikes_videoId_500:
  "delete_api_dislikes_videoId (traced st) req ((s, False), fs) = (res, ((s', True), fs')) \<Longrightarrow>
   res = \<lparr>status = 500, payload = Message (failure_message DELETE_dislikes_videoId)\<rparr>"
  unfolding delete_api_dislikes_videoId_def requireAuth_def
  by (cases "user req"; simp)
     (drule catch500_reports [rotated],
      auto simp: traced_def Let_def intro!: reports_intros split: option.splits)

lemma get_api_dislikes_check_videoId_500:
  "get_api_dislikes_check_videoId (traced st) req ((s, False), fs) = (res, ((s', True), fs')) \<Longrightarrow>
   res = \<lparr>status = 500, payload = Message (failure_message GET_dislikes_check_videoId)\<rparr>"
  unfolding get_api_dislikes_check_videoId_def requireAuth_def
  by (cases "user req"; simp)
     (drule catch500_reports [rotated],
      auto simp: traced_def Let_def intro!: reports_intros split: option.splits)

lemma get_api_videos_videoId_comments_500:
  "get_api_videos_videoId_comments (traced st) req ((s, False), fs) = (res, ((s', True), fs')) \<Longrightarrow>
   res = \<lparr>status = 500, payload = Message (failure_message GET_videos_videoId_comments)\<rparr>"
  unfolding get_api_videos_videoId_comments_def
  by (drule catch500_reports [rotated])
     (auto simp: traced_def Let_def intro!: reports_intros split: option.splits)

lemma post_api_videos_videoId_comments_500:
  "post_api_videos_videoId_comments (traced st) req ((s, False), fs) = (res, ((s', True), fs')) \<Longrightarrow>
   res = \<lparr>status = 500, payload = Message (failure_message POST_videos_videoId_comments)\<rparr>"
  unfolding post_api_videos_videoId_comments_def requireAuth_def
  by (cases "user req"; simp)
     (drule catch500_reports [rotated],
      auto simp: traced_def Let_def intro!: reports_intros split: option.splits)

lemma put_api_comments_id_500:
  "put_api_comments_id (traced st) req ((s, False), fs) = (res, ((s', True), fs')) \<Longrightarrow>
   res = \<lparr>status = 500, payload = Message (failure_message PUT_comments_id)\<rparr>"
  unfolding put_api_comments_id_def requireAuth_def
  by (cases "user req"; simp)
     (drule catch500_reports [rotated],
      auto simp: traced_def Let_def intro!: reports_intros split: option.splits)

lemma delete_api_comments_id_500:
  "delete_api_comments_id (traced st) req ((s, False), fs) = (res, ((s', True), fs')) \<Longrightarrow>
   res = \<lparr>status = 500, payload = Message (failure_message DELETE_comments_id)\<rparr>"
  unfolding delete_api_comments_id_def requireAuth_def
  by (cases "user req"; simp)
     (drule catch500_reports [rotated],
      auto simp: traced_def Let_def intro!: reports_intros split: option.splits)

text \<open>The watched run of a computation agrees with the plain run.\<close>

lemma agreesD:
  "agrees m m' \<Longrightarrow> m' ((s, b), fs) = (r, ((s', b'), fs')) \<Longrightarrow> m (s, fs) = (r, (s', fs'))"
  unfolding agrees_def by blast

lemma agrees_ret: "agrees (ret x) (ret x)"
  by (simp add: agrees_def ret_def)

lemma agrees_respond: "agrees (respond c p) (respond c p)"
  by (simp add: respond_def agrees_ret)

lemma agrees_throw: "agrees (throw e) (throw e)"
  by (simp add: agrees_def throw_def)

lemma agrees_await:
  assumes "agrees m m'" and "\<And>x. agrees (f x) (f' x)"
  shows "agrees (await m f) (await m' f')"
  unfolding agrees_def
proof (intro allI impI)
  fix s b fs r s' b' fs'
  assume run: "await m' f' ((s, b), fs) = (r, ((s', b'), fs'))"
  obtain r1 s1 b1 fs1 where m': "m' ((s, b), fs) = (r1, ((s1, b1), fs1))"
    by (metis prod.exhaust)
  with assms(1) have m: "m (s, fs) = (r1, (s1, fs1))" by (rule agreesD)
  show "await m f (s, fs) = (r, (s', fs'))"
  proof (cases r1)
    case (Inl e)
    with run m' m show ?thesis by (auto simp: await_def)
  next
    case (Inr x)
    with run m' have "f' x ((s1, b1), fs1) = (r, ((s', b'), fs'))"
      by (simp add: await_def)
    with assms(2) [of x] have "f x (s1, fs1) = (r, (s', fs'))" by (rule agreesD)
    with Inr m show ?thesis by (simp add: await_def)
  qed
qed

lemma agrees_on_store: "agrees (on_store m) (on_store (tr m))"
  by (auto simp: agrees_def on_store_def tr_def split: prod.splits sum.splits)

lemma agrees_on_files: "agrees (on_files m) (on_files m)"
  by (auto simp: agrees_def on_files_def split: prod.splits)

lemma agrees_with_number: "(\<And>i. agrees (f i) (f' i)) \<Longrightarrow> agrees (with_number n f) (with_number n f')"
  by (cases n) (simp_all add: with_number_def agrees_throw)

lemma agrees_remove_media: "agrees (remove_media url) (remove_media url)"
  by (auto simp: agrees_def remove_media_def ret_def on_files_def split: prod.splits if_splits)

lemma agrees_if: "agrees a a' \<Longrightarrow> agrees b b' \<Longrightarrow> agrees (if c then a else b) (if c then a' else b')"
  by simp

lemma agrees_option:
  "agrees a a' \<Longrightarrow> (\<And>x. agrees (b x) (b' x)) \<Longrightarrow> agrees (case_option a b v) (case_option a' b' v)"
  by (cases v) simp_all

lemmas agrees_intros =
  agrees_ret agrees_respond agrees_throw agrees_await agrees_on_store agrees_on_files
  agrees_with_number agrees_remove_media agrees_if agrees_option

lemma catch500_agrees:
  assumes "agrees body body'"
    and "catch500 msg body' ((s, b), fs) = (res, ((s', b'), fs'))"
  shows "catch500 msg body (s, fs) = (res, (s', fs'))"
proof -
  obtain r s1 b1 fs1 where b: "body' ((s, b), fs) = (r, ((s1, b1), fs1))"
    by (metis prod.exhaust)
  with assms(1) have "body (s, fs) = (r, (s1, fs1))" by (rule agreesD)
  with assms(2) b show ?thesis by (auto simp: catch500_def split: sum.splits)
qed

lemma get_api_videos_agrees:
  "get_api_videos (traced st) req ((s, b), fs) = (res, ((s', b'), fs')) \<Longrightarrow>
   get_api_videos st req (s, fs) = (res, (s', fs'))"
  unfolding get_api_videos_def
  by (erule catch500_agrees [rotated])
     (auto simp: traced_def Let_def intro!: agrees_intros split: option.splits)

lemma get_api_videos_featured_agrees:
  "get_api_videos_featured (traced st) req ((s, b), fs) = (res, ((s', b'), fs')) \<Longrightarrow>
   get_api_videos_featured st req (s, fs) = (res, (s', fs'))"
  unfolding get_api_videos_featured_def
  by (erule catch500_agrees [rotated])
     (auto simp: traced_def Let_def intro!: agrees_intros split: option.splits)

lemma get_api_videos_popular_agrees:
  "get_api_videos_popular (traced st) req ((s, b), fs) = (res, ((s', b'), fs')) \<Longrightarrow>
   get_api_videos_popular st req (s, fs) = (res, (s', fs'))"
  unfolding get_api_videos_popular_def
  by (erule catch500_agrees [rotated])
     (auto simp: traced_def Let_def intro!: agrees_intros split: option.splits)

lemma get_api_videos_category_agrees:
  "get_api_videos_category (traced st) req ((s, b), fs) = (res, ((s', b'), fs')) \<Longrightarrow>
   get_api_videos_category st req (s, fs) = (res, (s', fs'))"
  unfolding get_api_videos_category_def
  by (erule catch500_agrees [rotated])
     (auto simp: traced_def Let_def intro!: agrees_intros split: option.splits)

lemma get_api_videos_search_agrees:
  "get_api_videos_search (traced st) req ((s, b), fs) = (res, ((s', b'), fs')) \<Longrightarrow>
   get_api_videos_search st req (s, fs) = (res, (s', fs'))"
  unfolding get_api_videos_search_def
  by (erule catch500_agrees [rotated])
     (auto simp: traced_def Let_def intro!: agrees_intros split: option.splits)

lemma get_api_videos_id_agrees:
  "get_api_videos_id (traced st) req ((s, b), fs) = (res, ((s', b'), fs')) \<Longrightarrow>
   get_api_videos_id st req (s, fs) = (res, (s', fs'))"
  unfolding get_api_videos_id_def
  by (erule catch500_agrees [rotated])
     (auto simp: traced_def Let_def intro!: agrees_intros split: option.splits)

lemma post_api_videos_agrees:
  "post_api_videos (traced st) req ((s, b), fs) = (res, ((s', b'), fs')) \<Longrightarrow>
   post_api_videos st req (s, fs) = (res, (s', fs'))"
  unfolding post_api_videos_def requireAuth_def upload_def
  by (cases "user req"; simp split del: if_split)
     (erule catch500_agrees [rotated],
      auto simp: traced_def Let_def intro!: agrees_intros split: option.splits)

lemma put_api_videos_id_agrees:
  "put_api_videos_id (traced st) req ((s, b), fs) = (res, ((s', b'), fs')) \<Longrightarrow>
   put_api_videos_id st req (s, fs) = (res, (s', fs'))"
  unfolding put_api_videos_id_def
  by (erule catch500_agrees [rotated])
     (auto simp: traced_def Let_def intro!: agrees_intros split: option.splits)

lemma delete_api_videos_id_agrees:
  "delete_api_videos_id (traced st) req ((s, b), fs) = (res, ((s', b'), fs')) \<Longrightarrow>
   delete_api_videos_id st req (s, fs) = (res, (s', fs'))"
  unfolding delete_api_videos_id_def requireAuth_def
  by (cases "user req"; simp split del: if_split)
     (erule catch500_agrees [rotated],
      auto simp: traced_def Let_def intro!: agrees_intros split: option.splits)

lemma delete_api_moderation_videos_id_agrees:
  "delete_api_moderation_videos_id (traced st) req ((s, b), fs) = (res, ((s', b'), fs')) \<Longrightarrow>
   delete_api_moderation_videos_id st req (s, fs) = (res, (s', fs'))"
  unfolding delete_api_moderation_videos_id_def requireAuth_def
  by (cases "user req"; simp split del: if_split)
     (erule catch500_agrees [rotated],
      auto simp: traced_def Let_def intro!: agrees_intros split: option.splits)

lemma post_api_users_agrees:
  "post_api_users (traced st) req ((s, b), fs) = (res, ((s', b'), fs')) \<Longrightarrow>
   post_api_users st req (s, fs) = (res, (s', fs'))"
  unfolding post_api_users_def
  by (erule catch500_agrees [rotated])
     (auto simp: traced_def Let_def intro!: agrees_intros split: option.splits)

lemma post_api_users_id_avatar_agrees:
  "post_api_users_id_avatar (traced st) req ((s, b), fs) = (res, ((s', b'), fs')) \<Longrightarrow>
   post_api_users_id_avatar st req (s, fs) = (res, (s', fs'))"
  unfolding post_api_users_id_avatar_def requireAuth_def upload_def
  by (cases "user req"; simp split del: if_split)
     (erule catch500_agrees [rotated],
      auto simp: traced_def Let_def intro!: agrees_intros split: option.splits)

lemma get_api_users_id_agrees:
  "get_api_users_id (traced st) req ((s, b), fs) = (res, ((s', b'), fs')) \<Longrightarrow>
   get_api_users_id st req (s, fs) = (res, (s', fs'))"
  unfolding get_api_users_id_def
  by (erule catch500_agrees [rotated])
     (auto simp: traced_def Let_def intro!: agrees_intros split: option.splits)

lemma put_api_users_id_agrees:
  "put_api_users_id (traced st) req ((s, b), fs) = (res, ((s', b'), fs')) \<Longrightarrow>
   put_api_users_id st req (s, fs) = (res, (s', fs'))"
  unfolding put_api_users_id_def requireAuth_def
  by (cases "user req"; simp split del: if_split)
     (erule catch500_agrees [rotated],
      auto simp: traced_def Let_def intro!: agrees_intros split: option.splits)

lemma get_api_users_id_videos_agrees:
  "get_api_users_id_videos (traced st) req ((s, b), fs) = (res, ((s', b'), fs')) \<Longrightarrow>
   get_api_users_id_videos st req (s, fs) = (res, (s', fs'))"
  unfolding get_api_users_id_videos_def
  by (erule catch500_agrees [rotated])
     (auto simp: traced_def Let_def intro!: agrees_intros split: option.splits)

lemma get_api_watchlist_agrees:
  "get_api_watchlist (traced st) req ((s, b), fs) = (res, ((s', b'), fs')) \<Longrightarrow>
   get_api_watchlist st req (s, fs) = (res, (s', fs'))"
  unfolding get_api_watchlist_def requireAuth_def
  by (cases "user req"; simp split del: if_split)
     (erule catch500_agrees [rotated],
      auto simp: traced_def Let_def intro!: agrees_intros split: option.splits)

lemma get_api_users_id_watchlist_agrees:
  "get_api_users_id_watchlist (traced st) req ((s, b), fs) = (res, ((s', b'), fs')) \<Longrightarrow>
   get_api_users_id_watchlist st req (s, fs) = (res, (s', fs'))"
  unfolding get_api_users_id_watchlist_def
  by (erule catch500_agrees [rotated])
     (auto simp: traced_def Let_def intro!: agrees_intros split: option.splits)

lemma post_api_watchlist_agrees:
  "post_api_watchlist (traced st) req ((s, b), fs) = (res, ((s', b'), fs')) \<Longrightarrow>
   post_api_watchlist st req (s, fs) = (res, (s', fs'))"
  unfolding post_api_watchlist_def requireAuth_def
  by (cases "user req"; simp split del: if_split)
     (erule catch500_agrees [rotated],
      auto simp: traced_def Let_def intro!: agrees_intros split: option.splits)

lemma delete_api_watchlist_videoId_agrees:
  "delete_api_watchlist_videoId (traced st) req ((s, b), fs) = (res, ((s', b'), fs')) \<Longrightarrow>
   delete_api_watchlist_videoId st req (s, fs) = (res, (s', fs'))"
  unfolding delete_api_watchlist_videoId_def requireAuth_def
  by (cases "user req"; simp split del: if_split)
     (erule catch500_agrees [rotated],
      auto simp: traced_def Let_def intro!: agrees_intros split: option.splits)

lemma delete_api_watchlist_userId_videoId_agrees:
  "delete_api_watchlist_userId_videoId (traced st) req ((s, b), fs) = (res, ((s', b'), fs')) \<Longrightarrow>
   delete_api_watchlist_userId_videoId st req (s, fs) = (res, (s', fs'))"
  unfolding delete_api_watchlist_userId_videoId_def
  by (erule catch500_agrees [rotated])
     (auto simp: traced_def Let_def intro!: agrees_intros split: option.splits)

lemma get_api_watchlist_check_videoId_agrees:
  "get_api_watchlist_check_videoId (traced st) req ((s, b), fs) = (res, ((s', b'), fs')) \<Longrightarrow>
   get_api_watchlist_check_videoId st req (s, fs) = (res, (s', fs'))"
  unfolding get_api_watchlist_check_videoId_def requireAuth_def
  by (cases "user req"; simp split del: if_split)
     (erule catch500_agrees [rotated],
      auto simp: traced_def Let_def intro!: agrees_intros split: option.splits)

lemma get_api_watchlist_check_userId_videoId_agrees:
  "get_api_watchlist_check_userId_videoId (traced st) req ((s, b), fs) = (res, ((s', b'), fs')) \<Longrightarrow>
   get_api_watchlist_check_userId_videoId st req (s, fs) = (res, (s', fs'))"
  unfolding get_api_watchlist_check_userId_videoId_def
  by (erule catch500_agrees [rotated])
     (auto simp: traced_def Let_def intro!: agrees_intros split: option.splits)

lemma post_api_likes_agrees:
  "post_api_likes (traced st) req ((s, b), fs) = (res, ((s', b'), fs')) \<Longrightarrow>
   post_api_likes st req (s, fs) = (res, (s', fs'))"
  unfolding post_api_likes_def requireAuth_def
  by (cases "user req"; simp split del: if_split)
     (erule catch500_agrees [rotated],
      auto simp: traced_def Let_def intro!: agrees_intros split: option.splits)

lemma delete_api_likes_videoId_agrees:
  "delete_api_likes_videoId (traced st) req ((s, b), fs) = (res, ((s', b'), fs')) \<Longrightarrow>
   delete_api_likes_videoId st req (s, fs) = (res, (s', fs'))"
  unfolding delete_api_likes_videoId_def requireAuth_def
  by (cases "user req"; simp split del: if_split)
     (erule catch500_agrees [rotated],
      auto simp: traced_def Let_def intro!: agrees_intros split: option.splits)

lemma get_api_likes_check_videoId_agrees:
  "get_api_likes_check_videoId (traced st) req ((s, b), fs) = (res, ((s', b'), fs')) \<Longrightarrow>
   get_api_likes_check_videoId st req (s, fs) = (res, (s', fs'))"
  unfolding get_api_likes_check_videoId_def requireAuth_def
  by (cases "user req"; simp split del: if_split)
     (erule catch500_agrees [rotated],
      auto simp: traced_def Let_def intro!: agrees_intros split: option.splits)

lemma post_api_dislikes_agrees:
  "post_api_dislikes (traced st) req ((s, b), fs) = (res, ((s', b'), fs')) \<Longrightarrow>
   post_api_dislikes st req (s, fs) = (res, (s', fs'))"
  unfolding post_api_dislikes_def requireAuth_def
  by (cases "user req"; simp split del: if_split)
     (erule catch500_agrees [rotated],
      auto simp: traced_def Let_def intro!: agrees_intros split: option.splits)

lemma delete_api_dislikes_videoId_agrees:
  "delete_api_dislikes_videoId (traced st) req ((s, b), fs) = (res, ((s', b'), fs')) \<Longrightarrow>
   delete_api_dislikes_videoId st req (s, fs) = (res, (s', fs'))"
  unfolding delete_api_dislikes_videoId_def requireAuth_def
  by (cases "user req"; simp split del: if_split)
     (erule catch500_agrees [rotated],
      auto simp: traced_def Let_def intro!: agrees_intros split: option.splits)

lemma get_api_dislikes_check_videoId_agrees:
  "get_api_dislikes_check_videoId (traced st) req ((s, b), fs) = (res, ((s', b'), fs')) \<Longrightarrow>
   get_api_dislikes_check_videoId st req (s, fs) = (res, (s', fs'))"
  unfolding get_api_dislikes_check_videoId_def requireAuth_def
  by (cases "user req"; simp split del: if_split)
     (erule catch500_agrees [rotated],
      auto simp: traced_def Let_def intro!: agrees_intros split: option.splits)

lemma get_api_videos_videoId_comments_agrees:
  "get_api_videos_videoId_comments (traced st) req ((s, b), fs) = (res, ((s', b'), fs')) \<Longrightarrow>
   get_api_videos_videoId_comments st req (s, fs) = (res, (s', fs'))"
  unfolding get_api_videos_videoId_comments_def
  by (erule catch500_agrees [rotated])
     (auto simp: traced_def Let_def intro!: agrees_intros split: option.splits)

lemma post_api_videos_videoId_comments_agrees:
  "post_api_videos_videoId_comments (traced st) req ((s, b), fs) = (res, ((s', b'), fs')) \<Longrightarrow>
   post_api_videos_videoId_comments st req (s, fs) = (res, (s', fs'))"
  unfolding post_api_videos_videoId_comments_def requireAuth_def
  by (cases "user req"; simp split del: if_split)
     (erule catch500_agrees [rotated],
      auto simp: traced_def Let_def intro!: agrees_intros split: option.splits)

lemma put_api_comments_id_agrees:
  "put_api_comments_id (traced st) req ((s, b), fs) = (res, ((s', b'), fs')) \<Longrightarrow>
   put_api_comments_id st req (s, fs) = (res, (s', fs'))"
  unfolding put_api_comments_id_def requireAuth_def
  by (cases "user req"; simp split del: if_split)
     (erule catch500_agrees [rotated],
      auto simp: traced_def Let_def intro!: agrees_intros split: option.splits)

lemma delete_api_comments_id_agrees:
  "delete_api_comments_id (traced st) req ((s, b), fs) = (res, ((s', b'), fs')) \<Longrightarrow>
   delete_api_comments_id st req (s, fs) = (res, (s', fs'))"
  unfolding delete_api_comments_id_def requireAuth_def
  by (cases "user req"; simp split del: if_split)
     (erule catch500_agrees [rotated],
      auto simp: traced_def Let_def intro!: agrees_intros split: option.splits)

text \<open>
  C6. Run any handler of \<^verbatim>\<open>routes.ts\<close> over any implementation \<open>st\<close> of the storage
  interface, and run it again over \<open>traced st\<close>, which watches the storage calls. The
  watched run gives the response and the state of the plain run; and if a storage call
  threw while the request was handled, that response has status 500 and the JSON body
  \<open>{message}\<close> of the handler's \<^verbatim>\<open>catch\<close> block. (A handler is a function to a
  response: nothing is thrown out of it.)
\<close>

theorem storage_error_gives_500:
  assumes "handle (traced st) r req ((s, False), fs) = (res, ((s', thrown), fs'))"
  shows "handle st r req (s, fs) = (res, (s', fs'))
    \<and> (thrown \<longrightarrow> status res = 500 \<and> payload res = Message (failure_message r))"
proof (intro conjI impI)
  show "handle st r req (s, fs) = (res, (s', fs'))"
    using assms
    by (cases r)
       (simp_all only: handle.simps,
        erule get_api_videos_agrees,
        erule get_api_videos_featured_agrees,
        erule get_api_videos_popular_agrees,
        erule get_api_videos_category_agrees,
        erule get_api_videos_search_agrees,
        erule get_api_videos_id_agrees,
        erule post_api_videos_agrees,
        erule put_api_videos_id_agrees,
        erule delete_api_videos_id_agrees,
        erule delete_api_moderation_videos_id_agrees,
        erule post_api_users_agrees,
        erule post_api_users_id_avatar_agrees,
        erule get_api_users_id_agrees,
        erule put_api_users_id_agrees,
        erule get_api_users_id_videos_agrees,
        erule get_api_watchlist_agrees,
        erule get_api_users_id_watchlist_agrees,
        erule post_api_watchlist_agrees,
        erule delete_api_watchlist_videoId_agrees,
        erule delete_api_watchlist_userId_videoId_agrees,
        erule get_api_watchlist_check_videoId_agrees,
        erule get_api_watchlist_check_userId_videoId_agrees,
        erule post_api_likes_agrees,
        erule delete_api_likes_videoId_agrees,
        erule get_api_likes_check_videoId_agrees,
        erule post_api_dislikes_agrees,
        erule delete_api_dislikes_videoId_agrees,
        erule get_api_dislikes_check_videoId_agrees,
        erule get_api_videos_videoId_comments_agrees,
        erule post_api_videos_videoId_comments_agrees,
        erule put_api_comments_id_agrees,
        erule delete_api_comments_id_agrees)
next
  assume thrown
  with assms have "res = \<lparr>status = 500, payload = Message (failure_message r)\<rparr>"
    by (cases r)
       (simp_all only: handle.simps,
        erule get_api_videos_500,
        erule get_api_videos_featured_500,
        erule get_api_videos_popular_500,
        erule get_api_videos_category_500,
        erule get_api_videos_search_500,
        erule get_api_videos_id_500,
        erule post_api_videos_500,
        erule put_api_videos_id_500,
        erule delete_api_videos_id_500,
        erule delete_api_moderation_videos_id_500,
        erule post_api_users_500,
        erule post_api_users_id_avatar_500,
        erule get_api_users_id_500,
        erule put_api_users_id_500,
        erule get_api_users_id_videos_500,
        erule get_api_watchlist_500,
        erule get_api_users_id_watchlist_500,
        erule post_api_watchlist_500,
        erule delete_api_watchlist_videoId_500,
        erule delete_api_watchlist_userId_videoId_500,
        erule get_api_watchlist_check_videoId_500,
        erule get_api_watchlist_check_userId_videoId_500,
        erule post_api_likes_500,
        erule delete_api_likes_videoId_500,
        erule get_api_likes_check_videoId_500,
        erule post_api_dislikes_500,
        erule delete_api_dislikes_videoId_500,
        erule get_api_dislikes_check_videoId_500,
        erule get_api_videos_videoId_comments_500,
        erule post_api_videos_videoId_comments_500,
        erule put_api_comments_id_500,
        erule delete_api_comments_id_500)
  then show "status res = 500" and "payload res = Message (failure_message r)"
    by simp_all
qed

theorem storage_error_gives_500_witness:
  "handle (traced DatabaseStorage) GET_videos_id (anonymous\<lparr>params_id := Some 1\<rparr>)
      ((saturated_db, False), no_files)
     = (\<lparr>status = 500, payload = Message ''Failed to fetch video''\<rparr>,
        ((saturated_db, True), no_files))
   \<and> handle DatabaseStorage GET_videos_id (anonymous\<lparr>params_id := Some 1\<rparr>)
      (saturated_db, no_files)
     = (\<lparr>status = 500, payload = Message ''Failed to fetch video''\<rparr>, (saturated_db, no_files))"
proof -
  have run: "handle (traced DatabaseStorage) GET_videos_id (anonymous\<lparr>params_id := Some 1\<rparr>)
      ((saturated_db, False), no_files)
     = (\<lparr>status = 500, payload = Message ''Failed to fetch video''\<rparr>,
        ((saturated_db, True), no_files))"
    by (simp add: get_api_videos_id_def catch500_def with_number_def await_def on_store_def
        traced_def tr_def DatabaseStorage_def getVideo_def incrementViews_def update_videos_def
        bump_views_def sql_add_def first_def saturated_db_def sample_video_def empty_db_def
        anonymous_def respond_def ret_def bound_apply select_where_def int4_def)
  from storage_error_gives_500 [OF run] run show ?thesis by simp
qed

section \<open>Deleting videos: the administrator and the owner\<close>

lemma await_on_store:
  "await (on_store m) k (s, fs) =
     (case m s of (Inl e, s') \<Rightarrow> (Inl e, (s', fs)) | (Inr x, s') \<Rightarrow> k x (s', fs))"
  by (simp add: await_def on_store_def split: prod.splits sum.splits)

lemma with_number_Some: "with_number (Some i) f = f i"
  by (simp add: with_number_def)

lemma await_assoc: "await m (\<lambda>x. await (f x) g) = await (await m f) g"
  by (rule ext) (simp add: await_def split: prod.splits sum.splits)

lemma first_filter_map:
  assumes "\<And>x. p (g x) = p x"
  shows "first (filter p (map g xs)) = map_option g (first (filter p xs))"
  by (induction xs) (auto simp: first_def assms)

lemma first_filter_map_all:
  "first (map g (filter p xs)) = map_option g (first (filter p xs))"
  by (cases "filter p xs") (auto simp: first_def)

lemma updateVideo_cases:
  "updateVideo i data s =
     (case rejected ([PText (uv_title data)] @ text_param (uv_description data)
                     @ [PText (uv_thumbnail data), PText (uv_category data), PInt i]) of
        Some e \<Rightarrow> (Inl e, s)
      | None \<Rightarrow>
          (Inr (map_option (set_video data) (first (filter (\<lambda>x. v_id x = i) (videos_tbl s)))),
           s\<lparr>videos_tbl :=
               map (\<lambda>x. if v_id x = i then set_video data x else x) (videos_tbl s)\<rparr>))"
  by (simp add: updateVideo_def await_def bound_apply update_videos_def update_rows_total
      ret_def first_filter_map_all split: option.splits)

lemma deleteVideo_eq:
  "deleteVideo i s =
     (if int4 i
      then (Inr (filter (\<lambda>v. v_id v = i) (videos_tbl s) \<noteq> []),
            s\<lparr>videos_tbl := filter (\<lambda>v. v_id v \<noteq> i) (videos_tbl s)\<rparr>)
      else (Inl NumericValueOutOfRange, s))"
  by (simp add: deleteVideo_def bound_int Let_def)

text \<open>
  What the two delete routes do for the user with id 1 when nothing goes wrong: on the
  id of an existing video, whoever uploaded it, they answer 200 and delete the video
  once both of its files could be removed (or were not there), and on a 32-bit id that
  no video has they answer 404 and change nothing.
\<close>

lemma admin_delete_removes_video:
  assumes "user req = Some u" and "u_id u = 1" and "params_id req = Some i" and "int4 i"
    and "first (filter (\<lambda>x. v_id x = i) (videos_tbl s)) = Some v"
    and "await (remove_media (videoUrl v)) (\<lambda>_. remove_media (thumbnail v)) (s, fs)
           = (Inr (), (s, fs'))"
  shows "delete_api_videos_id DatabaseStorage req (s, fs) =
           (\<lparr>status = 200, payload = Success\<rparr>,
            (s\<lparr>videos_tbl := filter (\<lambda>x. v_id x \<noteq> i) (videos_tbl s)\<rparr>, fs'))"
    and "delete_api_moderation_videos_id DatabaseStorage req (s, fs) =
           (\<lparr>status = 200, payload = Terminated i (moderation_reason req)\<rparr>,
            (s\<lparr>videos_tbl := filter (\<lambda>x. v_id x \<noteq> i) (videos_tbl s)\<rparr>, fs'))"
proof -
  have media: "await (remove_media (videoUrl v)) (\<lambda>_. await (remove_media (thumbnail v)) (\<lambda>_. k))
      (s, fs) = k (s, fs')" for k :: "(response, db \<times> fsys) prog"
    using assms(6) by (simp add: await_assoc) (simp add: await_def)
  from assms(1-5) show "delete_api_videos_id DatabaseStorage req (s, fs) =
           (\<lparr>status = 200, payload = Success\<rparr>,
            (s\<lparr>videos_tbl := filter (\<lambda>x. v_id x \<noteq> i) (videos_tbl s)\<rparr>, fs'))"
    by (simp add: delete_api_videos_id_def requireAuth_def catch500_def with_number_Some
        DatabaseStorage_def getVideo_eq await_on_store media deleteVideo_eq respond_def ret_def
        Let_def)
  from assms(1-5) show "delete_api_moderation_videos_id DatabaseStorage req (s, fs) =
           (\<lparr>status = 200, payload = Terminated i (moderation_reason req)\<rparr>,
            (s\<lparr>videos_tbl := filter (\<lambda>x. v_id x \<noteq> i) (videos_tbl s)\<rparr>, fs'))"
    by (simp add: delete_api_moderation_videos_id_def requireAuth_def catch500_def
        with_number_Some DatabaseStorage_def getVideo_eq await_on_store media deleteVideo_eq
        respond_def ret_def Let_def moderation_reason_def)
qed

lemma admin_delete_unknown_video:
  assumes "user req = Some u" and "u_id u = 1" and "params_id req = Some i" and "int4 i"
    and "first (filter (\<lambda>x. v_id x = i) (videos_tbl s)) = None"
  shows "delete_api_videos_id DatabaseStorage req (s, fs) =
           (\<lparr>status = 404, payload = Message ''Video not found''\<rparr>, (s, fs))"
    and "delete_api_moderation_videos_id DatabaseStorage req (s, fs) =
           (\<lparr>status = 404, payload = Message ''Video not found''\<rparr>, (s, fs))"
  using assms
  by (simp_all add: delete_api_videos_id_def delete_api_moderation_videos_id_def
      requireAuth_def catch500_def with_number_Some DatabaseStorage_def getVideo_eq
      await_on_store respond_def ret_def)

text \<open>
  C5 fails on the code. Nobody has to be logged in to PUT /api/videos/1 with the
  thumbnail \<^verbatim>\<open>/uploads\<close>, the path of the upload directory. After that the user with id 1
  cannot delete video 1: DELETE /api/videos/1 and DELETE /api/moderation/videos/1 remove
  the video file, fail on the thumbnail (\<^verbatim>\<open>unlinkSync\<close> on a directory throws) and answer
  500, and \<open>getVideo\<close> still finds the video. And on the id 2147483648, which no video has,
  both routes answer 500 instead of 404, because \<open>getVideo\<close> throws.
\<close>

theorem admin_delete_fails_on_directory:
  "put_api_videos_id DatabaseStorage
      (anonymous\<lparr>params_id := Some 1, body_title := JStr ''Jungle Run'',
                  body_thumbnail := JStr ''/uploads'', body_category := JStr ''Action''\<rparr>)
      (sample_db, sample_files)
     = (\<lparr>status = 200, payload = VideoJ (Some (sample_video\<lparr>thumbnail := ''/uploads''\<rparr>))\<rparr>,
        (sample_db\<lparr>videos_tbl := [sample_video\<lparr>thumbnail := ''/uploads''\<rparr>]\<rparr>, sample_files))
   \<and> delete_api_videos_id DatabaseStorage
      (anonymous\<lparr>user := Some (account 1), params_id := Some 1\<rparr>)
      (sample_db\<lparr>videos_tbl := [sample_video\<lparr>thumbnail := ''/uploads''\<rparr>]\<rparr>, sample_files)
     = (\<lparr>status = 500, payload = Message ''Failed to delete video''\<rparr>,
        (sample_db\<lparr>videos_tbl := [sample_video\<lparr>thumbnail := ''/uploads''\<rparr>]\<rparr>,
         sample_files\<lparr>nodes := (nodes sample_files)([''app'', ''uploads'', ''v.mp4''] := None)\<rparr>))
   \<and> delete_api_moderation_videos_id DatabaseStorage
      (anonymous\<lparr>user := Some (account 1), params_id := Some 1\<rparr>)
      (sample_db\<lparr>videos_tbl := [sample_video\<lparr>thumbnail := ''/uploads''\<rparr>]\<rparr>, sample_files)
     = (\<lparr>status = 500, payload = Message ''Failed to terminate video''\<rparr>,
        (sample_db\<lparr>videos_tbl := [sample_video\<lparr>thumbnail := ''/uploads''\<rparr>]\<rparr>,
         sample_files\<lparr>nodes := (nodes sample_files)([''app'', ''uploads'', ''v.mp4''] := None)\<rparr>))
   \<and> getVideo 1 (sample_db\<lparr>videos_tbl := [sample_video\<lparr>thumbnail := ''/uploads''\<rparr>]\<rparr>)
     = (Inr (Some (sample_video\<lparr>thumbnail := ''/uploads''\<rparr>)),
        sample_db\<lparr>videos_tbl := [sample_video\<lparr>thumbnail := ''/uploads''\<rparr>]\<rparr>)
   \<and> getVideo 2147483648 sample_db = (Inl NumericValueOutOfRange, sample_db)
   \<and> delete_api_videos_id DatabaseStorage
      (anonymous\<lparr>user := Some (account 1), params_id := Some 2147483648\<rparr>)
      (sample_db, sample_files)
     = (\<lparr>status = 500, payload = Message ''Failed to delete video''\<rparr>, (sample_db, sample_files))
   \<and> delete_api_moderation_videos_id DatabaseStorage
      (anonymous\<lparr>user := Some (account 1), params_id := Some 2147483648\<rparr>)
      (sample_db, sample_files)
     = (\<lparr>status = 500, payload = Message ''Failed to terminate video''\<rparr>,
        (sample_db, sample_files))"
proof -
  let ?db = "sample_db\<lparr>videos_tbl := [sample_video\<lparr>thumbnail := ''/uploads''\<rparr>]\<rparr>"
  let ?admin = "anonymous\<lparr>user := Some (account 1), params_id := Some 1\<rparr>"
  have video: "media_path ''/uploads/v.mp4'' sample_files =
      \<lparr>segments = [''app'', ''uploads'', ''v.mp4''], trailing_slash = False\<rparr>"
    by (simp add: media_path_def replace_uploads_def path_join_def walk_def sample_files_def
        no_files_def)
  have thumb: "media_path ''/uploads''
        (sample_files\<lparr>nodes := (nodes sample_files)([''app'', ''uploads'', ''v.mp4''] := None)\<rparr>)
      = \<lparr>segments = [''app'', ''uploads''], trailing_slash = False\<rparr>"
    by (simp add: media_path_def replace_uploads_def path_join_def walk_def sample_files_def
        no_files_def)
  have rm1: "remove_media ''/uploads/v.mp4'' (?db, sample_files) =
      (Inr (), (?db, sample_files\<lparr>nodes :=
          (nodes sample_files)([''app'', ''uploads'', ''v.mp4''] := None)\<rparr>))"
    by (simp add: remove_media_def video existsSync_def lookup_def unlinkSync_def on_files_def
        valid_text_def)
       (simp add: sample_files_def no_files_def)
  have rm2: "remove_media ''/uploads''
        (?db, sample_files\<lparr>nodes := (nodes sample_files)([''app'', ''uploads'', ''v.mp4''] := None)\<rparr>)
      = (Inl FsError,
         (?db, sample_files\<lparr>nodes := (nodes sample_files)([''app'', ''uploads'', ''v.mp4''] := None)\<rparr>))"
    by (simp add: remove_media_def thumb existsSync_def lookup_def unlinkSync_def on_files_def
        valid_text_def)
       (simp add: sample_files_def no_files_def)
  have found: "getVideo 1 ?db = (Inr (Some (sample_video\<lparr>thumbnail := ''/uploads''\<rparr>)), ?db)"
    by (simp add: getVideo_eq int4_def first_def sample_db_def empty_db_def sample_video_def)
  have unknown: "getVideo 2147483648 sample_db = (Inl NumericValueOutOfRange, sample_db)"
    by (simp add: getVideo_eq int4_def)
  have urls: "videoUrl (sample_video\<lparr>thumbnail := ''/uploads''\<rparr>) = ''/uploads/v.mp4''"
    "thumbnail (sample_video\<lparr>thumbnail := ''/uploads''\<rparr>) = ''/uploads''"
    by (simp_all add: sample_video_def)
  have put: "put_api_videos_id DatabaseStorage
      (anonymous\<lparr>params_id := Some 1, body_title := JStr ''Jungle Run'',
                  body_thumbnail := JStr ''/uploads'', body_category := JStr ''Action''\<rparr>)
      (sample_db, sample_files)
     = (\<lparr>status = 200, payload = VideoJ (Some (sample_video\<lparr>thumbnail := ''/uploads''\<rparr>))\<rparr>,
        (?db, sample_files))"
  proof -
    let ?req = "anonymous\<lparr>params_id := Some 1, body_title := JStr ''Jungle Run'',
                  body_thumbnail := JStr ''/uploads'', body_category := JStr ''Action''\<rparr>"
    let ?data = "\<lparr>uv_title = ''Jungle Run'', uv_description = Undefined,
                   uv_thumbnail = ''/uploads'', uv_category = ''Action'',
                   uv_featured = Val False\<rparr>"
    have id: "params_id ?req = Some 1" by simp
    have schema: "updateVideoSchema ?req = Some ?data"
      by (simp add: updateVideoSchema_def optional_string_def anonymous_def)
    have get: "getVideo 1 sample_db = (Inr (Some sample_video), sample_db)"
      by (simp add: getVideo_eq int4_def first_def sample_db_def empty_db_def sample_video_def)
    have upd: "updateVideo 1 ?data sample_db =
        (Inr (Some (sample_video\<lparr>thumbnail := ''/uploads''\<rparr>)), ?db)"
      by (simp add: updateVideo_cases text_param_def valid_text_def int4_def first_def
          set_video_def set_nullable_def sample_db_def empty_db_def sample_video_def)
    show ?thesis
      by (simp add: put_api_videos_id_def catch500_def id with_number_Some DatabaseStorage_def
          await_on_store get schema upd respond_def ret_def)
  qed
  have del: "delete_api_videos_id DatabaseStorage ?admin (?db, sample_files)
     = (\<lparr>status = 500, payload = Message ''Failed to delete video''\<rparr>,
        (?db, sample_files\<lparr>nodes := (nodes sample_files)([''app'', ''uploads'', ''v.mp4''] := None)\<rparr>))"
    by (simp add: delete_api_videos_id_def requireAuth_def catch500_def with_number_Some
        DatabaseStorage_def await_on_store found urls anonymous_def account_def Let_def)
       (simp add: await_def rm1 rm2)
  have mod: "delete_api_moderation_videos_id DatabaseStorage ?admin (?db, sample_files)
     = (\<lparr>status = 500, payload = Message ''Failed to terminate video''\<rparr>,
        (?db, sample_files\<lparr>nodes := (nodes sample_files)([''app'', ''uploads'', ''v.mp4''] := None)\<rparr>))"
    by (simp add: delete_api_moderation_videos_id_def requireAuth_def catch500_def
        with_number_Some DatabaseStorage_def await_on_store found urls anonymous_def account_def
        Let_def)
       (simp add: await_def rm1 rm2)
  have del': "delete_api_videos_id DatabaseStorage
      (anonymous\<lparr>user := Some (account 1), params_id := Some 2147483648\<rparr>)
      (sample_db, sample_files)
     = (\<lparr>status = 500, payload = Message ''Failed to delete video''\<rparr>, (sample_db, sample_files))"
    by (simp add: delete_api_videos_id_def requireAuth_def catch500_def with_number_Some
        DatabaseStorage_def await_on_store unknown anonymous_def account_def)
  have mod': "delete_api_moderation_videos_id DatabaseStorage
      (anonymous\<lparr>user := Some (account 1), params_id := Some 2147483648\<rparr>)
      (sample_db, sample_files)
     = (\<lparr>status = 500, payload = Message ''Failed to terminate video''\<rparr>,
        (sample_db, sample_files))"
    by (simp add: delete_api_moderation_videos_id_def requireAuth_def catch500_def
        with_number_Some DatabaseStorage_def await_on_store unknown anonymous_def account_def)
  from put del mod found unknown del' mod' show ?thesis
    by (simp only: simp_thms)
qed

text \<open>
  C8. For an authenticated user whose id is not 1, DELETE /api/moderation/videos/:id
  answers 403 whatever the request, the storage and the state, which stays as it was;
  DELETE /api/videos/:id answers 403 and leaves database and files as they were when the
  video exists and belongs to somebody else (for an id outside the 32 bits, which no
  stored video has, the lookup throws and the answer is 500, again with nothing
  changed). The user with id 1 never gets 403 from either route. Both handlers read
  nothing of the user but the id: two users with the same id get the same outcome, so no
  other role or flag takes part.
\<close>

theorem admin_is_user_one:
  assumes "user req = Some u"
  shows
   "(u_id u \<noteq> 1 \<longrightarrow>
       delete_api_moderation_videos_id st req w =
         (\<lparr>status = 403, payload = Message ''Only administrators can terminate videos''\<rparr>, w))
    \<and> (u_id u \<noteq> 1 \<and> params_id req = Some i
         \<and> first (filter (\<lambda>x. v_id x = i) (videos_tbl s)) = Some v \<and> v_userId v \<noteq> u_id u \<longrightarrow>
       delete_api_videos_id DatabaseStorage req (s, fs) =
         (if int4 i
          then (\<lparr>status = 403, payload = Message ''You can only delete your own videos''\<rparr>,
                (s, fs))
          else (\<lparr>status = 500, payload = Message ''Failed to delete video''\<rparr>, (s, fs))))
    \<and> (u_id u = 1 \<longrightarrow>
       status (fst (delete_api_videos_id st req w)) \<noteq> 403
       \<and> status (fst (delete_api_moderation_videos_id st req w)) \<noteq> 403)
    \<and> (\<forall>u'. u_id u' = u_id u \<longrightarrow>
       delete_api_videos_id st (req\<lparr>user := Some u'\<rparr>) w = delete_api_videos_id st req w
       \<and> delete_api_moderation_videos_id st (req\<lparr>user := Some u'\<rparr>) w =
           delete_api_moderation_videos_id st req w)"
proof (intro conjI impI allI)
  assume "u_id u \<noteq> 1"
  with assms show "delete_api_moderation_videos_id st req w =
         (\<lparr>status = 403, payload = Message ''Only administrators can terminate videos''\<rparr>, w)"
    by (simp add: delete_api_moderation_videos_id_def requireAuth_def catch500_def respond_def
        ret_def)
next
  assume "u_id u \<noteq> 1 \<and> params_id req = Some i
         \<and> first (filter (\<lambda>x. v_id x = i) (videos_tbl s)) = Some v \<and> v_userId v \<noteq> u_id u"
  with assms show "delete_api_videos_id DatabaseStorage req (s, fs) =
         (if int4 i
          then (\<lparr>status = 403, payload = Message ''You can only delete your own videos''\<rparr>,
                (s, fs))
          else (\<lparr>status = 500, payload = Message ''Failed to delete video''\<rparr>, (s, fs)))"
    by (simp add: delete_api_videos_id_def requireAuth_def catch500_def with_number_Some
        DatabaseStorage_def getVideo_eq await_on_store respond_def ret_def Let_def)
next
  assume "u_id u = 1"
  with assms show "status (fst (delete_api_videos_id st req w)) \<noteq> 403"
    by (auto simp: delete_api_videos_id_def requireAuth_def catch500_def with_number_def
        await_def throw_def respond_def ret_def Let_def
        split: option.splits prod.splits sum.splits)
next
  assume "u_id u = 1"
  with assms show "status (fst (delete_api_moderation_videos_id st req w)) \<noteq> 403"
    by (auto simp: delete_api_moderation_videos_id_def requireAuth_def catch500_def with_number_def
        await_def throw_def respond_def ret_def Let_def
        split: option.splits prod.splits sum.splits)
next
  fix u' :: user
  assume "u_id u' = u_id u"
  with assms show "delete_api_videos_id st (req\<lparr>user := Some u'\<rparr>) w = delete_api_videos_id st req w"
    by (simp add: delete_api_videos_id_def requireAuth_def)
next
  fix u' :: user
  assume "u_id u' = u_id u"
  with assms show "delete_api_moderation_videos_id st (req\<lparr>user := Some u'\<rparr>) w =
           delete_api_moderation_videos_id st req w"
    by (simp add: delete_api_moderation_videos_id_def requireAuth_def)
qed

theorem admin_is_user_one_witness:
  "user (anonymous\<lparr>user := Some (account 7), params_id := Some 1\<rparr>) = Some (account 7)
   \<and> u_id (account 7) = 7
   \<and> v_userId sample_video = 2
   \<and> delete_api_moderation_videos_id DatabaseStorage
        (anonymous\<lparr>user := Some (account 7), params_id := Some 1\<rparr>) (sample_db, sample_files) =
       (\<lparr>status = 403, payload = Message ''Only administrators can terminate videos''\<rparr>,
        (sample_db, sample_files))
   \<and> delete_api_videos_id DatabaseStorage
        (anonymous\<lparr>user := Some (account 7), params_id := Some 1\<rparr>) (sample_db, sample_files) =
       (\<lparr>status = 403, payload = Message ''You can only delete your own videos''\<rparr>,
        (sample_db, sample_files))"
proof -
  let ?req = "anonymous\<lparr>user := Some (account 7), params_id := Some 1\<rparr>"
  have a: "user ?req = Some (account 7)" and b: "u_id (account 7) = 7"
    and c: "params_id ?req = Some 1" and d: "v_userId sample_video = 2"
    by (simp_all add: anonymous_def account_def sample_video_def)
  have found: "first (filter (\<lambda>x. v_id x = 1) (videos_tbl sample_db)) = Some sample_video"
    by (simp add: sample_db_def empty_db_def sample_video_def first_def)
  from admin_is_user_one [OF a, of DatabaseStorage "(sample_db, sample_files)" 1 sample_db
      sample_video sample_files] b c d found
  show ?thesis by (simp add: a int4_def)
qed

section \<open>Fetching, updating and searching videos\<close>

lemma incrementViews_eq:
  "incrementViews i s =
     (if \<not> int4 i \<or> (\<exists>x \<in> set (videos_tbl s). v_id x = i \<and> out_of_range (views x) 1)
      then (Inl NumericValueOutOfRange, s)
      else (Inr (map_option (views_plus i 1) (first (filter (\<lambda>x. v_id x = i) (videos_tbl s)))),
            s\<lparr>videos_tbl := map (views_plus i 1) (videos_tbl s)\<rparr>))"
  by (simp add: incrementViews_def await_def bound_int update_videos_def update_rows_bump_views
      ret_def first_filter_map_all)

text \<open>
  C9. GET /api/videos/:id on the id of an existing video answers 200 unless the views
  column would leave the 32-bit range (then 500, nothing changed; so too for an id
  outside the 32 bits, which no stored video has). When it answers 200, the body is the
  video as \<open>getVideo\<close> read it, and the state differs from the one before in the videos
  table only, where \<^verbatim>\<open>views = views + 1\<close> has been applied to the rows with this id: no
  other column and no row with another id changes. So a video returned with views \<open>n\<close>
  is stored with views \<open>n + 1\<close>.
\<close>

theorem fetching_a_video_counts_a_view:
  assumes "params_id req = Some i"
    and "first (filter (\<lambda>x. v_id x = i) (videos_tbl s)) = Some v"
  shows
   "get_api_videos_id DatabaseStorage req (s, fs) =
      (if \<not> int4 i \<or> (\<exists>x \<in> set (videos_tbl s). v_id x = i \<and> out_of_range (views x) 1)
       then (\<lparr>status = 500, payload = Message ''Failed to fetch video''\<rparr>, (s, fs))
       else (\<lparr>status = 200, payload = VideoJ (Some v)\<rparr>,
             (s\<lparr>videos_tbl := map (views_plus i 1) (videos_tbl s)\<rparr>, fs)))
    \<and> (\<forall>x. v_id x \<noteq> i \<longrightarrow> views_plus i 1 x = x)
    \<and> (\<forall>n. views v = Some n \<longrightarrow>
          fst (getVideo i (s\<lparr>videos_tbl := map (views_plus i 1) (videos_tbl s)\<rparr>))
            = (if int4 i then Inr (Some (v\<lparr>views := Some (n + 1)\<rparr>))
               else Inl NumericValueOutOfRange))"
proof (intro conjI allI impI)
  from assms show "get_api_videos_id DatabaseStorage req (s, fs) =
      (if \<not> int4 i \<or> (\<exists>x \<in> set (videos_tbl s). v_id x = i \<and> out_of_range (views x) 1)
       then (\<lparr>status = 500, payload = Message ''Failed to fetch video''\<rparr>, (s, fs))
       else (\<lparr>status = 200, payload = VideoJ (Some v)\<rparr>,
             (s\<lparr>videos_tbl := map (views_plus i 1) (videos_tbl s)\<rparr>, fs)))"
    by (cases "int4 i")
       (simp_all add: get_api_videos_id_def catch500_def with_number_Some DatabaseStorage_def
          getVideo_eq await_on_store incrementViews_eq respond_def ret_def)
next
  fix x :: video
  assume "v_id x \<noteq> i"
  then show "views_plus i 1 x = x" by (simp add: views_plus_def)
next
  fix n
  assume n: "views v = Some n"
  from assms(2) have "v \<in> set (filter (\<lambda>x. v_id x = i) (videos_tbl s))"
    by (rule first_SomeD)
  then have id: "v_id v = i" by simp
  have "first (filter (\<lambda>x. v_id x = i) (map (views_plus i 1) (videos_tbl s)))
          = map_option (views_plus i 1) (first (filter (\<lambda>x. v_id x = i) (videos_tbl s)))"
    by (rule first_filter_map) (simp add: views_plus_def)
  with assms(2) n id
  show "fst (getVideo i (s\<lparr>videos_tbl := map (views_plus i 1) (videos_tbl s)\<rparr>))
            = (if int4 i then Inr (Some (v\<lparr>views := Some (n + 1)\<rparr>))
               else Inl NumericValueOutOfRange)"
    by (simp add: getVideo_eq views_plus_def)
qed

theorem fetching_a_video_counts_a_view_witness:
  "params_id (anonymous\<lparr>params_id := Some 1\<rparr>) = Some 1
   \<and> first (filter (\<lambda>x. v_id x = 1) (videos_tbl sample_db)) = Some sample_video
   \<and> views sample_video = Some 0
   \<and> get_api_videos_id DatabaseStorage (anonymous\<lparr>params_id := Some 1\<rparr>) (sample_db, no_files) =
       (\<lparr>status = 200, payload = VideoJ (Some sample_video)\<rparr>,
        (sample_db\<lparr>videos_tbl := [sample_video\<lparr>views := Some 1\<rparr>]\<rparr>, no_files))
   \<and> fst (getVideo 1 (sample_db\<lparr>videos_tbl := [sample_video\<lparr>views := Some 1\<rparr>]\<rparr>))
       = Inr (Some (sample_video\<lparr>views := Some 1\<rparr>))"
proof -
  have a: "params_id (anonymous\<lparr>params_id := Some 1\<rparr>) = Some 1"
    by simp
  have found: "first (filter (\<lambda>x. v_id x = 1) (videos_tbl sample_db)) = Some sample_video"
    by (simp add: sample_db_def empty_db_def sample_video_def first_def)
  have v0: "views sample_video = Some 0"
    by (simp add: sample_video_def)
  have upd: "map (views_plus 1 1) (videos_tbl sample_db) = [sample_video\<lparr>views := Some 1\<rparr>]"
    by (simp add: sample_db_def empty_db_def sample_video_def views_plus_def)
  have ok: "\<not> (\<exists>x \<in> set (videos_tbl sample_db). v_id x = 1 \<and> out_of_range (views x) 1)"
    by (simp add: sample_db_def empty_db_def sample_video_def out_of_range_def)
  have range: "int4 1"
    by (simp add: int4_def)
  from fetching_a_video_counts_a_view [OF a found, of no_files] v0 ok range
  show ?thesis by (simp add: upd found)
qed

lemma updateVideo_params:
  "rejected ([PText t] @ text_param d @ [PText th, PText c, PInt i]) = None
     \<longleftrightarrow> valid_text t \<and> (\<forall>x. d = Val x \<longrightarrow> valid_text x) \<and> valid_text th \<and> valid_text c
         \<and> int4 i"
  by (cases d) (auto simp: text_param_def)

text \<open>
  C10. PUT /api/videos/:id has no \<^verbatim>\<open>requireAuth\<close> and never reads \<^verbatim>\<open>req.user\<close>: two
  requests with the same path id and the same body fields (title, description,
  thumbnail, category, featured) have the same response and leave the same state,
  whatever their sessions, over any storage. On the id of an existing video, with a body
  whose title, thumbnail and category are strings and whose description is a string,
  null or absent, the request answers 200 with the rewritten row and stores it: title,
  thumbnail and category are those of the body, the description is that of the body
  (NULL for null, kept when absent), \<open>featured\<close> tells whether the body has the string
  \<open>true\<close> there, and every other column and row stays. The exception is a text holding the
  character U+0000 (or an id outside the 32 bits), which the database rejects: then the
  answer is 500 and nothing changes.
\<close>

theorem updating_a_video_ignores_the_session:
  "(params_id r1 = params_id r2 \<and> body_title r1 = body_title r2
      \<and> body_description r1 = body_description r2 \<and> body_thumbnail r1 = body_thumbnail r2
      \<and> body_category r1 = body_category r2 \<and> body_featured r1 = body_featured r2 \<longrightarrow>
      put_api_videos_id st r1 w = put_api_videos_id st r2 w)
   \<and> (params_id req = Some i \<and> first (filter (\<lambda>x. v_id x = i) (videos_tbl s)) = Some v
        \<and> body_title req = JStr t \<and> body_thumbnail req = JStr th \<and> body_category req = JStr c
        \<and> (body_description req = JUndefined \<or> body_description req = JNull
            \<or> body_description req = JStr d) \<longrightarrow>
      put_api_videos_id DatabaseStorage req (s, fs) =
        (if int4 i \<and> valid_text t \<and> valid_text th \<and> valid_text c
            \<and> (body_description req = JStr d \<longrightarrow> valid_text d)
         then
           (\<lparr>status = 200,
             payload = VideoJ (Some
               (v\<lparr>title := t,
                  description :=
                    (if body_description req = JStr d then Some d
                     else if body_description req = JNull then None else description v),
                  thumbnail := th, category := c,
                  featured := Some (body_featured req = JStr ''true'')\<rparr>))\<rparr>,
            (s\<lparr>videos_tbl :=
                 map (\<lambda>x. if v_id x = i
                          then x\<lparr>title := t,
                                 description :=
                                   (if body_description req = JStr d then Some d
                                    else if body_description req = JNull then None
                                    else description x),
                                 thumbnail := th, category := c,
                                 featured := Some (body_featured req = JStr ''true'')\<rparr>
                          else x) (videos_tbl s)\<rparr>,
             fs))
         else (\<lparr>status = 500, payload = Message ''Failed to update video''\<rparr>, (s, fs))))"
proof (intro conjI impI)
  assume "params_id r1 = params_id r2 \<and> body_title r1 = body_title r2
      \<and> body_description r1 = body_description r2 \<and> body_thumbnail r1 = body_thumbnail r2
      \<and> body_category r1 = body_category r2 \<and> body_featured r1 = body_featured r2"
  then have schema: "updateVideoSchema r1 = updateVideoSchema r2"
    and ident: "params_id r1 = params_id r2"
    by (auto simp: updateVideoSchema_def split: jval.splits option.splits)
  show "put_api_videos_id st r1 w = put_api_videos_id st r2 w"
    unfolding put_api_videos_id_def schema ident by (rule refl)
next
  let ?d = "if body_description req = JStr d then Val d
            else if body_description req = JNull then Null else Undefined"
  let ?data = "\<lparr>uv_title = t, uv_description = ?d, uv_thumbnail = th, uv_category = c,
                 uv_featured = Val (body_featured req = JStr ''true'')\<rparr>"
  let ?new = "\<lambda>x. x\<lparr>title := t,
                     description :=
                       (if body_description req = JStr d then Some d
                        else if body_description req = JNull then None else description x),
                     thumbnail := th, category := c,
                     featured := Some (body_featured req = JStr ''true'')\<rparr>"
  assume h: "params_id req = Some i \<and> first (filter (\<lambda>x. v_id x = i) (videos_tbl s)) = Some v
        \<and> body_title req = JStr t \<and> body_thumbnail req = JStr th \<and> body_category req = JStr c
        \<and> (body_description req = JUndefined \<or> body_description req = JNull
            \<or> body_description req = JStr d)"
  then have id: "params_id req = Some i"
    and found: "first (filter (\<lambda>x. v_id x = i) (videos_tbl s)) = Some v"
    by simp_all
  from h have schema: "updateVideoSchema req = Some ?data"
    by (auto simp: updateVideoSchema_def optional_string_def)
  have new: "set_video ?data = ?new"
    by (rule ext) (simp add: set_video_def set_nullable_def)
  have params: "rejected ([PText (uv_title ?data)] @ text_param (uv_description ?data)
          @ [PText (uv_thumbnail ?data), PText (uv_category ?data), PInt i]) = None
      \<longleftrightarrow> int4 i \<and> valid_text t \<and> valid_text th \<and> valid_text c
          \<and> (body_description req = JStr d \<longrightarrow> valid_text d)"
    unfolding updateVideo_params by auto
  show "put_api_videos_id DatabaseStorage req (s, fs) =
        (if int4 i \<and> valid_text t \<and> valid_text th \<and> valid_text c
            \<and> (body_description req = JStr d \<longrightarrow> valid_text d)
         then (\<lparr>status = 200, payload = VideoJ (Some (?new v))\<rparr>,
               (s\<lparr>videos_tbl := map (\<lambda>x. if v_id x = i then ?new x else x) (videos_tbl s)\<rparr>, fs))
         else (\<lparr>status = 500, payload = Message ''Failed to update video''\<rparr>, (s, fs)))"
  proof (cases "int4 i")
    case False
    then show ?thesis
      by (simp add: put_api_videos_id_def catch500_def id with_number_Some DatabaseStorage_def
          getVideo_eq await_on_store)
  next
    case True
    show ?thesis
    proof (cases "rejected ([PText (uv_title ?data)] @ text_param (uv_description ?data)
          @ [PText (uv_thumbnail ?data), PText (uv_category ?data), PInt i])")
      case None
      with params have ok: "int4 i \<and> valid_text t \<and> valid_text th \<and> valid_text c
          \<and> (body_description req = JStr d \<longrightarrow> valid_text d)"
        by simp
      from None have upd: "updateVideo i ?data s =
          (Inr (Some (?new v)),
           s\<lparr>videos_tbl := map (\<lambda>x. if v_id x = i then ?new x else x) (videos_tbl s)\<rparr>)"
        by (simp only: updateVideo_cases option.case found option.map new)
      have run: "put_api_videos_id DatabaseStorage req (s, fs) =
          (\<lparr>status = 200, payload = VideoJ (Some (?new v))\<rparr>,
           (s\<lparr>videos_tbl := map (\<lambda>x. if v_id x = i then ?new x else x) (videos_tbl s)\<rparr>, fs))"
        using True
        by (simp add: put_api_videos_id_def catch500_def id with_number_Some
            DatabaseStorage_def getVideo_eq await_on_store found schema upd respond_def ret_def)
      show ?thesis by (simp only: if_P [OF ok] run)
    next
      case (Some e)
      with params have bad: "\<not> (int4 i \<and> valid_text t \<and> valid_text th \<and> valid_text c
          \<and> (body_description req = JStr d \<longrightarrow> valid_text d))"
        by simp
      from Some have upd: "updateVideo i ?data s = (Inl e, s)"
        by (simp only: updateVideo_cases option.case)
      have run: "put_api_videos_id DatabaseStorage req (s, fs) =
          (\<lparr>status = 500, payload = Message ''Failed to update video''\<rparr>, (s, fs))"
        using True
        by (simp add: put_api_videos_id_def catch500_def id with_number_Some
            DatabaseStorage_def getVideo_eq await_on_store found schema upd)
      show ?thesis by (simp only: if_not_P [OF bad] run)
    qed
  qed
qed

theorem updating_a_video_ignores_the_session_witness:
  "put_api_videos_id DatabaseStorage
      (anonymous\<lparr>user := Some (account 7), params_id := Some 1, body_title := JStr ''Renamed'',
                  body_description := JStr ''New text'', body_thumbnail := JStr ''/uploads/n.png'',
                  body_category := JStr ''Comedy'', body_featured := JStr ''true''\<rparr>)
      (sample_db, no_files)
    = put_api_videos_id DatabaseStorage
      (anonymous\<lparr>params_id := Some 1, body_title := JStr ''Renamed'',
                  body_description := JStr ''New text'', body_thumbnail := JStr ''/uploads/n.png'',
                  body_category := JStr ''Comedy'', body_featured := JStr ''true''\<rparr>)
      (sample_db, no_files)
   \<and> put_api_videos_id DatabaseStorage
      (anonymous\<lparr>params_id := Some 1, body_title := JStr ''Renamed'',
                  body_description := JStr ''New text'', body_thumbnail := JStr ''/uploads/n.png'',
                  body_category := JStr ''Comedy'', body_featured := JStr ''true''\<rparr>)
      (sample_db, no_files)
    = (\<lparr>status = 200,
        payload = VideoJ (Some
          (sample_video\<lparr>title := ''Renamed'', description := Some ''New text'',
                         thumbnail := ''/uploads/n.png'', category := ''Comedy'',
                         featured := Some True\<rparr>))\<rparr>,
       (sample_db\<lparr>videos_tbl :=
           [sample_video\<lparr>title := ''Renamed'', description := Some ''New text'',
                          thumbnail := ''/uploads/n.png'', category := ''Comedy'',
                          featured := Some True\<rparr>]\<rparr>,
        no_files))
   \<and> put_api_videos_id DatabaseStorage
      (anonymous\<lparr>user := Some (account 2), params_id := Some 1,
                  body_title := JStr [CHR ''a'', CHR 0x00], body_description := JNull,
                  body_thumbnail := JStr ''/uploads/n.png'', body_category := JStr ''Comedy''\<rparr>)
      (sample_db, no_files)
    = (\<lparr>status = 500, payload = Message ''Failed to update video''\<rparr>, (sample_db, no_files))"
proof -
  let ?r1 = "anonymous\<lparr>user := Some (account 7), params_id := Some 1, body_title := JStr ''Renamed'',
                  body_description := JStr ''New text'', body_thumbnail := JStr ''/uploads/n.png'',
                  body_category := JStr ''Comedy'', body_featured := JStr ''true''\<rparr>"
  let ?r2 = "anonymous\<lparr>params_id := Some 1, body_title := JStr ''Renamed'',
                  body_description := JStr ''New text'', body_thumbnail := JStr ''/uploads/n.png'',
                  body_category := JStr ''Comedy'', body_featured := JStr ''true''\<rparr>"
  let ?r3 = "anonymous\<lparr>user := Some (account 2), params_id := Some 1,
                  body_title := JStr [CHR ''a'', CHR 0x00], body_description := JNull,
                  body_thumbnail := JStr ''/uploads/n.png'', body_category := JStr ''Comedy''\<rparr>"
  have same: "params_id ?r1 = params_id ?r2 \<and> body_title ?r1 = body_title ?r2
      \<and> body_description ?r1 = body_description ?r2 \<and> body_thumbnail ?r1 = body_thumbnail ?r2
      \<and> body_category ?r1 = body_category ?r2 \<and> body_featured ?r1 = body_featured ?r2"
    by simp
  have found: "first (filter (\<lambda>x. v_id x = 1) (videos_tbl sample_db)) = Some sample_video"
    by (simp add: sample_db_def empty_db_def sample_video_def first_def)
  have fields2: "params_id ?r2 = Some 1 \<and> body_title ?r2 = JStr ''Renamed''
      \<and> body_thumbnail ?r2 = JStr ''/uploads/n.png'' \<and> body_category ?r2 = JStr ''Comedy''
      \<and> body_description ?r2 = JStr ''New text'' \<and> body_featured ?r2 = JStr ''true''"
    by simp
  have fields3: "params_id ?r3 = Some 1 \<and> body_title ?r3 = JStr [CHR ''a'', CHR 0x00]
      \<and> body_thumbnail ?r3 = JStr ''/uploads/n.png'' \<and> body_category ?r3 = JStr ''Comedy''
      \<and> body_description ?r3 = JNull"
    by (simp add: anonymous_def)
  have tbl: "videos_tbl sample_db = [sample_video]" and id: "v_id sample_video = 1"
    by (simp_all add: sample_db_def empty_db_def sample_video_def)
  have valid: "int4 1 \<and> valid_text ''Renamed'' \<and> valid_text ''/uploads/n.png''
      \<and> valid_text ''Comedy'' \<and> valid_text ''New text'' \<and> \<not> valid_text [CHR ''a'', CHR 0x00]"
    by (simp add: int4_def valid_text_def)
  from updating_a_video_ignores_the_session
      [of ?r1 ?r2 DatabaseStorage "(sample_db, no_files)" ?r2 1 sample_db sample_video
        "''Renamed''" "''/uploads/n.png''" "''Comedy''" "''New text''" no_files]
    updating_a_video_ignores_the_session
      [of ?r1 ?r2 DatabaseStorage "(sample_db, no_files)" ?r3 1 sample_db sample_video
        "[CHR ''a'', CHR 0x00]" "''/uploads/n.png''" "''Comedy''" "''New text''" no_files]
    same found fields2 fields3 valid
  show ?thesis by (simp add: tbl id)
qed

text \<open>
  C7 fails on the code. The query \<open>_\<close> is a pattern character of ILIKE, so
  GET /api/videos/search?q=_ returns the sample video, although neither its title nor
  its description contains an underscore; the client's filter of the same purpose,
  \<open>filterVideosBySearchQuery\<close>, returns nothing for this query.
\<close>

theorem search_pattern_characters:
  "get_api_videos_search DatabaseStorage (anonymous\<lparr>query_q := Some ''_''\<rparr>) (sample_db, no_files)
     = (\<lparr>status = 200, payload = Videos [sample_video]\<rparr>, (sample_db, no_files))
   \<and> filterVideosBySearchQuery (videos_tbl sample_db) ''_'' = []
   \<and> \<not> str_includes (toLowerCase (title sample_video)) (toLowerCase ''_'')
   \<and> description sample_video = Some ''A gorilla runs''
   \<and> \<not> str_includes (toLowerCase ''A gorilla runs'') (toLowerCase ''_'')"
  by (simp add: get_api_videos_search_def catch500_def DatabaseStorage_def await_on_store
      searchVideos_def bound_apply valid_text_def select_where_def ilike_def lower_def
      respond_def ret_def anonymous_def sample_db_def empty_db_def sample_video_def
      filterVideosBySearchQuery_def toLowerCase_def Let_def)

text \<open>A missing or empty \<open>q\<close> is answered with 400, as C7 says.\<close>

lemma search_requires_query:
  "query_q req = None \<or> query_q req = Some [] \<Longrightarrow>
   get_api_videos_search st req w =
     (\<lparr>status = 400, payload = Message ''Search query is required''\<rparr>, w)"
  by (auto simp: get_api_videos_search_def catch500_def respond_def ret_def)

section \<open>ILIKE and substring search\<close>

lemma like_match_percent: "like_match ''%'' s"
  by (induction s) simp_all

lemma like_match_prefix:
  "plain q \<Longrightarrow> like_match (q @ ''%'') s = (take (length q) s = q)"
proof (induction q arbitrary: s)
  case Nil
  then show ?case by (simp add: like_match_percent)
next
  case (Cons c q)
  then have "plain q" and c: "c \<noteq> CHR ''%''" "c \<noteq> CHR ''_''" "c \<noteq> CHR 0x5C"
    by (simp_all add: plain_def)
  with Cons.IH show ?case by (cases s) auto
qed

lemma like_match_contains:
  "plain q \<Longrightarrow> like_match (''%'' @ q @ ''%'') s = str_includes s q"
proof (induction s)
  case Nil
  then show ?case using like_match_prefix [of q "[]"] by auto
next
  case (Cons x s)
  then show ?case using like_match_prefix [of q "x # s"] by simp
qed

lemma lower_cases: "lower c = c \<or> lower c \<in> set ''abcdefghijklmnopqrstuvwxyz''"
proof (cases "map_of (zip ''ABCDEFGHIJKLMNOPQRSTUVWXYZ'' ''abcdefghijklmnopqrstuvwxyz'') c")
  case None
  then show ?thesis by (simp add: lower_def)
next
  case (Some l)
  then have "(c, l) \<in> set (zip ''ABCDEFGHIJKLMNOPQRSTUVWXYZ'' ''abcdefghijklmnopqrstuvwxyz'')"
    by (rule map_of_SomeD)
  then have "l \<in> set ''abcdefghijklmnopqrstuvwxyz''"
    by (rule set_zip_rightD)
  moreover from Some have "lower c = l"
    by (simp only: lower_def option.case)
  ultimately show ?thesis by blast
qed

lemma lower_keeps_special:
  assumes "lower c = m" and "m \<notin> set ''abcdefghijklmnopqrstuvwxyz''"
  shows "c = m"
  using lower_cases [of c] assms by auto

lemma lower_plain: "plain q \<Longrightarrow> plain (map lower q)"
proof -
  assume p: "plain q"
  have "lower c \<noteq> CHR ''%'' \<and> lower c \<noteq> CHR ''_'' \<and> lower c \<noteq> CHR 0x5C" if "c \<in> set q" for c
  proof -
    from p that have c: "c \<noteq> CHR ''%''" "c \<noteq> CHR ''_''" "c \<noteq> CHR 0x5C"
      by (auto simp: plain_def)
    have "lower c = CHR ''%'' \<Longrightarrow> c = CHR ''%''"
      by (erule lower_keeps_special) simp
    moreover have "lower c = CHR ''_'' \<Longrightarrow> c = CHR ''_''"
      by (erule lower_keeps_special) simp
    moreover have "lower c = CHR 0x5C \<Longrightarrow> c = CHR 0x5C"
      by (erule lower_keeps_special) simp
    ultimately show ?thesis using c by blast
  qed
  then show ?thesis by (simp add: plain_def)
qed

lemma lower_percent: "lower CHR ''%'' = CHR ''%''"
  by (simp add: lower_def)

lemma ilike_contains:
  "plain q \<Longrightarrow> ilike x (''%'' @ q @ ''%'') = str_includes (toLowerCase x) (toLowerCase q)"
  using like_match_contains [OF lower_plain, of q "map lower x"]
  by (simp add: ilike_def toLowerCase_def lower_percent)

lemma str_includes_empty: "q \<noteq> [] \<Longrightarrow> \<not> str_includes [] q"
  by simp

text \<open>
  For a non-empty query without the characters \<open>%\<close>, \<open>_\<close> and backslash the server's
  search returns what the client's filter returns: the videos whose title or description
  contains the query, letter case ignored. (A query holding the character U+0000 is
  rejected by the database.)
\<close>

lemma searchVideos_plain_query:
  assumes "plain query" and "query \<noteq> []"
  shows "searchVideos query s =
    (if valid_text query then (Inr (filterVideosBySearchQuery (videos_tbl s) query), s)
     else (Inl CharacterNotInRepertoire, s))"
proof -
  have "(case d of None \<Rightarrow> False | Some x \<Rightarrow> str_includes (toLowerCase x) (toLowerCase query))
      = (case d of None \<Rightarrow> False
         | Some x \<Rightarrow> x \<noteq> [] \<and> str_includes (toLowerCase x) (toLowerCase query))" for d
    using assms(2) by (cases d) (auto simp: toLowerCase_def)
  with assms(1) show ?thesis
    by (simp add: searchVideos_def bound_apply valid_text_def select_where_def
        filterVideosBySearchQuery_def ilike_contains [simplified] Let_def
        cong: option.case_cong)
qed

section \<open>What the stored rows keep true\<close>

lemma snd_bound:
  "snd (bound ps m s) = (if rejected ps = None then snd (m s) else s)"
  by (simp add: bound_apply split: option.splits)

lemma snd_first: "snd (await m (\<lambda>result. ret (f result)) s) = snd (m s)"
  by (cases "m s") (auto simp: await_def ret_def split: sum.splits)

lemma createUser_videos: "videos_tbl (snd (createUser nu s)) = videos_tbl s"
  by (simp add: createUser_def snd_bound Let_def)

lemma updateUser_videos: "videos_tbl (snd (updateUser i uu s)) = videos_tbl s"
  by (auto simp: updateUser_def throw_def snd_first snd_bound update_users_def
      split: sum.splits prod.splits)

lemma createComment_videos: "videos_tbl (snd (createComment c s)) = videos_tbl s"
  by (simp add: createComment_def snd_bound Let_def)

lemma deleteComment_videos: "videos_tbl (snd (deleteComment i u s)) = videos_tbl s"
  by (simp add: deleteComment_def snd_bound Let_def)

lemma updateComment_videos: "videos_tbl (snd (updateComment i u uc s)) = videos_tbl s"
  by (simp add: updateComment_def snd_first snd_bound update_comments_def update_rows_total)

lemma views_set_likes:
  "views_set s \<Longrightarrow> views_set (snd (likeVideo u v s))"
  "views_set s \<Longrightarrow> views_set (snd (unlikeVideo u v s))"
  "views_set s \<Longrightarrow> views_set (snd (dislikeVideo u v s))"
  "views_set s \<Longrightarrow> views_set (snd (undislikeVideo u v s))"
proof -
  assume a: "views_set s"
  show "views_set (snd (likeVideo u v s))"
    by (cases "filter (same_key u v) (likes_tbl s)")
       (use a in \<open>auto simp: likeVideo_new likeVideo_existing views_set_def likes_plus_def\<close>)
  show "views_set (snd (dislikeVideo u v s))"
    by (cases "filter (same_key u v) (dislikes_tbl s)")
       (use a in \<open>auto simp: dislikeVideo_new dislikeVideo_existing views_set_def dislikes_plus_def\<close>)
  show "views_set (snd (unlikeVideo u v s))"
    using a by (auto simp: unlikeVideo_eq views_set_def likes_plus_def)
  show "views_set (snd (undislikeVideo u v s))"
    using a by (auto simp: undislikeVideo_eq views_set_def dislikes_plus_def)
qed

lemma views_set_other:
  "views_set s \<Longrightarrow> views_set (snd (createUser nu s))"
  "views_set s \<Longrightarrow> views_set (snd (updateUser i uu s))"
  "views_set s \<Longrightarrow> views_set (snd (createVideo iv s))"
  "views_set s \<Longrightarrow> views_set (snd (deleteVideo i s))"
  "views_set s \<Longrightarrow> views_set (snd (addToWatchlist item s))"
  "views_set s \<Longrightarrow> views_set (snd (removeFromWatchlist u v s))"
  "views_set s \<Longrightarrow> views_set (snd (createComment c s))"
  "views_set s \<Longrightarrow> views_set (snd (deleteComment i u s))"
  "views_set s \<Longrightarrow> views_set (snd (updateComment i u uc s))"
  "views_set s \<Longrightarrow> views_set (snd (incrementViews i s))"
  "views_set s \<Longrightarrow> views_set (snd (updateVideo i uv s))"
proof -
  assume a: "views_set s"
  show "views_set (snd (createUser nu s))"
    using a by (simp add: views_set_def createUser_videos)
  show "views_set (snd (updateUser i uu s))"
    using a by (simp add: views_set_def updateUser_videos)
  show "views_set (snd (createVideo iv s))"
    using a by (simp add: views_set_def createVideo_def snd_bound Let_def)
  show "views_set (snd (deleteVideo i s))"
    using a by (simp add: views_set_def deleteVideo_eq)
  show "views_set (snd (addToWatchlist item s))"
    using a by (simp add: views_set_def addToWatchlist_eq)
  show "views_set (snd (removeFromWatchlist u v s))"
    using a by (simp add: views_set_def removeFromWatchlist_eq)
  show "views_set (snd (createComment c s))"
    using a by (simp add: views_set_def createComment_videos)
  show "views_set (snd (deleteComment i u s))"
    using a by (simp add: views_set_def deleteComment_videos)
  show "views_set (snd (updateComment i u uc s))"
    using a by (simp add: views_set_def updateComment_videos)
  show "views_set (snd (incrementViews i s))"
    using a by (auto simp: incrementViews_eq views_set_def views_plus_def)
  show "views_set (snd (updateVideo i uv s))"
    using a by (auto simp: updateVideo_cases views_set_def set_video_def split: option.splits)
qed

lemma views_set_perform: "views_set s \<Longrightarrow> views_set (perform c s)"
  by (cases c) (simp_all add: views_set_likes views_set_other, simp add: views_set_def)

text \<open>
  Whatever storage calls are made from the empty database, the views column is never
  NULL, so the views of an existing video are always a number.
\<close>

lemma views_never_null:
  "\<forall>x \<in> set (videos_tbl (run_calls cs empty_db)). views x \<noteq> None"
proof -
  have "views_set s \<Longrightarrow> views_set (fold perform cs s)" for s
    by (induction cs arbitrary: s) (simp_all add: views_set_perform)
  from this [of empty_db] show ?thesis
    by (simp add: run_calls_def views_set_def empty_db_def)
qed

lemma ids_likes:
  "ids_in_range s \<Longrightarrow> ids_in_range (snd (likeVideo u v s))"
  "ids_in_range s \<Longrightarrow> ids_in_range (snd (unlikeVideo u v s))"
  "ids_in_range s \<Longrightarrow> ids_in_range (snd (dislikeVideo u v s))"
  "ids_in_range s \<Longrightarrow> ids_in_range (snd (undislikeVideo u v s))"
proof -
  assume a: "ids_in_range s"
  show "ids_in_range (snd (likeVideo u v s))"
    by (cases "filter (same_key u v) (likes_tbl s)")
       (use a in \<open>auto simp: likeVideo_new likeVideo_existing ids_in_range_def likes_plus_def
          new_row_def list_all_iff\<close>)
  show "ids_in_range (snd (dislikeVideo u v s))"
    by (cases "filter (same_key u v) (dislikes_tbl s)")
       (use a in \<open>auto simp: dislikeVideo_new dislikeVideo_existing ids_in_range_def
          dislikes_plus_def new_row_def list_all_iff\<close>)
  show "ids_in_range (snd (unlikeVideo u v s))"
    using a by (auto simp: unlikeVideo_eq ids_in_range_def likes_plus_def list_all_iff)
  show "ids_in_range (snd (undislikeVideo u v s))"
    using a by (auto simp: undislikeVideo_eq ids_in_range_def dislikes_plus_def list_all_iff)
qed

lemma ids_createVideo: "ids_in_range s \<Longrightarrow> ids_in_range (snd (createVideo iv s))"
  by (auto simp: createVideo_def snd_bound Let_def ids_in_range_def exhausted_def int4_def
      list_all_iff)

lemma ids_other:
  "ids_in_range s \<Longrightarrow> ids_in_range (snd (createUser nu s))"
  "ids_in_range s \<Longrightarrow> ids_in_range (snd (updateUser i uu s))"
  "ids_in_range s \<Longrightarrow> ids_in_range (snd (deleteVideo i s))"
  "ids_in_range s \<Longrightarrow> ids_in_range (snd (addToWatchlist item s))"
  "ids_in_range s \<Longrightarrow> ids_in_range (snd (removeFromWatchlist u v s))"
  "ids_in_range s \<Longrightarrow> ids_in_range (snd (createComment c s))"
  "ids_in_range s \<Longrightarrow> ids_in_range (snd (deleteComment i u s))"
  "ids_in_range s \<Longrightarrow> ids_in_range (snd (updateComment i u uc s))"
  "ids_in_range s \<Longrightarrow> ids_in_range (snd (incrementViews i s))"
  "ids_in_range s \<Longrightarrow> ids_in_range (snd (updateVideo i uv s))"
proof -
  assume a: "ids_in_range s"
  show "ids_in_range (snd (createUser nu s))"
    using a by (simp add: ids_in_range_def createUser_def snd_bound Let_def)
  show "ids_in_range (snd (updateUser i uu s))"
    using a by (auto simp: ids_in_range_def updateUser_def throw_def snd_first snd_bound
        update_users_def split: sum.splits prod.splits)
  show "ids_in_range (snd (deleteVideo i s))"
    using a by (auto simp: ids_in_range_def deleteVideo_eq list_all_iff)
  show "ids_in_range (snd (addToWatchlist item s))"
    using a by (auto simp: ids_in_range_def addToWatchlist_eq new_item_def list_all_iff)
  show "ids_in_range (snd (removeFromWatchlist u v s))"
    using a by (auto simp: ids_in_range_def removeFromWatchlist_eq list_all_iff)
  show "ids_in_range (snd (createComment c s))"
    using a by (simp add: ids_in_range_def createComment_def snd_bound Let_def)
  show "ids_in_range (snd (deleteComment i u s))"
    using a by (simp add: ids_in_range_def deleteComment_def snd_bound Let_def)
  show "ids_in_range (snd (updateComment i u uc s))"
    using a by (simp add: ids_in_range_def updateComment_def snd_first snd_bound
        update_comments_def update_rows_total)
  show "ids_in_range (snd (incrementViews i s))"
    using a by (auto simp: incrementViews_eq ids_in_range_def views_plus_def list_all_iff)
  show "ids_in_range (snd (updateVideo i uv s))"
    using a by (auto simp: updateVideo_cases ids_in_range_def set_video_def list_all_iff
        split: option.splits)
qed

lemma ids_perform: "ids_in_range s \<Longrightarrow> ids_in_range (perform c s)"
  by (cases c) (simp_all add: ids_likes ids_createVideo ids_other, simp add: ids_in_range_def)

text \<open>
  Whatever storage calls are made from the empty database, every stored video id and
  every stored (user, video) key is a 32-bit number: an id outside that range is the id
  of no stored video.
\<close>

lemma stored_ids_in_range: "ids_in_range (run_calls cs empty_db)"
proof -
  have "ids_in_range s \<Longrightarrow> ids_in_range (fold perform cs s)" for s
    by (induction cs arbitrary: s) (simp_all add: ids_perform)
  from this [of empty_db] show ?thesis
    by (simp add: run_calls_def ids_in_range_def empty_db_def)
qed

end
